theory Spec2Isabelle
  imports Main "HOL-Library.Word" "HOL-Library.Signed_Division" "HOL-Library.Monad_Syntax"
begin

unbundle bit_operations_syntax

chapter \<open>KNES: bus, PPU, APU registers, MMC1 and controller\<close>

text \<open>
  A shallow embedding of the parts of KNES (\<^verbatim>\<open>NES.h\<close>, \<^verbatim>\<open>NES.cpp\<close>, \<^verbatim>\<open>memory.cpp\<close>,
  \<^verbatim>\<open>cpu.cpp\<close>) that route CPU bus accesses, advance the PPU by one dot, service
  interrupts and bank-switch the cartridge.

  Conventions.
  \<^item> \<^verbatim>\<open>uint8_t\<close>, \<^verbatim>\<open>uint16_t\<close>, \<^verbatim>\<open>uint32_t\<close>, \<^verbatim>\<open>uint64_t\<close> are words of that width; an
    expression that C++ evaluates in \<^verbatim>\<open>int\<close> and stores into a narrower unsigned
    variable is computed in the width of that variable (the two agree modulo the width).
  \<^item> \<^verbatim>\<open>int\<close> fields (\<^verbatim>\<open>cycle\<close>, \<^verbatim>\<open>scanline\<close>, \<^verbatim>\<open>sprite_cnt\<close>, \<^verbatim>\<open>stall\<close>, bank
    offsets) are mathematical integers; \<^verbatim>\<open>>>\<close> on them is \<open>div\<close> by a power of two and
    \<^verbatim>\<open>%\<close> is the truncating \<open>smod\<close>.
  \<^item> An array is a total map from the C index (an \<^verbatim>\<open>int\<close>) to its element. The source
    never checks a bound; an index outside the allocation is an access to the map at that
    index.
  \<^item> Where the source would trap or hang, the model returns \<open>None\<close>: the integer division
    by zero of the bank-offset computations, and a sprite loop that cannot leave.
  \<^item> Records cannot share field names, so the fields of \<^verbatim>\<open>Triangle\<close>, \<^verbatim>\<open>Noise\<close>,
    \<^verbatim>\<open>DMC\<close>, the mappers and the one-letter PPU and CPU registers (and the PPU frame buffers) carry a prefix;
    \<^verbatim>\<open>Cartridge::CHR\<close> is \<open>cart_CHR\<close>.
  \<^item> The PortAudio ring buffer of the APU and the messages written to \<^verbatim>\<open>std::cerr\<close> are
    outside the model.
\<close>

type_synonym u8 = "8 word"
type_synonym u16 = "16 word"
type_synonym u32 = "32 word"
type_synonym u64 = "64 word"
type_synonym 'a array = "int \<Rightarrow> 'a"

section \<open>Data model (\<^verbatim>\<open>NES.h\<close>)\<close>

text \<open>\<^verbatim>\<open>enum Interrupts\<close> and \<^verbatim>\<open>enum MirrorModes\<close>, stored in \<^verbatim>\<open>uint8_t\<close> fields.\<close>

definition interruptNone :: u8 where "interruptNone = 1"
definition interruptNMI :: u8 where "interruptNMI = 2"
definition interruptIRQ :: u8 where "interruptIRQ = 3"

definition MirrorHorizontal :: u8 where "MirrorHorizontal = 0"
definition MirrorVertical :: u8 where "MirrorVertical = 1"
definition MirrorSingle0 :: u8 where "MirrorSingle0 = 2"
definition MirrorSingle1 :: u8 where "MirrorSingle1 = 3"
definition MirrorFour :: u8 where "MirrorFour = 4"

record DMC =
  dmc_enabled :: bool
  dmc_value :: u8
  samp_addr :: u16
  samp_len :: u16
  cur_addr :: u16
  cur_len :: u16
  dmc_shift_reg :: u8
  bit_count :: u8
  tick_period :: u8
  tick_val :: u8
  dmc_loop :: bool
  dmc_irq :: bool

record Pulse =
  enabled :: bool
  channel :: u8
  length_enabled :: bool
  length_val :: u8
  timer_period :: u16
  timer_val :: u16
  duty_mode :: u8
  duty_val :: u8
  sweep_reload :: bool
  sweep_enabled :: bool
  sweep_negate :: bool
  sweep_shift :: u8
  sweep_period :: u8
  sweep_val :: u8
  envelope_enabled :: bool
  envelope_loop :: bool
  envelope_start :: bool
  envelope_period :: u8
  envelope_val :: u8
  envelope_vol :: u8
  const_vol :: u8

record Triangle =
  tri_enabled :: bool
  tri_length_enabled :: bool
  tri_length_val :: u8
  tri_timer_period :: u16
  tri_timer_val :: u16
  tri_duty_val :: u8
  counter_period :: u8
  counter_val :: u8
  counter_reload :: bool

record Noise =
  noi_enabled :: bool
  noi_mode :: bool
  noi_shift_reg :: u16
  noi_length_enabled :: bool
  noi_length_val :: u8
  noi_timer_period :: u16
  noi_timer_val :: u16
  noi_envelope_enabled :: bool
  noi_envelope_loop :: bool
  noi_envelope_start :: bool
  noi_envelope_period :: u8
  noi_envelope_val :: u8
  noi_envelope_vol :: u8
  noi_const_vol :: u8

record APU =
  pulse1 :: Pulse
  pulse2 :: Pulse
  triangle :: Triangle
  noise :: Noise
  dmc :: DMC
  apu_cycle :: u64
  frame_period :: u8
  frame_val :: u8
  frame_IRQ :: bool

record Cartridge =
  PRG :: "u8 array"
  prg_size :: int
  cart_CHR :: "u8 array"
  chr_size :: int
  SRAM :: "u8 array"
  trainer_present :: bool
  trainer :: "u8 array"
  cart_mapper :: u8
  mirror :: u8
  battery_present :: u8

record CPU =
  cycles :: u64
  PC :: u16
  SP :: u8
  cpu_A :: u8
  cpu_X :: u8
  cpu_Y :: u8
  flags :: u8
  interrupt :: u8
  stall :: int

record PPU =
  cycle :: int
  scanline :: int
  frame :: u64
  palette_tbl :: "u8 array"
  name_tbl :: "u8 array"
  oam_tbl :: "u8 array"
  ppu_front :: "u32 array"
  ppu_back :: "u32 array"
  ppu_v :: u16
  ppu_t :: u16
  ppu_x :: u8
  ppu_w :: u8
  ppu_f :: u8
  reg :: u8
  nmi_occurred :: bool
  nmi_out :: bool
  nmi_last :: bool
  nmi_delay :: u8
  name_tbl_u8 :: u8
  attrib_tbl_u8 :: u8
  low_tile_u8 :: u8
  high_tile_u8 :: u8
  tile_data :: u64
  sprite_cnt :: int
  sprite_patterns :: "u32 array"
  sprite_pos :: "u8 array"
  sprite_priorities :: "u8 array"
  sprite_idx :: "u8 array"
  flag_name_tbl :: u8
  flag_increment :: u8
  flag_sprite_tbl :: u8
  flag_background_tbl :: u8
  flag_sprite_size :: u8
  flag_rw :: u8
  flag_gray :: u8
  flag_show_left_background :: u8
  flag_show_left_sprites :: u8
  flag_show_background :: u8
  flag_show_sprites :: u8
  flag_red_tint :: u8
  flag_green_tint :: u8
  flag_blue_tint :: u8
  flag_sprite_zero_hit :: u8
  flag_sprite_overflow :: u8
  oam_addr :: u8
  buffered_data :: u8

record Controller =
  buttons :: u8
  index :: u8
  strobe :: u8

record Mapper1 =
  m1_shift_reg :: u8
  m1_control :: u8
  m1_prg_mode :: u8
  m1_chr_mode :: u8
  m1_prg_bank :: u8
  m1_chr_bank0 :: u8
  m1_chr_bank1 :: u8
  m1_prg_offsets :: "int array"
  m1_chr_offsets :: "int array"

record Mapper2 =
  m2_prg_banks :: int
  m2_prg_bank1 :: int
  m2_prg_bank2 :: int

record Mapper3 =
  m3_chr_bank :: int
  m3_prg_bank1 :: int
  m3_prg_bank2 :: int

record Mapper4 =
  m4_reg :: u8
  m4_regs :: "u8 array"
  m4_prg_mode :: u8
  m4_chr_mode :: u8
  m4_prg_offsets :: "int array"
  m4_chr_offsets :: "int array"
  m4_reload :: u8
  m4_counter :: u8
  m4_IRQ_enable :: bool

record Mapper7 =
  m7_prg_bank :: int

text \<open>The subclasses of the abstract \<^verbatim>\<open>struct Mapper\<close>; virtual dispatch is a case
  distinction on the constructor.\<close>

datatype Mapper =
  IsMapper1 Mapper1
  | IsMapper2 Mapper2
  | IsMapper3 Mapper3
  | IsMapper4 Mapper4
  | IsMapper7 Mapper7

record NES =
  cpu :: CPU
  apu :: APU
  ppu :: PPU
  cartridge :: Cartridge
  controller1 :: Controller
  controller2 :: Controller
  mapper :: Mapper
  RAM :: "u8 array"

section \<open>Tables (\<^verbatim>\<open>memory.cpp\<close>)\<close>

definition length_tbl :: "u8 list" where
  "length_tbl =
    [10, 254, 20, 2, 40, 4, 80, 6, 160, 8, 60, 10, 14, 12, 26, 14,
     12, 16, 24, 18, 48, 20, 96, 22, 192, 24, 72, 26, 16, 28, 32, 30]"

definition dmc_tbl :: "u8 list" where
  "dmc_tbl = [214, 190, 170, 160, 143, 127, 113, 107, 95, 80, 71, 64, 53, 42, 36, 27]"

definition noise_tbl :: "u16 list" where
  "noise_tbl = [4, 8, 16, 32, 64, 96, 128, 160, 202, 254, 380, 508, 762, 1016, 2034, 4068]"

definition mirror_tbl :: "u16 list list" where
  "mirror_tbl = [[0, 0, 1, 1], [0, 1, 0, 1], [0, 0, 0, 0], [1, 1, 1, 1], [0, 1, 2, 3]]"

section \<open>Controller (\<^verbatim>\<open>memory.cpp\<close>)\<close>

text \<open>\<^verbatim>\<open>readController\<close>: the value is 1 iff \<^verbatim>\<open>index < 8\<close> and bit \<^verbatim>\<open>index\<close> of the buttons is
  set; then \<^verbatim>\<open>++c->index\<close> on a \<^verbatim>\<open>uint8_t\<close>; then the strobe test.\<close>

definition readController :: "Controller \<Rightarrow> u8 \<times> Controller" where
  "readController c =
    (let value = (if index c < 8 \<and> drop_bit (unat (index c)) (buttons c) AND 1 \<noteq> 0
                  then 1 else 0);
         c1 = c\<lparr>index := index c + 1\<rparr>;
         c2 = (if strobe c1 AND 1 = 1 then c1\<lparr>index := 0\<rparr> else c1)
     in (value, c2))"

definition writeController :: "Controller \<Rightarrow> u8 \<Rightarrow> Controller" where
  "writeController c value =
    (let c1 = c\<lparr>strobe := value\<rparr>
     in if strobe c1 AND 1 = 1 then c1\<lparr>index := 0\<rparr> else c1)"

section \<open>APU register writes (\<^verbatim>\<open>memory.cpp\<close>, \<^verbatim>\<open>NES.cpp\<close>)\<close>

definition pulseWriteControl :: "Pulse \<Rightarrow> u8 \<Rightarrow> Pulse" where
  "pulseWriteControl p value =
    p\<lparr>duty_mode := drop_bit 6 value AND 3,
      length_enabled := (drop_bit 5 value AND 1 = 0),
      envelope_loop := (drop_bit 5 value AND 1 = 1),
      envelope_enabled := (drop_bit 4 value AND 1 = 0),
      envelope_period := value AND 15,
      const_vol := value AND 15,
      envelope_start := True\<rparr>"

definition pulseWriteSweep :: "Pulse \<Rightarrow> u8 \<Rightarrow> Pulse" where
  "pulseWriteSweep p value =
    p\<lparr>sweep_enabled := (drop_bit 7 value AND 1 = 1),
      sweep_period := (drop_bit 4 value AND 7) + 1,
      sweep_negate := (drop_bit 3 value AND 1 = 1),
      sweep_shift := value AND 7,
      sweep_reload := True\<rparr>"

definition pulseWriteTimerHigh :: "Pulse \<Rightarrow> u8 \<Rightarrow> Pulse" where
  "pulseWriteTimerHigh p value =
    p\<lparr>length_val := length_tbl ! unat (drop_bit 3 value),
      timer_period := (timer_period p AND 0x00FF) OR push_bit 8 (ucast (value AND 7)),
      envelope_start := True,
      duty_val := 0\<rparr>"

definition dmcRestart :: "DMC \<Rightarrow> DMC" where
  "dmcRestart d = d\<lparr>cur_addr := samp_addr d, cur_len := samp_len d\<rparr>"

definition pulseTickEnvelope :: "Pulse \<Rightarrow> Pulse" where
  "pulseTickEnvelope p =
    (if envelope_start p then
       p\<lparr>envelope_vol := 15, envelope_val := envelope_period p, envelope_start := False\<rparr>
     else if envelope_val p > 0 then
       p\<lparr>envelope_val := envelope_val p - 1\<rparr>
     else
       (let p1 = (if envelope_vol p > 0 then p\<lparr>envelope_vol := envelope_vol p - 1\<rparr>
                  else if envelope_loop p then p\<lparr>envelope_vol := 15\<rparr>
                  else p)
        in p1\<lparr>envelope_val := envelope_period p1\<rparr>))"

definition tickEnvelope :: "APU \<Rightarrow> APU" where
  "tickEnvelope a =
    (let a1 = a\<lparr>pulse1 := pulseTickEnvelope (pulse1 a)\<rparr>;
         a2 = a1\<lparr>pulse2 := pulseTickEnvelope (pulse2 a1)\<rparr>;
         t = triangle a2;
         t1 = (if counter_reload t then t\<lparr>counter_val := counter_period t\<rparr>
               else if counter_val t > 0 then t\<lparr>counter_val := counter_val t - 1\<rparr>
               else t);
         t2 = (if tri_length_enabled t1 then t1\<lparr>counter_reload := False\<rparr> else t1);
         n = noise a2;
         n1 =
           (if noi_envelope_start n then
              n\<lparr>noi_envelope_vol := 15, noi_envelope_val := noi_envelope_period n,
                noi_envelope_start := False\<rparr>
            else if noi_envelope_val n > 0 then
              n\<lparr>noi_envelope_val := noi_envelope_val n - 1\<rparr>
            else
              (let n' = (if noi_envelope_vol n > 0
                           then n\<lparr>noi_envelope_vol := noi_envelope_vol n - 1\<rparr>
                         else if noi_envelope_loop n then n\<lparr>noi_envelope_vol := 15\<rparr>
                         else n)
               in n'\<lparr>noi_envelope_val := noi_envelope_period n'\<rparr>))
     in a2\<lparr>triangle := t2, noise := n1\<rparr>)"

definition tickLength :: "APU \<Rightarrow> APU" where
  "tickLength a =
    (let p1 = pulse1 a;
         a1 = (if length_enabled p1 \<and> length_val p1 > 0
               then a\<lparr>pulse1 := p1\<lparr>length_val := length_val p1 - 1\<rparr>\<rparr> else a);
         p2 = pulse2 a1;
         a2 = (if length_enabled p2 \<and> length_val p2 > 0
               then a1\<lparr>pulse2 := p2\<lparr>length_val := length_val p2 - 1\<rparr>\<rparr> else a1);
         t = triangle a2;
         a3 = (if tri_length_enabled t \<and> tri_length_val t > 0
               then a2\<lparr>triangle := t\<lparr>tri_length_val := tri_length_val t - 1\<rparr>\<rparr> else a2);
         n = noise a3
     in if noi_length_enabled n \<and> noi_length_val n > 0
        then a3\<lparr>noise := n\<lparr>noi_length_val := noi_length_val n - 1\<rparr>\<rparr> else a3)"

definition sweep :: "Pulse \<Rightarrow> Pulse" where
  "sweep p =
    (let delta = drop_bit (unat (sweep_shift p)) (timer_period p)
     in if sweep_negate p then
          (let p1 = p\<lparr>timer_period := timer_period p - delta\<rparr>
           in if channel p1 = 1 then p1\<lparr>timer_period := timer_period p1 - 1\<rparr> else p1)
        else p\<lparr>timer_period := timer_period p + delta\<rparr>)"

definition pulseTickSweep :: "Pulse \<Rightarrow> Pulse" where
  "pulseTickSweep p =
    (if sweep_reload p then
       (let p1 = (if sweep_enabled p \<and> sweep_val p = 0 then sweep p else p)
        in p1\<lparr>sweep_val := sweep_period p1, sweep_reload := False\<rparr>)
     else if sweep_val p > 0 then
       p\<lparr>sweep_val := sweep_val p - 1\<rparr>
     else
       (let p1 = (if sweep_enabled p then sweep p else p)
        in p1\<lparr>sweep_val := sweep_period p1\<rparr>))"

definition tickSweep :: "APU \<Rightarrow> APU" where
  "tickSweep a =
    (let a1 = a\<lparr>pulse1 := pulseTickSweep (pulse1 a)\<rparr>
     in a1\<lparr>pulse2 := pulseTickSweep (pulse2 a1)\<rparr>)"

text \<open>\<^verbatim>\<open>writeRegisterAPU\<close>. The \<^verbatim>\<open>switch\<close> is an \<open>if\<close> chain in the order of its labels.
  The labels \<^verbatim>\<open>case 0x4009:\<close> and \<^verbatim>\<open>case 0x400D:\<close> have no statement and no
  \<^verbatim>\<open>break\<close>: control falls through to the statements of \<^verbatim>\<open>case 0x4010:\<close> and
  \<^verbatim>\<open>case 0x400E:\<close>.\<close>

definition writeRegisterAPU :: "APU \<Rightarrow> u16 \<Rightarrow> u8 \<Rightarrow> APU" where
  "writeRegisterAPU a address value =
    (if address = 0x4000 then a\<lparr>pulse1 := pulseWriteControl (pulse1 a) value\<rparr>
     else if address = 0x4001 then a\<lparr>pulse1 := pulseWriteSweep (pulse1 a) value\<rparr>
     else if address = 0x4002 then
       a\<lparr>pulse1 := (pulse1 a)\<lparr>timer_period :=
            (timer_period (pulse1 a) AND 0xFF00) OR ucast value\<rparr>\<rparr>
     else if address = 0x4003 then a\<lparr>pulse1 := pulseWriteTimerHigh (pulse1 a) value\<rparr>
     else if address = 0x4004 then a\<lparr>pulse2 := pulseWriteControl (pulse2 a) value\<rparr>
     else if address = 0x4005 then a\<lparr>pulse2 := pulseWriteSweep (pulse2 a) value\<rparr>
     else if address = 0x4006 then
       a\<lparr>pulse2 := (pulse2 a)\<lparr>timer_period :=
            (timer_period (pulse2 a) AND 0xFF00) OR ucast value\<rparr>\<rparr>
     else if address = 0x4007 then a\<lparr>pulse2 := pulseWriteTimerHigh (pulse2 a) value\<rparr>
     else if address = 0x4008 then
       a\<lparr>triangle := (triangle a)\<lparr>tri_length_enabled := (drop_bit 7 value AND 1 = 0),
            counter_period := value AND 0x7F\<rparr>\<rparr>
     else if address = 0x4009 \<or> address = 0x4010 then
       a\<lparr>dmc := (dmc a)\<lparr>dmc_irq := (value AND 0x80 = 0x80),
            dmc_loop := (value AND 0x40 = 0x40),
            tick_period := dmc_tbl ! unat (value AND 0x0F)\<rparr>\<rparr>
     else if address = 0x4011 then a\<lparr>dmc := (dmc a)\<lparr>dmc_value := value AND 0x7F\<rparr>\<rparr>
     else if address = 0x4012 then
       a\<lparr>dmc := (dmc a)\<lparr>samp_addr := 0xC000 OR push_bit 6 (ucast value)\<rparr>\<rparr>
     else if address = 0x4013 then
       a\<lparr>dmc := (dmc a)\<lparr>samp_len := push_bit 4 (ucast value) OR 1\<rparr>\<rparr>
     else if address = 0x400A then
       a\<lparr>triangle := (triangle a)\<lparr>tri_timer_period :=
            (tri_timer_period (triangle a) AND 0xFF00) OR ucast value\<rparr>\<rparr>
     else if address = 0x400B then
       (let t = triangle a;
            t1 = t\<lparr>tri_length_val := length_tbl ! unat (drop_bit 3 value)\<rparr>;
            t2 = t1\<lparr>tri_timer_period :=
                   (tri_timer_period t1 AND 0x00FF) OR push_bit 8 (ucast (value AND 7))\<rparr>;
            t3 = t2\<lparr>tri_timer_val := tri_timer_period t2\<rparr>
        in a\<lparr>triangle := t3\<lparr>counter_reload := True\<rparr>\<rparr>)
     else if address = 0x400C then
       a\<lparr>noise := (noise a)\<lparr>noi_length_enabled := (drop_bit 5 value AND 1 = 0),
            noi_envelope_loop := (drop_bit 5 value AND 1 = 1),
            noi_envelope_enabled := (drop_bit 4 value AND 1 = 0),
            noi_envelope_period := value AND 15,
            noi_const_vol := value AND 15,
            noi_envelope_start := True\<rparr>\<rparr>
     else if address = 0x400D \<or> address = 0x400E then
       a\<lparr>noise := (noise a)\<lparr>noi_mode := (value AND 0x80 = 0x80),
            noi_timer_period := noise_tbl ! unat (value AND 0x0F)\<rparr>\<rparr>
     else if address = 0x400F then
       a\<lparr>noise := (noise a)\<lparr>noi_length_val := length_tbl ! unat (drop_bit 3 value),
            noi_envelope_start := True\<rparr>\<rparr>
     else if address = 0x4015 then
       (let a1 = a\<lparr>pulse1 := (pulse1 a)\<lparr>enabled := (value AND 1 = 1)\<rparr>,
                    pulse2 := (pulse2 a)\<lparr>enabled := (value AND 2 = 2)\<rparr>,
                    triangle := (triangle a)\<lparr>tri_enabled := (value AND 4 = 4)\<rparr>,
                    noise := (noise a)\<lparr>noi_enabled := (value AND 8 = 8)\<rparr>,
                    dmc := (dmc a)\<lparr>dmc_enabled := (value AND 16 = 16)\<rparr>\<rparr>;
            a2 = (if \<not> enabled (pulse1 a1)
                  then a1\<lparr>pulse1 := (pulse1 a1)\<lparr>length_val := 0\<rparr>\<rparr> else a1);
            a3 = (if \<not> enabled (pulse2 a2)
                  then a2\<lparr>pulse2 := (pulse2 a2)\<lparr>length_val := 0\<rparr>\<rparr> else a2);
            a4 = (if \<not> tri_enabled (triangle a3)
                  then a3\<lparr>triangle := (triangle a3)\<lparr>tri_length_val := 0\<rparr>\<rparr> else a3);
            a5 = (if \<not> noi_enabled (noise a4)
                  then a4\<lparr>noise := (noise a4)\<lparr>noi_length_val := 0\<rparr>\<rparr> else a4)
        in if \<not> dmc_enabled (dmc a5) then a5\<lparr>dmc := (dmc a5)\<lparr>cur_len := 0\<rparr>\<rparr>
           else if cur_len (dmc a5) = 0 then a5\<lparr>dmc := dmcRestart (dmc a5)\<rparr>
           else a5)
     else if address = 0x4017 then
       (let a1 = a\<lparr>frame_period := 4 + (drop_bit 7 value AND 1),
                    frame_IRQ := (drop_bit 6 value AND 1 = 0)\<rparr>
        in if frame_period a1 = 5 then tickLength (tickSweep (tickEnvelope a1)) else a1)
     else a)"

text \<open>The noise branch of the timer section of \<^verbatim>\<open>tickAPU\<close> (\<^verbatim>\<open>NES.cpp\<close>, the block on
  \<^verbatim>\<open>Noise* n = &apu->noise\<close>): \<open>noiseClock\<close> is the body taken when the timer has run out
  (reload the timer, clock the shift register), \<open>tickNoiseTimer\<close> the whole \<^verbatim>\<open>if\<close>.\<close>

definition noiseClock :: "Noise \<Rightarrow> Noise" where
  "noiseClock n =
    (let n1 = n\<lparr>noi_timer_val := noi_timer_period n\<rparr>;
         shift = (if noi_mode n1 then 6 else 1 :: nat);
         b1 = noi_shift_reg n1 AND 1;
         b2 = drop_bit shift (noi_shift_reg n1) AND 1;
         n2 = n1\<lparr>noi_shift_reg := drop_bit 1 (noi_shift_reg n1)\<rparr>
     in n2\<lparr>noi_shift_reg := noi_shift_reg n2 OR push_bit 14 (b1 XOR b2)\<rparr>)"

definition tickNoiseTimer :: "Noise \<Rightarrow> Noise" where
  "tickNoiseTimer n =
    (if noi_timer_val n = 0 then noiseClock n
     else n\<lparr>noi_timer_val := noi_timer_val n - 1\<rparr>)"

section \<open>Mappers (\<^verbatim>\<open>NES.h\<close>, \<^verbatim>\<open>memory.cpp\<close>)\<close>

text \<open>The four bank-offset functions share one shape and differ in the bank size:
  sign-extend the 8-bit index, reduce it modulo the number of banks (a division by zero
  when the cartridge has no full bank), scale it, and wrap a negative offset.\<close>

definition bankOffset :: "nat \<Rightarrow> int \<Rightarrow> int \<Rightarrow> int option" where
  "bankOffset sh sz idx =
    (let idx1 = (if idx \<ge> 0x80 then idx - 0x100 else idx);
         banks = sz div 2 ^ sh
     in if banks = 0 then None
        else (let idx2 = idx1 smod banks;
                  offset = idx2 * 2 ^ sh
              in Some (if offset < 0 then offset + sz else offset)))"

definition Mapper1_prgBankOffset :: "Cartridge \<Rightarrow> int \<Rightarrow> int option" where
  "Mapper1_prgBankOffset c = bankOffset 14 (prg_size c)"

definition Mapper1_chrBankOffset :: "Cartridge \<Rightarrow> int \<Rightarrow> int option" where
  "Mapper1_chrBankOffset c = bankOffset 12 (chr_size c)"

definition Mapper4_prgBankOffset :: "Cartridge \<Rightarrow> int \<Rightarrow> int option" where
  "Mapper4_prgBankOffset c = bankOffset 13 (prg_size c)"

definition Mapper4_chrBankOffset :: "Cartridge \<Rightarrow> int \<Rightarrow> int option" where
  "Mapper4_chrBankOffset c = bankOffset 10 (chr_size c)"

definition Mapper1_updateOffsets :: "Mapper1 \<Rightarrow> Cartridge \<Rightarrow> Mapper1 option" where
  "Mapper1_updateOffsets m c =
    do {
      m1 \<leftarrow>
        (if m1_prg_mode m = 0 \<or> m1_prg_mode m = 1 then
           do {
             o0 \<leftarrow> Mapper1_prgBankOffset c (uint (m1_prg_bank m AND 0xFE));
             o1 \<leftarrow> Mapper1_prgBankOffset c (uint (m1_prg_bank m OR 0x01));
             Some (m\<lparr>m1_prg_offsets := (m1_prg_offsets m)(0 := o0, 1 := o1)\<rparr>)
           }
         else if m1_prg_mode m = 2 then
           do {
             o1 \<leftarrow> Mapper1_prgBankOffset c (uint (m1_prg_bank m));
             Some (m\<lparr>m1_prg_offsets := (m1_prg_offsets m)(0 := 0, 1 := o1)\<rparr>)
           }
         else if m1_prg_mode m = 3 then
           do {
             o0 \<leftarrow> Mapper1_prgBankOffset c (uint (m1_prg_bank m));
             o1 \<leftarrow> Mapper1_prgBankOffset c (- 1);
             Some (m\<lparr>m1_prg_offsets := (m1_prg_offsets m)(0 := o0, 1 := o1)\<rparr>)
           }
         else Some m);
      (if m1_chr_mode m1 = 0 then
         do {
           o0 \<leftarrow> Mapper1_chrBankOffset c (uint (m1_chr_bank0 m1 AND 0xFE));
           o1 \<leftarrow> Mapper1_chrBankOffset c (uint (m1_chr_bank0 m1 OR 0x01));
           Some (m1\<lparr>m1_chr_offsets := (m1_chr_offsets m1)(0 := o0, 1 := o1)\<rparr>)
         }
       else if m1_chr_mode m1 = 1 then
         do {
           o0 \<leftarrow> Mapper1_chrBankOffset c (uint (m1_chr_bank0 m1));
           o1 \<leftarrow> Mapper1_chrBankOffset c (uint (m1_chr_bank1 m1));
           Some (m1\<lparr>m1_chr_offsets := (m1_chr_offsets m1)(0 := o0, 1 := o1)\<rparr>)
         }
       else Some m1)
    }"

definition Mapper1_writeCtrl :: "Mapper1 \<Rightarrow> Cartridge \<Rightarrow> u8 \<Rightarrow> Mapper1 \<times> Cartridge" where
  "Mapper1_writeCtrl m c value =
    (let m1 = m\<lparr>m1_control := value,
                 m1_chr_mode := drop_bit 4 value AND 1,
                 m1_prg_mode := drop_bit 2 value AND 3\<rparr>;
         mir = value AND 3
     in (m1, c\<lparr>mirror :=
                 (if mir = 0 then MirrorSingle0
                  else if mir = 1 then MirrorSingle1
                  else if mir = 2 then MirrorVertical
                  else MirrorHorizontal)\<rparr>))"

definition Mapper1_read :: "Mapper1 \<Rightarrow> Cartridge \<Rightarrow> u16 \<Rightarrow> u8" where
  "Mapper1_read m c address =
    (if address < 0x2000 then
       (let bank = drop_bit 12 address; offset = address AND 4095
        in cart_CHR c (m1_chr_offsets m (uint bank) + uint offset))
     else if address \<ge> 0x8000 then
       (let address1 = address - 0x8000;
            bank = drop_bit 14 address1; offset = address1 AND 16383
        in PRG c (m1_prg_offsets m (uint bank) + uint offset))
     else if address \<ge> 0x6000 then SRAM c (uint address - 0x6000)
     else 0)"

definition Mapper1_write ::
  "Mapper1 \<Rightarrow> Cartridge \<Rightarrow> u16 \<Rightarrow> u8 \<Rightarrow> (Mapper1 \<times> Cartridge) option" where
  "Mapper1_write m c address value =
    (if address < 0x2000 then
       (let bank = drop_bit 12 address; offset = address AND 4095
        in Some (m, c\<lparr>cart_CHR := (cart_CHR c)(m1_chr_offsets m (uint bank) + uint offset := value)\<rparr>))
     else if address \<ge> 0x8000 then
       (if value AND 0x80 = 0x80 then
          (let m1 = m\<lparr>m1_shift_reg := 0x10\<rparr>;
               (m2, c2) = Mapper1_writeCtrl m1 c (m1_control m1 OR 0x0C)
           in do { m3 \<leftarrow> Mapper1_updateOffsets m2 c2; Some (m3, c2) })
        else
          (let complete = (m1_shift_reg m AND 1 = 1);
               m1 = m\<lparr>m1_shift_reg := drop_bit 1 (m1_shift_reg m)\<rparr>;
               m2 = m1\<lparr>m1_shift_reg := m1_shift_reg m1 OR push_bit 4 (value AND 1)\<rparr>
           in if complete then
                (let (m3, c3) =
                       (if address \<le> 0x9FFF then Mapper1_writeCtrl m2 c (m1_shift_reg m2)
                        else if address \<le> 0xBFFF then (m2\<lparr>m1_chr_bank0 := m1_shift_reg m2\<rparr>, c)
                        else if address \<le> 0xDFFF then (m2\<lparr>m1_chr_bank1 := m1_shift_reg m2\<rparr>, c)
                        else (m2\<lparr>m1_prg_bank := m1_shift_reg m2 AND 0x0F\<rparr>, c))
                 in do {
                      m4 \<leftarrow> Mapper1_updateOffsets m3 c3;
                      Some (m4\<lparr>m1_shift_reg := 0x10\<rparr>, c3)
                    })
              else Some (m2, c)))
     else if address \<ge> 0x6000 then
       Some (m, c\<lparr>SRAM := (SRAM c)(uint address - 0x6000 := value)\<rparr>)
     else Some (m, c))"

definition Mapper2_read :: "Mapper2 \<Rightarrow> Cartridge \<Rightarrow> u16 \<Rightarrow> u8" where
  "Mapper2_read m c address =
    (if address < 0x2000 then cart_CHR c (uint address)
     else if address \<ge> 0xC000 then PRG c (m2_prg_bank2 m * 2 ^ 14 + uint (address - 0xC000))
     else if address \<ge> 0x8000 then PRG c (m2_prg_bank1 m * 2 ^ 14 + uint (address - 0x8000))
     else if address \<ge> 0x6000 then SRAM c (uint address - 0x6000)
     else 0)"

definition Mapper2_write ::
  "Mapper2 \<Rightarrow> Cartridge \<Rightarrow> u16 \<Rightarrow> u8 \<Rightarrow> (Mapper2 \<times> Cartridge) option" where
  "Mapper2_write m c address value =
    (if address < 0x2000 then Some (m, c\<lparr>cart_CHR := (cart_CHR c)(uint address := value)\<rparr>)
     else if address \<ge> 0x8000 then
       (if m2_prg_banks m = 0 then None
        else Some (m\<lparr>m2_prg_bank1 := uint value smod m2_prg_banks m\<rparr>, c))
     else if address \<ge> 0x6000 then
       Some (m, c\<lparr>SRAM := (SRAM c)(uint address - 0x6000 := value)\<rparr>)
     else Some (m, c))"

definition Mapper3_read :: "Mapper3 \<Rightarrow> Cartridge \<Rightarrow> u16 \<Rightarrow> u8" where
  "Mapper3_read m c address =
    (if address < 0x2000 then cart_CHR c (m3_chr_bank m * 0x2000 + uint address)
     else if address \<ge> 0xC000 then PRG c (m3_prg_bank2 m * 0x4000 + uint (address - 0xC000))
     else if address \<ge> 0x8000 then PRG c (m3_prg_bank1 m * 0x4000 + uint (address - 0x8000))
     else if address \<ge> 0x6000 then SRAM c (uint address - 0x6000)
     else 0)"

definition Mapper3_write ::
  "Mapper3 \<Rightarrow> Cartridge \<Rightarrow> u16 \<Rightarrow> u8 \<Rightarrow> (Mapper3 \<times> Cartridge) option" where
  "Mapper3_write m c address value =
    (if address < 0x2000 then
       Some (m, c\<lparr>cart_CHR := (cart_CHR c)(m3_chr_bank m * 0x2000 + uint address := value)\<rparr>)
     else if address \<ge> 0x8000 then Some (m\<lparr>m3_chr_bank := uint (value AND 3)\<rparr>, c)
     else if address \<ge> 0x6000 then
       Some (m, c\<lparr>SRAM := (SRAM c)(uint address - 0x6000 := value)\<rparr>)
     else Some (m, c))"

definition Mapper4_updateOffsets :: "Mapper4 \<Rightarrow> Cartridge \<Rightarrow> Mapper4 option" where
  "Mapper4_updateOffsets m c =
    do {
      m1 \<leftarrow>
        (if m4_prg_mode m = 0 then
           do {
             o0 \<leftarrow> Mapper4_prgBankOffset c (uint (m4_regs m 6));
             o1 \<leftarrow> Mapper4_prgBankOffset c (uint (m4_regs m 7));
             o2 \<leftarrow> Mapper4_prgBankOffset c (- 2);
             o3 \<leftarrow> Mapper4_prgBankOffset c (- 1);
             Some (m\<lparr>m4_prg_offsets := (m4_prg_offsets m)(0 := o0, 1 := o1, 2 := o2, 3 := o3)\<rparr>)
           }
         else if m4_prg_mode m = 1 then
           do {
             o0 \<leftarrow> Mapper4_prgBankOffset c (- 2);
             o1 \<leftarrow> Mapper4_prgBankOffset c (uint (m4_regs m 7));
             o2 \<leftarrow> Mapper4_prgBankOffset c (uint (m4_regs m 6));
             o3 \<leftarrow> Mapper4_prgBankOffset c (- 1);
             Some (m\<lparr>m4_prg_offsets := (m4_prg_offsets m)(0 := o0, 1 := o1, 2 := o2, 3 := o3)\<rparr>)
           }
         else Some m);
      (if m4_chr_mode m1 = 0 then
         do {
           o0 \<leftarrow> Mapper4_chrBankOffset c (uint (m4_regs m1 0 AND 0xFE));
           o1 \<leftarrow> Mapper4_chrBankOffset c (uint (m4_regs m1 0 OR 0x01));
           o2 \<leftarrow> Mapper4_chrBankOffset c (uint (m4_regs m1 1 AND 0xFE));
           o3 \<leftarrow> Mapper4_chrBankOffset c (uint (m4_regs m1 1 OR 0x01));
           o4 \<leftarrow> Mapper4_chrBankOffset c (uint (m4_regs m1 2));
           o5 \<leftarrow> Mapper4_chrBankOffset c (uint (m4_regs m1 3));
           o6 \<leftarrow> Mapper4_chrBankOffset c (uint (m4_regs m1 4));
           o7 \<leftarrow> Mapper4_chrBankOffset c (uint (m4_regs m1 5));
           Some (m1\<lparr>m4_chr_offsets := (m4_chr_offsets m1)
                  (0 := o0, 1 := o1, 2 := o2, 3 := o3, 4 := o4, 5 := o5, 6 := o6, 7 := o7)\<rparr>)
         }
       else if m4_chr_mode m1 = 1 then
         do {
           o0 \<leftarrow> Mapper4_chrBankOffset c (uint (m4_regs m1 2));
           o1 \<leftarrow> Mapper4_chrBankOffset c (uint (m4_regs m1 3));
           o2 \<leftarrow> Mapper4_chrBankOffset c (uint (m4_regs m1 4));
           o3 \<leftarrow> Mapper4_chrBankOffset c (uint (m4_regs m1 5));
           o4 \<leftarrow> Mapper4_chrBankOffset c (uint (m4_regs m1 0 AND 0xFE));
           o5 \<leftarrow> Mapper4_chrBankOffset c (uint (m4_regs m1 0 OR 0x01));
           o6 \<leftarrow> Mapper4_chrBankOffset c (uint (m4_regs m1 1 AND 0xFE));
           o7 \<leftarrow> Mapper4_chrBankOffset c (uint (m4_regs m1 1 OR 0x01));
           Some (m1\<lparr>m4_chr_offsets := (m4_chr_offsets m1)
                  (0 := o0, 1 := o1, 2 := o2, 3 := o3, 4 := o4, 5 := o5, 6 := o6, 7 := o7)\<rparr>)
         }
       else Some m1)
    }"

definition Mapper4_read :: "Mapper4 \<Rightarrow> Cartridge \<Rightarrow> u16 \<Rightarrow> u8" where
  "Mapper4_read m c address =
    (if address < 0x2000 then
       (let bank = drop_bit 10 address; offset = address AND 1023
        in cart_CHR c (m4_chr_offsets m (uint bank) + uint offset))
     else if address \<ge> 0x8000 then
       (let address1 = address - 0x8000;
            bank = drop_bit 13 address1; offset = address1 AND 8191
        in PRG c (m4_prg_offsets m (uint bank) + uint offset))
     else if address \<ge> 0x6000 then SRAM c (uint address - 0x6000)
     else 0)"

definition Mapper4_write ::
  "Mapper4 \<Rightarrow> Cartridge \<Rightarrow> u16 \<Rightarrow> u8 \<Rightarrow> (Mapper4 \<times> Cartridge) option" where
  "Mapper4_write m c address value =
    (if address < 0x2000 then
       (let bank = drop_bit 10 address; offset = address AND 1023
        in Some (m, c\<lparr>cart_CHR := (cart_CHR c)(m4_chr_offsets m (uint bank) + uint offset := value)\<rparr>))
     else if address \<ge> 0x8000 then
       (if address \<le> 0x9FFF \<and> address AND 1 = 0 then
          do {
            m1 \<leftarrow> Mapper4_updateOffsets
                   (m\<lparr>m4_prg_mode := drop_bit 6 value AND 1,
                      m4_chr_mode := drop_bit 7 value AND 1,
                      m4_reg := value AND 7\<rparr>) c;
            Some (m1, c)
          }
        else if address \<le> 0x9FFF \<and> address AND 1 \<noteq> 0 then
          do {
            m1 \<leftarrow> Mapper4_updateOffsets
                   (m\<lparr>m4_regs := (m4_regs m)(uint (m4_reg m) := value)\<rparr>) c;
            Some (m1, c)
          }
        else if address \<le> 0xBFFF \<and> address AND 1 = 0 then
          Some (m, c\<lparr>mirror := (if value AND 1 = 0 then MirrorVertical else MirrorHorizontal)\<rparr>)
        else if address \<le> 0xBFFF \<and> address AND 1 \<noteq> 0 then Some (m, c)
        else if address \<le> 0xDFFF \<and> address AND 1 = 0 then Some (m\<lparr>m4_reload := value\<rparr>, c)
        else if address \<le> 0xDFFF \<and> address AND 1 \<noteq> 0 then Some (m\<lparr>m4_counter := 0\<rparr>, c)
        else if address AND 1 = 0 then Some (m\<lparr>m4_IRQ_enable := False\<rparr>, c)
        else Some (m\<lparr>m4_IRQ_enable := True\<rparr>, c))
     else if address \<ge> 0x6000 then
       Some (m, c\<lparr>SRAM := (SRAM c)(uint address - 0x6000 := value)\<rparr>)
     else Some (m, c))"

definition Mapper7_read :: "Mapper7 \<Rightarrow> Cartridge \<Rightarrow> u16 \<Rightarrow> u8" where
  "Mapper7_read m c address =
    (if address < 0x2000 then cart_CHR c (uint address)
     else if address \<ge> 0x8000 then PRG c (m7_prg_bank m * 2 ^ 15 + uint (address - 0x8000))
     else if address \<ge> 0x6000 then SRAM c (uint address - 0x6000)
     else 0)"

definition Mapper7_write ::
  "Mapper7 \<Rightarrow> Cartridge \<Rightarrow> u16 \<Rightarrow> u8 \<Rightarrow> (Mapper7 \<times> Cartridge) option" where
  "Mapper7_write m c address value =
    (if address < 0x2000 then Some (m, c\<lparr>cart_CHR := (cart_CHR c)(uint address := value)\<rparr>)
     else if address \<ge> 0x8000 then
       (let m1 = m\<lparr>m7_prg_bank := uint (value AND 7)\<rparr>
        in Some (m1, if value AND 0x10 = 0x00 then c\<lparr>mirror := MirrorSingle0\<rparr>
                     else c\<lparr>mirror := MirrorSingle1\<rparr>))
     else if address \<ge> 0x6000 then
       Some (m, c\<lparr>SRAM := (SRAM c)(uint address - 0x6000 := value)\<rparr>)
     else Some (m, c))"

text \<open>\<^verbatim>\<open>nes->mapper->read(nes->cartridge, address)\<close> and
  \<^verbatim>\<open>nes->mapper->write(nes->cartridge, address, value)\<close>.\<close>

definition mapper_read :: "NES \<Rightarrow> u16 \<Rightarrow> u8" where
  "mapper_read nes address =
    (case mapper nes of
       IsMapper1 m \<Rightarrow> Mapper1_read m (cartridge nes) address
     | IsMapper2 m \<Rightarrow> Mapper2_read m (cartridge nes) address
     | IsMapper3 m \<Rightarrow> Mapper3_read m (cartridge nes) address
     | IsMapper4 m \<Rightarrow> Mapper4_read m (cartridge nes) address
     | IsMapper7 m \<Rightarrow> Mapper7_read m (cartridge nes) address)"

definition mapper_write :: "NES \<Rightarrow> u16 \<Rightarrow> u8 \<Rightarrow> NES option" where
  "mapper_write nes address value =
    (case mapper nes of
       IsMapper1 m \<Rightarrow>
         map_option (\<lambda>(m', c'). nes\<lparr>mapper := IsMapper1 m', cartridge := c'\<rparr>)
           (Mapper1_write m (cartridge nes) address value)
     | IsMapper2 m \<Rightarrow>
         map_option (\<lambda>(m', c'). nes\<lparr>mapper := IsMapper2 m', cartridge := c'\<rparr>)
           (Mapper2_write m (cartridge nes) address value)
     | IsMapper3 m \<Rightarrow>
         map_option (\<lambda>(m', c'). nes\<lparr>mapper := IsMapper3 m', cartridge := c'\<rparr>)
           (Mapper3_write m (cartridge nes) address value)
     | IsMapper4 m \<Rightarrow>
         map_option (\<lambda>(m', c'). nes\<lparr>mapper := IsMapper4 m', cartridge := c'\<rparr>)
           (Mapper4_write m (cartridge nes) address value)
     | IsMapper7 m \<Rightarrow>
         map_option (\<lambda>(m', c'). nes\<lparr>mapper := IsMapper7 m', cartridge := c'\<rparr>)
           (Mapper7_write m (cartridge nes) address value))"

section \<open>PPU memory and registers, CPU bus (\<^verbatim>\<open>memory.cpp\<close>, \<^verbatim>\<open>NES.cpp\<close>)\<close>

definition readPalette :: "PPU \<Rightarrow> u16 \<Rightarrow> u8" where
  "readPalette p address =
    (let address1 = (if address \<ge> 16 \<and> address AND 3 = 0 then address - 16 else address)
     in palette_tbl p (uint address1))"

definition mirrorAddress :: "u8 \<Rightarrow> u16 \<Rightarrow> u16" where
  "mirrorAddress mode address =
    (let address1 = (address - 0x2000) AND 4095;
         table = drop_bit 10 address1;
         offset = address1 AND 1023
     in 0x2000 + push_bit 10 (mirror_tbl ! unat mode ! unat table) + offset)"

definition readPPU :: "NES \<Rightarrow> u16 \<Rightarrow> u8" where
  "readPPU nes address =
    (let address1 = address AND 16383
     in if address1 < 0x2000 then mapper_read nes address1
        else if address1 < 0x3F00 then
          (let mode = mirror (cartridge nes)
           in name_tbl (ppu nes) (uint (mirrorAddress mode address1 AND 2047)))
        else if address1 < 0x4000 then readPalette (ppu nes) (address1 AND 31)
        else 0)"

definition writePPU :: "NES \<Rightarrow> u16 \<Rightarrow> u8 \<Rightarrow> NES option" where
  "writePPU nes address value =
    (let address1 = address AND 16383
     in if address1 < 0x2000 then mapper_write nes address1 value
        else if address1 < 0x3F00 then
          (let mode = mirror (cartridge nes)
           in Some (nes\<lparr>ppu := (ppu nes)\<lparr>name_tbl :=
                (name_tbl (ppu nes))(uint (mirrorAddress mode address1 AND 2047) := value)\<rparr>\<rparr>))
        else if address1 < 0x4000 then
          (let address2 = address1 AND 31;
               address3 = (if address2 \<ge> 16 \<and> address2 AND 3 = 0 then address2 - 16
                           else address2)
           in Some (nes\<lparr>ppu := (ppu nes)\<lparr>palette_tbl :=
                (palette_tbl (ppu nes))(uint address3 := value)\<rparr>\<rparr>))
        else Some nes)"

definition PPUnmiShift :: "PPU \<Rightarrow> PPU" where
  "PPUnmiShift p =
    (let nmi = (nmi_out p \<and> nmi_occurred p);
         p1 = (if nmi \<and> \<not> nmi_last p then p\<lparr>nmi_delay := 15\<rparr> else p)
     in p1\<lparr>nmi_last := nmi\<rparr>)"

definition writePPUCtrl :: "PPU \<Rightarrow> u8 \<Rightarrow> PPU" where
  "writePPUCtrl p value =
    (let p1 = p\<lparr>flag_name_tbl := value AND 3,
                 flag_increment := drop_bit 2 value AND 1,
                 flag_sprite_tbl := drop_bit 3 value AND 1,
                 flag_background_tbl := drop_bit 4 value AND 1,
                 flag_sprite_size := drop_bit 5 value AND 1,
                 flag_rw := drop_bit 6 value AND 1,
                 nmi_out := (drop_bit 7 value AND 1 = 1)\<rparr>;
         p2 = PPUnmiShift p1
     in p2\<lparr>ppu_t := (ppu_t p2 AND 0xF3FF) OR push_bit 10 (ucast value AND 3)\<rparr>)"

definition writePPUMask :: "PPU \<Rightarrow> u8 \<Rightarrow> PPU" where
  "writePPUMask p value =
    p\<lparr>flag_gray := value AND 1,
      flag_show_left_background := drop_bit 1 value AND 1,
      flag_show_left_sprites := drop_bit 2 value AND 1,
      flag_show_background := drop_bit 3 value AND 1,
      flag_show_sprites := drop_bit 4 value AND 1,
      flag_red_tint := drop_bit 5 value AND 1,
      flag_green_tint := drop_bit 6 value AND 1,
      flag_blue_tint := drop_bit 7 value AND 1\<rparr>"

text \<open>\<^verbatim>\<open>readPPURegister\<close> returns the byte read and the state after the side effects of
  the read.\<close>

definition readPPURegister :: "NES \<Rightarrow> u16 \<Rightarrow> u8 \<times> NES" where
  "readPPURegister nes address =
    (let p = ppu nes
     in if address = 0x2002 then
          (let status = reg p AND 0x1F;
               status1 = status OR push_bit 5 (flag_sprite_overflow p);
               status2 = status1 OR push_bit 6 (flag_sprite_zero_hit p);
               status3 = (if nmi_occurred p then status2 OR push_bit 7 1 else status2);
               p1 = PPUnmiShift (p\<lparr>nmi_occurred := False\<rparr>)
           in (status3, nes\<lparr>ppu := p1\<lparr>ppu_w := 0\<rparr>\<rparr>))
        else if address = 0x2004 then (oam_tbl p (uint (oam_addr p)), nes)
        else if address = 0x2007 then
          (let value = readPPU nes (ppu_v p);
               (value1, p1) =
                 (if ppu_v p AND 16383 < 0x3F00
                  then (buffered_data p, p\<lparr>buffered_data := value\<rparr>)
                  else (value, p\<lparr>buffered_data := readPPU nes (ppu_v p - 0x1000)\<rparr>));
               p2 = p1\<lparr>ppu_v := ppu_v p1 + (if flag_increment p1 = 0 then 1 else 32)\<rparr>
           in (value1, nes\<lparr>ppu := p2\<rparr>))
        else (0, nes))"

text \<open>\<^verbatim>\<open>readByte\<close>. At \<^verbatim>\<open>$4015\<close> the source builds \<^verbatim>\<open>read_status\<close> from the length
  counters and then executes \<^verbatim>\<open>return 0;\<close>.\<close>

definition readByte :: "NES \<Rightarrow> u16 \<Rightarrow> u8 \<times> NES" where
  "readByte nes address =
    (if address < 0x2000 then (RAM nes (uint (address AND 2047)), nes)
     else if address < 0x4000 then readPPURegister nes (0x2000 + (address AND 7))
     else if address = 0x4014 then readPPURegister nes address
     else if address = 0x4015 then
       (let a = apu nes;
            read_status = (0 :: u8);
            read_status1 = (if length_val (pulse1 a) > 0 then read_status OR 1 else read_status);
            read_status2 = (if length_val (pulse2 a) > 0 then read_status1 OR 2 else read_status1);
            read_status3 = (if tri_length_val (triangle a) > 0 then read_status2 OR 4
                            else read_status2);
            read_status4 = (if noi_length_val (noise a) > 0 then read_status3 OR 8
                            else read_status3);
            read_status5 = (if cur_len (dmc a) > 0 then read_status4 OR 16 else read_status4)
        in (0, nes))
     else if address = 0x4016 then
       (let (value, c) = readController (controller1 nes) in (value, nes\<lparr>controller1 := c\<rparr>))
     else if address = 0x4017 then
       (let (value, c) = readController (controller2 nes) in (value, nes\<lparr>controller2 := c\<rparr>))
     else if address < 0x6000 then (0, nes)
     else if address \<ge> 0x6000 then (mapper_read nes address, nes)
     else (0, nes))"

text \<open>The loop of the \<^verbatim>\<open>case 0x4014\<close> branch of \<^verbatim>\<open>writeRegisterPPU\<close>; the first argument
  counts the iterations left.\<close>

fun dma_loop :: "nat \<Rightarrow> NES \<Rightarrow> u16 \<Rightarrow> NES" where
  "dma_loop 0 nes address = nes"
| "dma_loop (Suc n) nes address =
    (let (b, nes1) = readByte nes address;
         p = ppu nes1;
         p1 = p\<lparr>oam_tbl := (oam_tbl p)(uint (oam_addr p) := b)\<rparr>;
         p2 = p1\<lparr>oam_addr := oam_addr p1 + 1\<rparr>
     in dma_loop n (nes1\<lparr>ppu := p2\<rparr>) (address + 1))"

definition writeRegisterPPU :: "NES \<Rightarrow> u16 \<Rightarrow> u8 \<Rightarrow> NES option" where
  "writeRegisterPPU nes0 address value =
    (let nes = nes0\<lparr>ppu := (ppu nes0)\<lparr>reg := value\<rparr>\<rparr>;
         p = ppu nes
     in if address = 0x2000 then Some (nes\<lparr>ppu := writePPUCtrl p value\<rparr>)
        else if address = 0x2001 then Some (nes\<lparr>ppu := writePPUMask p value\<rparr>)
        else if address = 0x2003 then Some (nes\<lparr>ppu := p\<lparr>oam_addr := value\<rparr>\<rparr>)
        else if address = 0x2004 then
          Some (nes\<lparr>ppu := p\<lparr>oam_tbl := (oam_tbl p)(uint (oam_addr p) := value),
                             oam_addr := oam_addr p + 1\<rparr>\<rparr>)
        else if address = 0x2005 then
          (if ppu_w p = 0 then
             Some (nes\<lparr>ppu := p\<lparr>ppu_t := (ppu_t p AND 0xFFE0) OR drop_bit 3 (ucast value),
                                ppu_x := value AND 7,
                                ppu_w := 1\<rparr>\<rparr>)
           else
             (let p1 = p\<lparr>ppu_t := (ppu_t p AND 0x8FFF) OR push_bit 12 (ucast value AND 0x07)\<rparr>;
                  p2 = p1\<lparr>ppu_t := (ppu_t p1 AND 0xFC1F) OR push_bit 2 (ucast value AND 0xF8)\<rparr>
              in Some (nes\<lparr>ppu := p2\<lparr>ppu_w := 0\<rparr>\<rparr>)))
        else if address = 0x2006 then
          (if ppu_w p = 0 then
             Some (nes\<lparr>ppu := p\<lparr>ppu_t := (ppu_t p AND 0x80FF) OR push_bit 8 (ucast value AND 0x3F),
                                ppu_w := 1\<rparr>\<rparr>)
           else
             (let p1 = p\<lparr>ppu_t := (ppu_t p AND 0xFF00) OR ucast value\<rparr>;
                  p2 = p1\<lparr>ppu_v := ppu_t p1\<rparr>
              in Some (nes\<lparr>ppu := p2\<lparr>ppu_w := 0\<rparr>\<rparr>)))
        else if address = 0x2007 then
          do {
            nes1 \<leftarrow> writePPU nes (ppu_v p) value;
            Some (nes1\<lparr>ppu := (ppu nes1)\<lparr>ppu_v :=
                    ppu_v (ppu nes1) + (if flag_increment (ppu nes1) = 0 then 1 else 32)\<rparr>\<rparr>)
          }
        else if address = 0x4014 then
          (let nes1 = dma_loop 256 nes (push_bit 8 (ucast value));
               c = cpu nes1;
               c1 = c\<lparr>stall := stall c + 513\<rparr>;
               c2 = (if cycles c1 AND 1 \<noteq> 0 then c1\<lparr>stall := stall c1 + 1\<rparr> else c1)
           in Some (nes1\<lparr>cpu := c2\<rparr>))
        else Some nes)"

definition writeByte :: "NES \<Rightarrow> u16 \<Rightarrow> u8 \<Rightarrow> NES option" where
  "writeByte nes address value =
    (if address < 0x2000 then
       Some (nes\<lparr>RAM := (RAM nes)(uint (address AND 2047) := value)\<rparr>)
     else if address < 0x4000 then writeRegisterPPU nes (0x2000 + (address AND 7)) value
     else if address < 0x4014 then Some (nes\<lparr>apu := writeRegisterAPU (apu nes) address value\<rparr>)
     else if address = 0x4014 then writeRegisterPPU nes address value
     else if address = 0x4015 then Some (nes\<lparr>apu := writeRegisterAPU (apu nes) address value\<rparr>)
     else if address = 0x4016 then
       Some (nes\<lparr>controller1 := writeController (controller1 nes) value,
                 controller2 := writeController (controller2 nes) value\<rparr>)
     else if address = 0x4017 then Some (nes\<lparr>apu := writeRegisterAPU (apu nes) address value\<rparr>)
     else if address < 0x6000 then Some nes
     else if address \<ge> 0x6000 then mapper_write nes address value
     else Some nes)"

section \<open>CPU stack, flags and interrupt entry (\<^verbatim>\<open>cpu.cpp\<close>, \<^verbatim>\<open>NES.cpp\<close>)\<close>

definition setI :: "CPU \<Rightarrow> bool \<Rightarrow> CPU" where
  "setI c value = c\<lparr>flags := (flags c AND NOT (push_bit 2 1)) OR push_bit 2 (of_bool value)\<rparr>"

definition getI :: "CPU \<Rightarrow> u8" where
  "getI c = drop_bit 2 (flags c AND 4)"

definition push :: "NES \<Rightarrow> u8 \<Rightarrow> NES option" where
  "push nes value =
    do {
      nes1 \<leftarrow> writeByte nes (0x100 OR ucast (SP (cpu nes))) value;
      Some (nes1\<lparr>cpu := (cpu nes1)\<lparr>SP := SP (cpu nes1) - 1\<rparr>\<rparr>)
    }"

definition push16 :: "NES \<Rightarrow> u16 \<Rightarrow> NES option" where
  "push16 nes value =
    do {
      nes1 \<leftarrow> push nes (ucast (drop_bit 8 value));
      push nes1 (ucast value)
    }"

text \<open>\<^verbatim>\<open>php\<close>, the handler of the PHP instruction, which \<^verbatim>\<open>emulate\<close> and \<^verbatim>\<open>brk\<close> also call
  to push the flags: the byte pushed is \<^verbatim>\<open>cpu->flags | 0x10\<close>.\<close>

definition php :: "NES \<Rightarrow> NES option" where
  "php nes = push nes (flags (cpu nes) OR 0x10)"

definition read16 :: "NES \<Rightarrow> u16 \<Rightarrow> u16 \<times> NES" where
  "read16 nes address =
    (let (lo, nes1) = readByte nes address;
         (hi, nes2) = readByte nes1 (address + 1)
     in (push_bit 8 (ucast hi) OR ucast lo, nes2))"

text \<open>The head of the loop body of \<^verbatim>\<open>emulate\<close>, up to and including
  \<^verbatim>\<open>cpu->interrupt = interruptNone\<close>: a stalled CPU only counts the stall down; otherwise a
  pending NMI or IRQ is entered. (The opcode fetch and \<^verbatim>\<open>execute\<close> that follow in the
  \<^verbatim>\<open>else\<close> branch are not part of this function.)\<close>

text \<open>The NMI and the IRQ branch of \<^verbatim>\<open>emulate\<close> are the same statements with a different
  vector address; \<open>emulate_interrupt\<close> is that block.\<close>

definition emulate_interrupt :: "NES \<Rightarrow> u16 \<Rightarrow> NES option" where
  "emulate_interrupt nes vector =
    do {
      nes1 \<leftarrow> push16 nes (PC (cpu nes));
      nes2 \<leftarrow> php nes1;
      let (pc, nes3) = read16 nes2 vector;
      let nes4 = nes3\<lparr>cpu := (cpu nes3)\<lparr>PC := pc\<rparr>\<rparr>;
      let nes5 = nes4\<lparr>cpu := setI (cpu nes4) True\<rparr>;
      Some (nes5\<lparr>cpu := (cpu nes5)\<lparr>cycles := cycles (cpu nes5) + 7\<rparr>\<rparr>)
    }"

definition emulate_head :: "NES \<Rightarrow> NES option" where
  "emulate_head nes =
    (if stall (cpu nes) > 0 then Some (nes\<lparr>cpu := (cpu nes)\<lparr>stall := stall (cpu nes) - 1\<rparr>\<rparr>)
     else
       do {
         nes1 \<leftarrow>
           (if interrupt (cpu nes) = interruptNMI then emulate_interrupt nes 0xFFFA
            else if interrupt (cpu nes) = interruptIRQ then emulate_interrupt nes 0xFFFE
            else Some nes);
         Some (nes1\<lparr>cpu := (cpu nes1)\<lparr>interrupt := interruptNone\<rparr>\<rparr>)
       })"

section \<open>One PPU dot (\<^verbatim>\<open>tickPPU\<close>, \<^verbatim>\<open>NES.cpp\<close>)\<close>

definition palette :: "u32 list" where
  "palette =
    [0xff666666, 0xff882a00, 0xffa71214, 0xffa4003b, 0xff7e005c, 0xff40006e, 0xff00066c,
     0xff001d56, 0xff003533, 0xff00480b, 0xff005200, 0xff084f00, 0xff4d4000, 0xff000000,
     0xff000000, 0xff000000, 0xffadadad, 0xffd95f15, 0xffff4042, 0xfffe2775, 0xffcc1aa0,
     0xff7b1eb7, 0xff2031b5, 0xff004e99, 0xff006d6b, 0xff008738, 0xff00930c, 0xff328f00,
     0xff8d7c00, 0xff000000, 0xff000000, 0xff000000, 0xfffffeff, 0xffffb064, 0xffff9092,
     0xffff76c6, 0xffff6af3, 0xffcc6efe, 0xff7081fe, 0xff229eea, 0xff00bebc, 0xff00d888,
     0xff30e45c, 0xff82e045, 0xffdecd48, 0xff4f4f4f, 0xff000000, 0xff000000, 0xfffffeff,
     0xffffdfc0, 0xffffd2d3, 0xffffc8e8, 0xffffc2fb, 0xffeac4fe, 0xffc5ccfe, 0xffa5d8f7,
     0xff94e5e4, 0xff96efcf, 0xffabf4bd, 0xffccf3b3, 0xfff2ebb5, 0xffb8b8b8, 0xff000000,
     0xff000000]"

text \<open>\<^verbatim>\<open>spritePixel\<close>. The loop variable \<^verbatim>\<open>i\<close> is a \<^verbatim>\<open>uint8_t\<close> compared with the \<^verbatim>\<open>int\<close>
  \<^verbatim>\<open>sprite_cnt\<close>. The first argument of the loop is fuel: the loop body does not change
  the state, so a run that has not left after 256 iterations is back at \<^verbatim>\<open>i = 0\<close> and never
  leaves; that is the result \<open>None\<close>. The result is the pair \<^verbatim>\<open>(i, sprite)\<close>.\<close>

fun spritePixel_loop :: "nat \<Rightarrow> PPU \<Rightarrow> u8 \<Rightarrow> (u8 \<times> u8) option" where
  "spritePixel_loop 0 p i = None"
| "spritePixel_loop (Suc fuel) p i =
    (if uint i < sprite_cnt p then
       (let offset = (cycle p - 1) - uint (sprite_pos p (uint i))
        in if offset < 0 \<or> offset > 7 then spritePixel_loop fuel p (i + 1)
           else
             (let offset1 = 7 - offset;
                  sprite = (ucast (drop_bit (nat (offset1 * 4)) (sprite_patterns p (uint i))
                                   AND 0x0F) :: u8)
              in if sprite AND 3 \<noteq> 0 then Some (i, sprite)
                 else spritePixel_loop fuel p (i + 1)))
     else Some (0, 0))"

definition spritePixel :: "PPU \<Rightarrow> (u8 \<times> u8) option" where
  "spritePixel p = (if flag_show_sprites p = 0 then Some (0, 0) else spritePixel_loop 256 p 0)"

text \<open>The interrupt delay at the top of \<^verbatim>\<open>tickPPU\<close>.\<close>

definition tickPPU_nmi :: "NES \<Rightarrow> NES" where
  "tickPPU_nmi nes =
    (let p = ppu nes
     in if nmi_delay p > 0 then
          (let p1 = p\<lparr>nmi_delay := nmi_delay p - 1\<rparr>;
               nes1 = nes\<lparr>ppu := p1\<rparr>
           in if nmi_delay p1 = 0 \<and> nmi_out p1 \<and> nmi_occurred p1
              then nes1\<lparr>cpu := (cpu nes1)\<lparr>interrupt := interruptNMI\<rparr>\<rparr>
              else nes1)
        else nes)"

text \<open>The dot and scanline counters, with the skipped dot of odd frames.\<close>

definition tickPPU_advance :: "PPU \<Rightarrow> PPU" where
  "tickPPU_advance p =
    (if (flag_show_background p \<noteq> 0 \<or> flag_show_sprites p \<noteq> 0)
        \<and> ppu_f p = 1 \<and> scanline p = 261 \<and> cycle p = 339
     then p\<lparr>cycle := 0, scanline := 0, frame := frame p + 1, ppu_f := ppu_f p XOR 1\<rparr>
     else
       (let p1 = p\<lparr>cycle := cycle p + 1\<rparr>
        in if cycle p1 > 340 then
             (let p2 = p1\<lparr>cycle := 0, scanline := scanline p1 + 1\<rparr>
              in if scanline p2 > 261
                 then p2\<lparr>scanline := 0, frame := frame p2 + 1, ppu_f := ppu_f p2 XOR 1\<rparr>
                 else p2)
           else p1))"

text \<open>The pixel of a visible dot. \<open>pixel_color\<close> is the priority table at the end of the
  block: from the background and sprite nibbles it gives the colour index, and it sets the
  sprite-zero hit. \<open>tickPPU_pixel\<close> is the whole block: background nibble, sprite
  nibble, the left-edge masks, the priority table and the write to the back buffer.\<close>

definition pixel_color :: "PPU \<Rightarrow> int \<Rightarrow> u8 \<Rightarrow> u8 \<Rightarrow> u8 \<Rightarrow> u8 \<times> PPU" where
  "pixel_color p x i background sprite =
    (let b = (background AND 3 \<noteq> 0);
         s = (sprite AND 3 \<noteq> 0)
     in if \<not> b \<and> \<not> s then (0, p)
        else if \<not> b \<and> s then (sprite OR 0x10, p)
        else if b \<and> \<not> s then (background, p)
        else
          (let p' = (if sprite_idx p (uint i) = 0 \<and> x < 255
                     then p\<lparr>flag_sprite_zero_hit := 1\<rparr> else p)
           in if sprite_priorities p' (uint i) = 0 then (sprite OR 0x10, p')
              else (background, p')))"

definition tickPPU_pixel :: "NES \<Rightarrow> NES option" where
  "tickPPU_pixel nes =
    (let p = ppu nes;
         x = cycle p - 1;
         y = scanline p;
         background0 =
           (if flag_show_background p \<noteq> 0 then
              (let data = drop_bit (nat ((7 - uint (ppu_x p)) * 4))
                            (ucast (drop_bit 32 (tile_data p)) :: u32)
               in (ucast (data AND 0x0F) :: u8))
            else 0)
     in do {
          (i, sprite0) \<leftarrow> spritePixel p;
          let background = (if x < 8 \<and> flag_show_left_background p = 0 then 0 else background0);
          let sprite = (if x < 8 \<and> flag_show_left_sprites p = 0 then 0 else sprite0);
          let (color, p1) = pixel_color p x i background sprite;
          Some (nes\<lparr>ppu := p1\<lparr>ppu_back := (ppu_back p1)
                  (y * 256 + x := palette ! unat (readPalette p1 (ucast color) AND 63))\<rparr>\<rparr>)
        })"

text \<open>The loop of the \<^verbatim>\<open>pcm8 == 0\<close> branch; the result is
  \<^verbatim>\<open>(low_tile_u8, high_tile_u8, data)\<close>.\<close>

fun tile_loop :: "nat \<Rightarrow> u8 \<Rightarrow> u8 \<Rightarrow> u8 \<Rightarrow> u32 \<Rightarrow> u8 \<times> u8 \<times> u32" where
  "tile_loop 0 a low high data = (low, high, data)"
| "tile_loop (Suc n) a low high data =
    (let p1 = drop_bit 7 (low AND 0x80);
         p2 = drop_bit 6 (high AND 0x80);
         low1 = push_bit 1 low;
         high1 = push_bit 1 high;
         data1 = push_bit 4 data
     in tile_loop n a low1 high1 (data1 OR ucast (a OR p1 OR p2)))"

text \<open>The background fetch of a fetch dot on a rendered line.\<close>

definition tickPPU_fetch :: "NES \<Rightarrow> NES" where
  "tickPPU_fetch nes0 =
    (let nes = nes0\<lparr>ppu := (ppu nes0)\<lparr>tile_data := push_bit 4 (tile_data (ppu nes0))\<rparr>\<rparr>;
         p = ppu nes;
         pcm8 = cycle p mod 8
     in if pcm8 = 1 then
          (let v = ppu_v p;
               address = 0x2000 OR (v AND 0x0FFF)
           in nes\<lparr>ppu := p\<lparr>name_tbl_u8 := readPPU nes address\<rparr>\<rparr>)
        else if pcm8 = 3 then
          (let v = ppu_v p;
               address = 0x23C0 OR (v AND 0x0C00) OR (drop_bit 4 v AND 0x38)
                         OR (drop_bit 2 v AND 0x07);
               shift = unat ((drop_bit 4 v AND 4) OR (v AND 2))
           in nes\<lparr>ppu := p\<lparr>attrib_tbl_u8 :=
                push_bit 2 (drop_bit shift (readPPU nes address) AND 3)\<rparr>\<rparr>)
        else if pcm8 = 5 then
          (let fineY = drop_bit 12 (ppu_v p) AND 7;
               table = flag_background_tbl p;
               tile = name_tbl_u8 p;
               address = push_bit 12 (ucast table) + push_bit 4 (ucast tile) + fineY
           in nes\<lparr>ppu := p\<lparr>low_tile_u8 := readPPU nes address\<rparr>\<rparr>)
        else if pcm8 = 7 then
          (let fineY = drop_bit 12 (ppu_v p) AND 7;
               table = flag_background_tbl p;
               tile = name_tbl_u8 p;
               address = push_bit 12 (ucast table) + push_bit 4 (ucast tile) + fineY
           in nes\<lparr>ppu := p\<lparr>high_tile_u8 := readPPU nes (address + 8)\<rparr>\<rparr>)
        else if pcm8 = 0 then
          (let (low, high, data) =
                 tile_loop 8 (attrib_tbl_u8 p) (low_tile_u8 p) (high_tile_u8 p) 0
           in nes\<lparr>ppu := p\<lparr>low_tile_u8 := low, high_tile_u8 := high,
                             tile_data := tile_data p OR ucast data\<rparr>\<rparr>)
        else nes)"

text \<open>The scroll updates of a rendered line: coarse X, fine and coarse Y, and the copy of
  the horizontal bits of \<^verbatim>\<open>t\<close>.\<close>

definition tickPPU_incrementX :: "PPU \<Rightarrow> PPU" where
  "tickPPU_incrementX p =
    (if ppu_v p AND 0x001F = 31 then
       (let p1 = p\<lparr>ppu_v := ppu_v p AND 0xFFE0\<rparr>
        in p1\<lparr>ppu_v := ppu_v p1 XOR 0x0400\<rparr>)
     else p\<lparr>ppu_v := ppu_v p + 1\<rparr>)"

definition tickPPU_incrementY :: "PPU \<Rightarrow> PPU" where
  "tickPPU_incrementY p =
    (if ppu_v p AND 0x7000 \<noteq> 0x7000 then p\<lparr>ppu_v := ppu_v p + 0x1000\<rparr>
     else
       (let p1 = p\<lparr>ppu_v := ppu_v p AND 0x8FFF\<rparr>;
            y = drop_bit 5 (ppu_v p1 AND 0x03E0);
            (y1, p2) =
              (if y = 29 then (0, p1\<lparr>ppu_v := ppu_v p1 XOR 0x0800\<rparr>)
               else if y = 31 then (0, p1)
               else (y + 1, p1))
        in p2\<lparr>ppu_v := (ppu_v p2 AND 0xFC1F) OR push_bit 5 y1\<rparr>))"

definition tickPPU_scroll :: "bool \<Rightarrow> PPU \<Rightarrow> PPU" where
  "tickPPU_scroll fetch_cycle p =
    (let p1 = (if fetch_cycle \<and> cycle p mod 8 = 0 then tickPPU_incrementX p else p);
         p2 = (if cycle p1 = 256 then tickPPU_incrementY p1 else p1)
     in if cycle p2 = 257
        then p2\<lparr>ppu_v := (ppu_v p2 AND 0xFBE0) OR (ppu_t p2 AND 0x041F)\<rparr>
        else p2)"

text \<open>Sprite evaluation. \<open>sprite_pattern_loop\<close> is the inner loop over the eight pixels of
  a row, \<open>sprite_eval_loop n nes i count\<close> the outer loop with \<open>n\<close> OAM entries left,
  the next entry \<open>i\<close> and the running \<^verbatim>\<open>count\<close>.\<close>

fun sprite_pattern_loop :: "nat \<Rightarrow> u8 \<Rightarrow> u8 \<Rightarrow> u8 \<Rightarrow> u8 \<Rightarrow> u32 \<Rightarrow> u32" where
  "sprite_pattern_loop 0 attributes atts low high pat = pat"
| "sprite_pattern_loop (Suc n) attributes atts low high pat =
    (let (p1, p2, low1, high1) =
           (if attributes AND 0x40 = 0x40
            then (low AND 1, push_bit 1 (high AND 1), drop_bit 1 low, drop_bit 1 high)
            else (drop_bit 7 (low AND 0x80), drop_bit 6 (high AND 0x80),
                  push_bit 1 low, push_bit 1 high));
         pat1 = push_bit 4 pat
     in sprite_pattern_loop n attributes atts low1 high1 (pat1 OR ucast (atts OR p1 OR p2)))"

definition sprite_fetch :: "NES \<Rightarrow> int \<Rightarrow> int \<Rightarrow> int \<Rightarrow> NES" where
  "sprite_fetch nes i row count =
    (let p = ppu nes;
         a = oam_tbl p (4 * i + 2);
         x = oam_tbl p (4 * i + 3);
         tile = oam_tbl p (4 * i + 1);
         attributes = oam_tbl p (4 * i + 2);
         address =
           (if flag_sprite_size p = 0 then
              (let row1 = (if attributes AND 0x80 = 0x80 then 7 - row else row);
                   table = flag_sprite_tbl p
               in push_bit 12 (ucast table) + push_bit 4 (ucast tile) + (word_of_int row1 :: u16))
            else
              (let row1 = (if attributes AND 0x80 = 0x80 then 15 - row else row);
                   table = tile AND 1;
                   tile1 = tile AND 0xFE;
                   (tile2, row2) = (if row1 > 7 then (tile1 + 1, row1 - 8) else (tile1, row1))
               in push_bit 12 (ucast table) + push_bit 4 (ucast tile2) + word_of_int row2));
         atts = push_bit 2 (attributes AND 3);
         low = readPPU nes address;
         high = readPPU nes (address + 8);
         sprite_pattern = sprite_pattern_loop 8 attributes atts low high 0
     in nes\<lparr>ppu := p\<lparr>sprite_patterns := (sprite_patterns p)(count := sprite_pattern),
                       sprite_pos := (sprite_pos p)(count := x),
                       sprite_priorities := (sprite_priorities p)(count := drop_bit 5 a AND 1),
                       sprite_idx := (sprite_idx p)(count := word_of_int i)\<rparr>\<rparr>)"

fun sprite_eval_loop :: "nat \<Rightarrow> NES \<Rightarrow> int \<Rightarrow> int \<Rightarrow> NES \<times> int" where
  "sprite_eval_loop 0 nes i count = (nes, count)"
| "sprite_eval_loop (Suc n) nes i count =
    (let p = ppu nes;
         h = (if flag_sprite_size p \<noteq> 0 then 16 else 8 :: int);
         y = oam_tbl p (4 * i + 0);
         row = scanline p - uint y
     in if row < 0 \<or> row \<ge> h then sprite_eval_loop n nes (i + 1) count
        else
          (let nes1 = (if count < 8 then sprite_fetch nes i row count else nes)
           in sprite_eval_loop n nes1 (i + 1) (count + 1)))"

definition tickPPU_sprites :: "bool \<Rightarrow> NES \<Rightarrow> NES" where
  "tickPPU_sprites line_visible nes =
    (if line_visible then
       (let (nes1, count) = sprite_eval_loop 64 nes 0 0;
            p = ppu nes1;
            (count1, p1) = (if count > 8 then (8, p\<lparr>flag_sprite_overflow := 1\<rparr>) else (count, p))
        in nes1\<lparr>ppu := p1\<lparr>sprite_cnt := count1\<rparr>\<rparr>)
     else nes\<lparr>ppu := (ppu nes)\<lparr>sprite_cnt := 0\<rparr>\<rparr>)"

text \<open>The vertical-blank logic at the end of \<^verbatim>\<open>tickPPU\<close>; \<^verbatim>\<open>std::swap\<close> exchanges the two
  frame buffers.\<close>

definition tickPPU_vblank :: "bool \<Rightarrow> PPU \<Rightarrow> PPU" where
  "tickPPU_vblank preline p =
    (let p1 = (if scanline p = 241 \<and> cycle p = 1 then
                 PPUnmiShift (p\<lparr>ppu_front := ppu_back p, ppu_back := ppu_front p,
                                nmi_occurred := True\<rparr>)
               else p)
     in if preline \<and> cycle p1 = 1 then
          (PPUnmiShift (p1\<lparr>nmi_occurred := False\<rparr>))
            \<lparr>flag_sprite_zero_hit := 0, flag_sprite_overflow := 0\<rparr>
        else p1)"

text \<open>The body of \<^verbatim>\<open>if (do_render)\<close>: pixel, background fetch, the copy of the vertical bits
  of \<^verbatim>\<open>t\<close> on the pre-render line, and the scroll updates. The arguments are the
  \<^verbatim>\<open>const bool\<close>s that \<^verbatim>\<open>tickPPU\<close> computes after advancing the counters.\<close>

definition tickPPU_render :: "bool \<Rightarrow> bool \<Rightarrow> bool \<Rightarrow> bool \<Rightarrow> NES \<Rightarrow> NES option" where
  "tickPPU_render preline line_visible cycle_visible fetch_cycle nes =
    (let do_line_render = (preline \<or> line_visible)
     in do {
          n1 \<leftarrow> (if line_visible \<and> cycle_visible then tickPPU_pixel nes else Some nes);
          let n2 = (if do_line_render \<and> fetch_cycle then tickPPU_fetch n1 else n1);
          let n3 = (if preline \<and> cycle (ppu n2) \<ge> 280 \<and> cycle (ppu n2) \<le> 304
                    then n2\<lparr>ppu := (ppu n2)\<lparr>ppu_v :=
                           (ppu_v (ppu n2) AND 0x841F) OR (ppu_t (ppu n2) AND 0x7BE0)\<rparr>\<rparr>
                    else n2);
          Some (if do_line_render then n3\<lparr>ppu := tickPPU_scroll fetch_cycle (ppu n3)\<rparr>
                else n3)
        })"

definition tickPPU :: "NES \<Rightarrow> NES option" where
  "tickPPU nes0 =
    (let nes1 = tickPPU_nmi nes0;
         nes2 = nes1\<lparr>ppu := tickPPU_advance (ppu nes1)\<rparr>;
         p = ppu nes2;
         do_render = (flag_show_background p \<noteq> 0 \<or> flag_show_sprites p \<noteq> 0);
         preline = (scanline p = 261);
         line_visible = (scanline p < 240);
         prefetch_cycle = (cycle p \<ge> 321 \<and> cycle p \<le> 336);
         cycle_visible = (cycle p \<ge> 1 \<and> cycle p \<le> 256);
         fetch_cycle = (prefetch_cycle \<or> cycle_visible)
     in do {
          nes3 \<leftarrow>
            (if do_render
             then tickPPU_render preline line_visible cycle_visible fetch_cycle nes2
             else Some nes2);
          let nes4 = (if do_render \<and> cycle (ppu nes3) = 257
                      then tickPPU_sprites line_visible nes3 else nes3);
          Some (nes4\<lparr>ppu := tickPPU_vblank preline (ppu nes4)\<rparr>)
        })"

text \<open>\<open>ticksPPU n\<close> is \<open>n\<close> consecutive calls of \<^verbatim>\<open>tickPPU\<close>.\<close>

fun ticksPPU :: "nat \<Rightarrow> NES \<Rightarrow> NES option" where
  "ticksPPU 0 nes = Some nes"
| "ticksPPU (Suc n) nes = (case tickPPU nes of None \<Rightarrow> None | Some nes1 \<Rightarrow> ticksPPU n nes1)"

section \<open>Construction (\<^verbatim>\<open>NES.h\<close> constructors, \<^verbatim>\<open>NES::NES\<close> in \<^verbatim>\<open>memory.cpp\<close>)\<close>

text \<open>The member initialisers of the constructors. Arrays that the source zeroes with
  \<^verbatim>\<open>memset\<close> are the zero map; the two frame buffers, which \<^verbatim>\<open>new\<close> leaves uninitialised,
  are taken as zero as well.\<close>

definition DMC_new :: DMC where
  "DMC_new = \<lparr>dmc_enabled = False, dmc_value = 0, samp_addr = 0, samp_len = 0, cur_addr = 0,
     cur_len = 0, dmc_shift_reg = 0, bit_count = 0, tick_period = 0, tick_val = 0,
     dmc_loop = False, dmc_irq = False\<rparr>"

definition Pulse_new :: Pulse where
  "Pulse_new = \<lparr>enabled = False, channel = 0, length_enabled = False, length_val = 0,
     timer_period = 0, timer_val = 0, duty_mode = 0, duty_val = 0, sweep_reload = False,
     sweep_enabled = False, sweep_negate = False, sweep_shift = 0, sweep_period = 0,
     sweep_val = 0, envelope_enabled = False, envelope_loop = False, envelope_start = False,
     envelope_period = 0, envelope_val = 0, envelope_vol = 0, const_vol = 0\<rparr>"

definition Triangle_new :: Triangle where
  "Triangle_new = \<lparr>tri_enabled = False, tri_length_enabled = False, tri_length_val = 0,
     tri_timer_period = 0, tri_timer_val = 0, tri_duty_val = 0, counter_period = 0,
     counter_val = 0, counter_reload = False\<rparr>"

definition Noise_new :: Noise where
  "Noise_new = \<lparr>noi_enabled = False, noi_mode = False, noi_shift_reg = 0,
     noi_length_enabled = False, noi_length_val = 0, noi_timer_period = 0, noi_timer_val = 0,
     noi_envelope_enabled = False, noi_envelope_loop = False, noi_envelope_start = False,
     noi_envelope_period = 0, noi_envelope_val = 0, noi_envelope_vol = 0, noi_const_vol = 0\<rparr>"

definition APU_new :: APU where
  "APU_new = \<lparr>pulse1 = Pulse_new, pulse2 = Pulse_new, triangle = Triangle_new,
     noise = Noise_new, dmc = DMC_new, apu_cycle = 0, frame_period = 0, frame_val = 0,
     frame_IRQ = False\<rparr>"

definition CPU_new :: CPU where
  "CPU_new = \<lparr>cycles = 0, PC = 0, SP = 0, cpu_A = 0, cpu_X = 0, cpu_Y = 0, flags = 0,
     interrupt = 0, stall = 0\<rparr>"

definition PPU_new :: PPU where
  "PPU_new = \<lparr>cycle = 0, scanline = 0, frame = 0, palette_tbl = (\<lambda>_. 0), name_tbl = (\<lambda>_. 0),
     oam_tbl = (\<lambda>_. 0), ppu_front = (\<lambda>_. 0), ppu_back = (\<lambda>_. 0), ppu_v = 0, ppu_t = 0,
     ppu_x = 0, ppu_w = 0, ppu_f = 0, reg = 0, nmi_occurred = False, nmi_out = False,
     nmi_last = False, nmi_delay = 0, name_tbl_u8 = 0, attrib_tbl_u8 = 0, low_tile_u8 = 0,
     high_tile_u8 = 0, tile_data = 0, sprite_cnt = 0, sprite_patterns = (\<lambda>_. 0),
     sprite_pos = (\<lambda>_. 0), sprite_priorities = (\<lambda>_. 0), sprite_idx = (\<lambda>_. 0),
     flag_name_tbl = 0, flag_increment = 0, flag_sprite_tbl = 0, flag_background_tbl = 0,
     flag_sprite_size = 0, flag_rw = 0, flag_gray = 0, flag_show_left_background = 0,
     flag_show_left_sprites = 0, flag_show_background = 0, flag_show_sprites = 0,
     flag_red_tint = 0, flag_green_tint = 0, flag_blue_tint = 0, flag_sprite_zero_hit = 0,
     flag_sprite_overflow = 0, oam_addr = 0, buffered_data = 0\<rparr>"

definition Controller_new :: Controller where
  "Controller_new = \<lparr>buttons = 0, index = 0, strobe = 0\<rparr>"

definition Mapper1_new :: Mapper1 where
  "Mapper1_new = \<lparr>m1_shift_reg = 0, m1_control = 0, m1_prg_mode = 0, m1_chr_mode = 0,
     m1_prg_bank = 0, m1_chr_bank0 = 0, m1_chr_bank1 = 0, m1_prg_offsets = (\<lambda>_. 0),
     m1_chr_offsets = (\<lambda>_. 0)\<rparr>"

definition Mapper4_new :: Mapper4 where
  "Mapper4_new = \<lparr>m4_reg = 0, m4_regs = (\<lambda>_. 0), m4_prg_mode = 0, m4_chr_mode = 0,
     m4_prg_offsets = (\<lambda>_. 0), m4_chr_offsets = (\<lambda>_. 0), m4_reload = 0, m4_counter = 0,
     m4_IRQ_enable = False\<rparr>"

text \<open>\<^verbatim>\<open>NES::NES\<close> after the cartridge has been loaded: the mapper for the cartridge's mapper
  number (\<open>None\<close> for an unsupported number), zeroed RAM, the CPU with \<^verbatim>\<open>PC\<close> read from
  \<^verbatim>\<open>$FFFC\<close>, the APU and the PPU.\<close>

definition NES_new :: "Cartridge \<Rightarrow> NES option" where
  "NES_new c =
    do {
      m \<leftarrow>
        (let prg_banks = prg_size c div 2 ^ 14
         in if cart_mapper c = 0 then
              Some (IsMapper2 \<lparr>m2_prg_banks = prg_banks, m2_prg_bank1 = 0,
                               m2_prg_bank2 = prg_banks - 1\<rparr>)
            else if cart_mapper c = 1 then
              do {
                o1 \<leftarrow> Mapper1_prgBankOffset c (- 1);
                Some (IsMapper1 (Mapper1_new\<lparr>m1_shift_reg := 0x10,
                                   m1_prg_offsets := (m1_prg_offsets Mapper1_new)(1 := o1)\<rparr>))
              }
            else if cart_mapper c = 2 then
              Some (IsMapper2 \<lparr>m2_prg_banks = prg_banks, m2_prg_bank1 = 0,
                               m2_prg_bank2 = prg_banks - 1\<rparr>)
            else if cart_mapper c = 3 then
              Some (IsMapper3 \<lparr>m3_chr_bank = 0, m3_prg_bank1 = 0, m3_prg_bank2 = prg_banks - 1\<rparr>)
            else if cart_mapper c = 4 then
              do {
                o0 \<leftarrow> Mapper4_prgBankOffset c 0;
                o1 \<leftarrow> Mapper4_prgBankOffset c 1;
                o2 \<leftarrow> Mapper4_prgBankOffset c (- 2);
                o3 \<leftarrow> Mapper4_prgBankOffset c (- 1);
                Some (IsMapper4 (Mapper4_new\<lparr>m4_prg_offsets :=
                        (m4_prg_offsets Mapper4_new)(0 := o0, 1 := o1, 2 := o2, 3 := o3)\<rparr>))
              }
            else if cart_mapper c = 7 then Some (IsMapper7 \<lparr>m7_prg_bank = 0\<rparr>)
            else None);
      let nes0 = \<lparr>cpu = CPU_new, apu = APU_new, ppu = PPU_new, cartridge = c,
                   controller1 = Controller_new, controller2 = Controller_new, mapper = m,
                   RAM = (\<lambda>_. 0)\<rparr>;
      let (pc, nes1) = read16 nes0 0xFFFC;
      let nes2 = nes1\<lparr>cpu := CPU_new\<lparr>PC := pc, SP := 0xFD, flags := 0x24\<rparr>\<rparr>;
      let nes3 = nes2\<lparr>apu := APU_new\<lparr>noise := Noise_new\<lparr>noi_shift_reg := 1\<rparr>,
                                         pulse1 := Pulse_new\<lparr>channel := 1\<rparr>,
                                         pulse2 := Pulse_new\<lparr>channel := 2\<rparr>\<rparr>\<rparr>;
      let p = PPU_new\<lparr>cycle := 340, scanline := 250, frame := 0\<rparr>;
      let p1 = writePPUMask (writePPUCtrl p 0) 0;
      Some (nes3\<lparr>ppu := p1\<lparr>oam_addr := 0\<rparr>\<rparr>)
    }"

text \<open>The cartridge that \<^verbatim>\<open>Cartridge::Cartridge\<close> builds from an iNES file with one 16 KiB
  PRG bank of zero bytes, no CHR bank (so 8 KiB of zeroed CHR RAM), mapper 0 and no
  battery.\<close>

definition blank_cartridge :: Cartridge where
  "blank_cartridge = \<lparr>PRG = (\<lambda>_. 0), prg_size = 16384, cart_CHR = (\<lambda>_. 0), chr_size = 8192,
     SRAM = (\<lambda>_. 0), trainer_present = False, trainer = (\<lambda>_. 0), cart_mapper = 0,
     mirror = 0, battery_present = 0\<rparr>"

text \<open>A sequence of CPU bus writes, stopping at the first failure.\<close>

fun writeBytes :: "NES \<Rightarrow> (u16 \<times> u8) list \<Rightarrow> NES option" where
  "writeBytes nes [] = Some nes"
| "writeBytes nes ((address, value) # ws) =
    (case writeByte nes address value of None \<Rightarrow> None | Some nes1 \<Rightarrow> writeBytes nes1 ws)"

section \<open>Devices for the proofs\<close>

text \<open>The 15 low bits of the noise shift register as a list, bit 0 first, and the clock
  step on that list.\<close>

definition lfsr_bits :: "u16 \<Rightarrow> bool list" where
  "lfsr_bits s =
    [bit s 0, bit s 1, bit s 2, bit s 3, bit s 4, bit s 5, bit s 6, bit s 7,
     bit s 8, bit s 9, bit s 10, bit s 11, bit s 12, bit s 13, bit s 14]"

fun lfsr_shift :: "bool list \<Rightarrow> bool list" where
  "lfsr_shift (a # b # r) = b # r @ [a \<noteq> b]"
| "lfsr_shift r = r"

definition lfsr_one :: "bool list" where
  "lfsr_one = [True, False, False, False, False, False, False, False,
               False, False, False, False, False, False, False]"

text \<open>\<open>lfsr_run n x\<close> clocks the list \<open>n\<close> times and fails as soon as a clock produces
  \<open>lfsr_one\<close>; the \<open>lfsr_run\<close>\<open>k\<close> are the same for fixed \<open>k\<close>, in a form that unfolds
  without arithmetic.\<close>

definition lfsr_run1 :: "bool list \<Rightarrow> bool list option" where
  "lfsr_run1 x = (let y = lfsr_shift x in if y = lfsr_one then None else Some y)"

fun lfsr_run :: "nat \<Rightarrow> bool list \<Rightarrow> bool list option" where
  "lfsr_run 0 x = Some x"
| "lfsr_run (Suc n) x = Option.bind (lfsr_run1 x) (lfsr_run n)"

definition lfsr_run4 :: "bool list \<Rightarrow> bool list option" where
  "lfsr_run4 x =
    Option.bind (Option.bind (Option.bind (lfsr_run1 x) lfsr_run1) lfsr_run1) lfsr_run1"

definition lfsr_run16 :: "bool list \<Rightarrow> bool list option" where
  "lfsr_run16 x =
    Option.bind (Option.bind (Option.bind (lfsr_run4 x) lfsr_run4) lfsr_run4) lfsr_run4"

definition lfsr_run64 :: "bool list \<Rightarrow> bool list option" where
  "lfsr_run64 x =
    Option.bind (Option.bind (Option.bind (lfsr_run16 x) lfsr_run16) lfsr_run16) lfsr_run16"

definition lfsr_run256 :: "bool list \<Rightarrow> bool list option" where
  "lfsr_run256 x =
    Option.bind (Option.bind (Option.bind (lfsr_run64 x) lfsr_run64) lfsr_run64) lfsr_run64"

definition lfsr_run1024 :: "bool list \<Rightarrow> bool list option" where
  "lfsr_run1024 x =
    Option.bind (Option.bind (Option.bind (lfsr_run256 x) lfsr_run256) lfsr_run256) lfsr_run256"

definition lfsr_run4096 :: "bool list \<Rightarrow> bool list option" where
  "lfsr_run4096 x =
    Option.bind (Option.bind (Option.bind (lfsr_run1024 x) lfsr_run1024) lfsr_run1024)
      lfsr_run1024"

text \<open>\<open>readControllerN n c\<close> is the controller after \<open>n\<close> consecutive reads.\<close>

fun readControllerN :: "nat \<Rightarrow> Controller \<Rightarrow> Controller" where
  "readControllerN 0 c = c"
| "readControllerN (Suc n) c = readControllerN n (snd (readController c))"

text \<open>The state that \<^verbatim>\<open>NES::NES\<close> builds for \<open>blank_cartridge\<close>, written out.\<close>

definition NES_blank :: NES where
  "NES_blank =
    \<lparr>cpu = CPU_new\<lparr>SP := 0xFD, flags := 0x24\<rparr>,
     apu = APU_new\<lparr>noise := Noise_new\<lparr>noi_shift_reg := 1\<rparr>,
                     pulse1 := Pulse_new\<lparr>channel := 1\<rparr>,
                     pulse2 := Pulse_new\<lparr>channel := 2\<rparr>\<rparr>,
     ppu = PPU_new\<lparr>cycle := 340, scanline := 250\<rparr>,
     cartridge = blank_cartridge,
     controller1 = Controller_new,
     controller2 = Controller_new,
     mapper = IsMapper2 \<lparr>m2_prg_banks = 1, m2_prg_bank1 = 0, m2_prg_bank2 = 0\<rparr>,
     RAM = (\<lambda>_. 0)\<rparr>"

text \<open>The effect of the DMA loop on OAM when every source address is in RAM: \<open>n\<close> bytes of
  \<open>ram\<close> from \<open>addr\<close> on are stored at \<open>a\<close>, \<open>a + 1\<close>, ... (an 8-bit index).\<close>

fun dma_copy :: "nat \<Rightarrow> u8 array \<Rightarrow> u8 array \<Rightarrow> u8 \<Rightarrow> u16 \<Rightarrow> u8 array" where
  "dma_copy 0 ram oam a addr = oam"
| "dma_copy (Suc n) ram oam a addr =
    dma_copy n ram (oam(uint a := ram (uint (addr AND 2047)))) (a + 1) (addr + 1)"

text \<open>The part of the state that the rendering phases of \<^verbatim>\<open>tickPPU\<close> leave alone: the
  CPU, the dot and scanline counters, the NMI edge detector, \<^verbatim>\<open>t\<close>, and bit 15 of
  \<^verbatim>\<open>v\<close>.\<close>

definition ppu_core :: "PPU \<Rightarrow> int \<times> int \<times> bool \<times> bool \<times> bool \<times> u8 \<times> u16 \<times> bool" where
  "ppu_core p =
    (cycle p, scanline p, nmi_occurred p, nmi_out p, nmi_last p, nmi_delay p, ppu_t p,
     bit (ppu_v p) 15)"

definition tick_core ::
  "NES \<Rightarrow> CPU \<times> int \<times> int \<times> bool \<times> bool \<times> bool \<times> u8 \<times> u16 \<times> bool" where
  "tick_core nes = (cpu nes, ppu_core (ppu nes))"

text \<open>The state of the NMI edge detector while a delay of \<open>k\<close> dots started by a write to
  \<^verbatim>\<open>$2000\<close> is running: either the output condition was last seen true, or the pre-render
  line has cleared \<^verbatim>\<open>nmi_occurred\<close> at most \<open>15 - k\<close> dots ago.\<close>

definition nmi_pending :: "nat \<Rightarrow> PPU \<Rightarrow> bool" where
  "nmi_pending k p \<longleftrightarrow>
     nmi_out p \<and> unat (nmi_delay p) = k
     \<and> (nmi_last p
        \<or> (\<not> nmi_occurred p \<and> scanline p = 261 \<and> 1 \<le> cycle p \<and> cycle p \<le> 16 - int k))"

text \<open>The states the emulator can be in. It starts in the state built by the constructor.
  Whatever \<^verbatim>\<open>emulate\<close>, the instructions of \<^verbatim>\<open>execute\<close> and \<^verbatim>\<open>tickAPU\<close> do to the PPU, the RAM
  and the cartridge goes through \<^verbatim>\<open>tickPPU\<close>, \<^verbatim>\<open>readByte\<close> and \<^verbatim>\<open>writeByte\<close>. What they do
  besides (the CPU registers, the stall and interrupt fields, the APU channels, the MMC3
  counter, the buttons polled by the window loop) changes only the \<^verbatim>\<open>cpu\<close>, \<^verbatim>\<open>apu\<close>, \<^verbatim>\<open>mapper\<close>
  and controller components, which the last five rules let change freely; so \<open>reach\<close>
  holds of every state that a run of the emulator passes through.\<close>

inductive reach :: "NES \<Rightarrow> bool" where
  reach_new: "NES_new c = Some nes \<Longrightarrow> reach nes"
| reach_tick: "reach nes \<Longrightarrow> tickPPU nes = Some nes' \<Longrightarrow> reach nes'"
| reach_read: "reach nes \<Longrightarrow> reach (snd (readByte nes address))"
| reach_write: "reach nes \<Longrightarrow> writeByte nes address value = Some nes' \<Longrightarrow> reach nes'"
| reach_cpu: "reach nes \<Longrightarrow> reach (nes\<lparr>cpu := c'\<rparr>)"
| reach_apu: "reach nes \<Longrightarrow> reach (nes\<lparr>apu := a'\<rparr>)"
| reach_mapper: "reach nes \<Longrightarrow> reach (nes\<lparr>mapper := m'\<rparr>)"
| reach_controller1: "reach nes \<Longrightarrow> reach (nes\<lparr>controller1 := k'\<rparr>)"
| reach_controller2: "reach nes \<Longrightarrow> reach (nes\<lparr>controller2 := k'\<rparr>)"

text \<open>\<open>ppudata_reads n s\<close> counts, among the \<open>n\<close> CPU addresses from \<open>s\<close> on, those that
  \<^verbatim>\<open>readByte\<close> sends to the \<^verbatim>\<open>$2007\<close> branch of \<^verbatim>\<open>readPPURegister\<close>: the addresses of
  \<^verbatim>\<open>$2000\<close>-\<^verbatim>\<open>$3FFF\<close> whose three low bits are all set.\<close>

fun ppudata_reads :: "nat \<Rightarrow> nat \<Rightarrow> nat" where
  "ppudata_reads 0 s = 0"
| "ppudata_reads (Suc n) s =
    (if 8192 \<le> s \<and> s < 16384 \<and> s mod 8 = 7 then 1 else 0) + ppudata_reads n (Suc s)"

section \<open>Theorems\<close>

subsection \<open>Word equality bit by bit\<close>

lemma nat_less_16_cases:
  "i < 16 \<Longrightarrow> i \<in> {0, 1, 2, 3, 4, 5, 6, 7, 8, 9, 10, 11, 12, 13, 14, 15 :: nat}"
  by (simp, presburger)

lemma word16_eq_iff:
  "(x :: u16) = y \<longleftrightarrow>
     (bit x 0 = bit y 0) \<and> (bit x 1 = bit y 1) \<and> (bit x 2 = bit y 2) \<and> (bit x 3 = bit y 3)
   \<and> (bit x 4 = bit y 4) \<and> (bit x 5 = bit y 5) \<and> (bit x 6 = bit y 6) \<and> (bit x 7 = bit y 7)
   \<and> (bit x 8 = bit y 8) \<and> (bit x 9 = bit y 9) \<and> (bit x 10 = bit y 10)
   \<and> (bit x 11 = bit y 11) \<and> (bit x 12 = bit y 12) \<and> (bit x 13 = bit y 13)
   \<and> (bit x 14 = bit y 14) \<and> (bit x 15 = bit y 15)"
  (is "?l \<longleftrightarrow> ?r")
proof
  assume ?l
  then show ?r by simp
next
  assume r: ?r
  show ?l
  proof (rule bit_word_eqI)
    fix n
    assume "n < LENGTH(16)"
    then have "n < 16" by simp
    from nat_less_16_cases [OF this] r show "bit x n = bit y n" by auto
  qed
qed

lemma nat_less_8_cases:
  "i < 8 \<Longrightarrow> i \<in> {0, 1, 2, 3, 4, 5, 6, 7 :: nat}"
  by (simp, presburger)

lemma word8_eq_iff:
  "(x :: u8) = y \<longleftrightarrow>
     (bit x 0 = bit y 0) \<and> (bit x 1 = bit y 1) \<and> (bit x 2 = bit y 2) \<and> (bit x 3 = bit y 3)
   \<and> (bit x 4 = bit y 4) \<and> (bit x 5 = bit y 5) \<and> (bit x 6 = bit y 6) \<and> (bit x 7 = bit y 7)"
  (is "?l \<longleftrightarrow> ?r")
proof
  assume ?l
  then show ?r by simp
next
  assume r: ?r
  show ?l
  proof (rule bit_word_eqI)
    fix n
    assume "n < LENGTH(8)"
    then have "n < 8" by simp
    from nat_less_8_cases [OF this] r show "bit x n = bit y n" by auto
  qed
qed

subsection \<open>APU status read\<close>

text \<open>
  Claim C1 says that a CPU bus read of \<^verbatim>\<open>$4015\<close> returns a status byte whose bits 0 to 4
  tell which of the length counters of pulse 1, pulse 2, triangle and noise, and the DMC
  sample length, are greater than zero. The source computes that byte in \<^verbatim>\<open>read_status\<close>
  and then returns the constant 0: in every state the read yields 0 and changes nothing,
  also when a length counter is running.
\<close>

theorem readByte_4015_returns_zero: "readByte nes 0x4015 = (0, nes)"
  by (simp add: readByte_def Let_def)

subsection \<open>Writes to the unused APU registers\<close>

text \<open>
  Claim C3 says that a CPU bus write to \<^verbatim>\<open>$4009\<close> or to \<^verbatim>\<open>$400D\<close> leaves the APU
  unchanged. In the source the two \<^verbatim>\<open>case\<close> labels fall through: a write to \<^verbatim>\<open>$4009\<close> is
  the write to the DMC control register \<^verbatim>\<open>$4010\<close>, a write to \<^verbatim>\<open>$400D\<close> is the write to
  the noise period register \<^verbatim>\<open>$400E\<close>. On the freshly constructed APU the value
  \<^verbatim>\<open>0x80\<close> sets the DMC interrupt flag and the DMC period, and the noise mode and the
  noise period.
\<close>

theorem writeByte_4009_400D_fall_through:
  "writeByte nes 0x4009 value = Some (nes\<lparr>apu := writeRegisterAPU (apu nes) 0x4010 value\<rparr>)
   \<and> writeByte nes 0x400D value = Some (nes\<lparr>apu := writeRegisterAPU (apu nes) 0x400E value\<rparr>)
   \<and> dmc (writeRegisterAPU APU_new 0x4009 0x80)
       = DMC_new\<lparr>dmc_irq := True, tick_period := 214\<rparr>
   \<and> noise (writeRegisterAPU APU_new 0x400D 0x80)
       = Noise_new\<lparr>noi_mode := True, noi_timer_period := 4\<rparr>
   \<and> writeRegisterAPU APU_new 0x4009 0x80 \<noteq> APU_new
   \<and> writeRegisterAPU APU_new 0x400D 0x80 \<noteq> APU_new"
proof -
  have a: "dmc (writeRegisterAPU APU_new 0x4009 0x80)
       = DMC_new\<lparr>dmc_irq := True, tick_period := 214\<rparr>"
    by (simp add: writeRegisterAPU_def APU_new_def DMC_new_def dmc_tbl_def)
  have b: "noise (writeRegisterAPU APU_new 0x400D 0x80)
       = Noise_new\<lparr>noi_mode := True, noi_timer_period := 4\<rparr>"
    by (simp add: writeRegisterAPU_def APU_new_def Noise_new_def noise_tbl_def)
  have c: "dmc APU_new = DMC_new" "noise APU_new = Noise_new"
    by (simp_all add: APU_new_def)
  have d: "DMC_new\<lparr>dmc_irq := True, tick_period := 214\<rparr> \<noteq> DMC_new"
    by (simp add: DMC_new_def)
  have e: "Noise_new\<lparr>noi_mode := True, noi_timer_period := 4\<rparr> \<noteq> Noise_new"
    by (simp add: Noise_new_def)
  have f: "writeRegisterAPU APU_new 0x4009 0x80 \<noteq> APU_new" using a c d by metis
  have g: "writeRegisterAPU APU_new 0x400D 0x80 \<noteq> APU_new" using b c e by metis
  have h: "writeByte nes 0x4009 value
             = Some (nes\<lparr>apu := writeRegisterAPU (apu nes) 0x4010 value\<rparr>)"
    by (simp add: writeByte_def writeRegisterAPU_def)
  have i: "writeByte nes 0x400D value
             = Some (nes\<lparr>apu := writeRegisterAPU (apu nes) 0x400E value\<rparr>)"
    by (simp add: writeByte_def writeRegisterAPU_def)
  show ?thesis using a b f g h i by blast
qed

subsection \<open>Controller shift register\<close>

lemma readController_strobe_clear:
  "strobe c AND 1 = 0 \<Longrightarrow> snd (readController c) = c\<lparr>index := index c + 1\<rparr>"
  by (simp add: readController_def Let_def)

lemma readControllerN_strobe_clear:
  "strobe c AND 1 = 0 \<Longrightarrow> readControllerN n c = c\<lparr>index := index c + of_nat n\<rparr>"
proof (induction n arbitrary: c)
  case 0
  then show ?case by simp
next
  case (Suc n)
  have "strobe (c\<lparr>index := index c + 1\<rparr>) AND 1 = 0" using Suc.prems by simp
  from Suc.IH [OF this] Suc.prems show ?case
    by (simp add: readController_strobe_clear add.assoc add.commute)
qed

lemma button_bit_test: "(drop_bit n (b :: u8) AND 1 \<noteq> 0) = bit b n"
  by (simp add: bit_iff_and_drop_bit_eq_1 and_one_eq mod2_eq_if)

text \<open>
  Claim C10 says that, with strobe bit 0 clear, a read returns bit \<^verbatim>\<open>index\<close> of the buttons
  and increments \<^verbatim>\<open>index\<close>; that from \<^verbatim>\<open>index = 8\<close> on every further read returns 0, without
  wrapping back to bit 0; and that a read or strobe write while strobe bit 0 is set resets
  \<^verbatim>\<open>index\<close>. The second part fails: \<^verbatim>\<open>index\<close> is a \<^verbatim>\<open>uint8_t\<close> that every read increments, so
  248 reads after \<^verbatim>\<open>index = 8\<close> it is 0 again, and the next read returns button bit 0.
\<close>

theorem controller_index_wraps_counterexample:
  "fst (readController (readControllerN 248 \<lparr>buttons = 1, index = 8, strobe = 0\<rparr>)) = 1"
  by (simp add: readControllerN_strobe_clear readController_def)

text \<open>
  Claim C10 as amended. With strobe bit 0 clear: a read with \<^verbatim>\<open>index < 8\<close> returns bit
  \<^verbatim>\<open>index\<close> of the buttons, a read with \<^verbatim>\<open>index \<ge> 8\<close> returns 0, and \<open>n\<close> reads add \<open>n\<close> to
  \<^verbatim>\<open>index\<close> modulo 256 and change nothing else. With strobe bit 0 set a read leaves
  \<^verbatim>\<open>index = 0\<close>, and a strobe write whose value has bit 0 set leaves \<^verbatim>\<open>index = 0\<close>.
\<close>

theorem controller_read_write:
  "(strobe c AND 1 = 0 \<and> index c < 8 \<longrightarrow>
      fst (readController c) = of_bool (bit (buttons c) (unat (index c))))
   \<and> (strobe c AND 1 = 0 \<and> index c \<ge> 8 \<longrightarrow> fst (readController c) = 0)
   \<and> (strobe c AND 1 = 0 \<longrightarrow> readControllerN n c = c\<lparr>index := index c + of_nat n\<rparr>)
   \<and> (strobe c AND 1 = 1 \<longrightarrow> index (snd (readController c)) = 0)
   \<and> (value AND 1 = 1 \<longrightarrow> index (writeController c value) = 0)"
  by (auto simp add: readController_def writeController_def Let_def button_bit_test
        readControllerN_strobe_clear)

theorem controller_read_write_witness:
  "strobe \<lparr>buttons = 5, index = 2, strobe = 0\<rparr> AND 1 = 0
   \<and> index \<lparr>buttons = 5, index = 2, strobe = 0\<rparr> < 8
   \<and> fst (readController \<lparr>buttons = 5, index = 2, strobe = 0\<rparr>) = 1
   \<and> readControllerN 3 \<lparr>buttons = 5, index = 2, strobe = 0\<rparr>
       = \<lparr>buttons = 5, index = 5, strobe = 0\<rparr>
   \<and> index \<lparr>buttons = 255, index = 8, strobe = 0\<rparr> \<ge> 8
   \<and> fst (readController \<lparr>buttons = 255, index = 8, strobe = 0\<rparr>) = 0
   \<and> strobe \<lparr>buttons = 1, index = 3, strobe = 1\<rparr> AND 1 = 1
   \<and> index (snd (readController \<lparr>buttons = 1, index = 3, strobe = 1\<rparr>)) = 0
   \<and> (1 :: u8) AND 1 = 1
   \<and> index (writeController \<lparr>buttons = 1, index = 3, strobe = 0\<rparr> 1) = 0"
  using controller_read_write [of "\<lparr>buttons = 5, index = 2, strobe = 0\<rparr>" 3 1]
    controller_read_write [of "\<lparr>buttons = 255, index = 8, strobe = 0\<rparr>" 0 1]
    controller_read_write [of "\<lparr>buttons = 1, index = 3, strobe = 1\<rparr>" 0 1]
    controller_read_write [of "\<lparr>buttons = 1, index = 3, strobe = 0\<rparr>" 0 1]
  by simp

subsection \<open>MMC1 reset write\<close>


lemma prg_mode_after_reset: "drop_bit 2 (x OR 0x0C) AND 3 = (3::u8)"
  by (simp add: word8_eq_iff bit_simps)

lemma chr_mode_cases: "drop_bit 4 (x::u8) AND 1 = 0 \<or> drop_bit 4 x AND 1 = 1"
  by (simp add: word8_eq_iff bit_simps)

lemma bankOffset_None: "bankOffset sh sz idx = None \<longleftrightarrow> sz div 2 ^ sh = 0"
  by (simp add: bankOffset_def Let_def)

lemma bankOffset_SomeD:
  "bankOffset 12 sz idx = Some v \<Longrightarrow> sz div 4096 \<noteq> 0"
  "bankOffset 14 sz idx = Some v \<Longrightarrow> sz div 16384 \<noteq> 0"
  by (auto simp add: bankOffset_def Let_def split: if_splits)

lemma Mapper1_updateOffsets_fields:
  "Mapper1_updateOffsets m c = Some m' \<Longrightarrow>
     m1_shift_reg m' = m1_shift_reg m \<and> m1_prg_mode m' = m1_prg_mode m"
  by (auto simp add: Mapper1_updateOffsets_def split: if_splits Option.bind_splits)

lemma Mapper1_updateOffsets_None:
  assumes "m1_prg_mode m = 3" and "m1_chr_mode m = 0 \<or> m1_chr_mode m = 1"
  shows "Mapper1_updateOffsets m c = None
          \<longleftrightarrow> prg_size c div 2 ^ 14 = 0 \<or> chr_size c div 2 ^ 12 = 0"
  using assms
  by (auto simp add: Mapper1_updateOffsets_def Mapper1_prgBankOffset_def
      Mapper1_chrBankOffset_def bankOffset_None split: Option.bind_splits
      dest: bankOffset_SomeD)

text \<open>
  Claim C7: for every MMC1 state, a write to an address in \<^verbatim>\<open>$8000..$FFFF\<close> whose value has
  bit 7 set leaves the shift register at \<^verbatim>\<open>0x10\<close> and the PRG mode at 3. The write
  returns a state exactly when the cartridge has at least one 16 KiB PRG bank and one
  4 KiB CHR bank (otherwise \<^verbatim>\<open>updateOffsets\<close> divides by zero), and every state it
  returns has the two values.
\<close>

theorem Mapper1_reset_write:
  assumes "address \<ge> 0x8000" and "value AND 0x80 = 0x80"
  shows "(\<forall>m' c'. Mapper1_write m c address value = Some (m', c') \<longrightarrow>
            m1_shift_reg m' = 0x10 \<and> m1_prg_mode m' = 3)
       \<and> (Mapper1_write m c address value = None
            \<longleftrightarrow> prg_size c div 2 ^ 14 = 0 \<or> chr_size c div 2 ^ 12 = 0)"
proof -
  let ?m2 = "m\<lparr>m1_shift_reg := 0x10, m1_control := m1_control m OR 0x0C,
               m1_chr_mode := drop_bit 4 (m1_control m OR 0x0C) AND 1,
               m1_prg_mode := drop_bit 2 (m1_control m OR 0x0C) AND 3\<rparr>"
  let ?c2 = "snd (Mapper1_writeCtrl (m\<lparr>m1_shift_reg := 0x10\<rparr>) c (m1_control m OR 0x0C))"
  have na: "\<not> address < 0x2000" using assms(1) by (simp add: word_less_def word_le_def)
  have w: "Mapper1_write m c address value
             = Option.bind (Mapper1_updateOffsets ?m2 ?c2) (\<lambda>m3. Some (m3, ?c2))"
    using assms na by (simp add: Mapper1_write_def Let_def Mapper1_writeCtrl_def)
  have sz: "prg_size ?c2 = prg_size c" "chr_size ?c2 = chr_size c"
    by (simp_all add: Mapper1_writeCtrl_def Let_def)
  have pm: "m1_prg_mode ?m2 = 3" by (simp add: prg_mode_after_reset)
  have cm: "m1_chr_mode ?m2 = 0 \<or> m1_chr_mode ?m2 = 1" using chr_mode_cases by simp
  have none: "Mapper1_updateOffsets ?m2 ?c2 = None
          \<longleftrightarrow> prg_size c div 2 ^ 14 = 0 \<or> chr_size c div 2 ^ 12 = 0"
    using Mapper1_updateOffsets_None [OF pm cm, of ?c2] sz by simp
  have some: "m1_shift_reg m' = 0x10 \<and> m1_prg_mode m' = 3"
    if "Mapper1_updateOffsets ?m2 ?c2 = Some m'" for m'
    using Mapper1_updateOffsets_fields [OF that] pm by simp
  show ?thesis
  proof (cases "Mapper1_updateOffsets ?m2 ?c2")
    case None
    then show ?thesis using w none by simp
  next
    case (Some m3)
    then show ?thesis using w none some [OF Some] by auto
  qed
qed

theorem Mapper1_reset_write_witness:
  "(0x8000 :: u16) \<ge> 0x8000 \<and> (0x80 :: u8) AND 0x80 = 0x80
   \<and> (\<exists>m' c'. Mapper1_write Mapper1_new blank_cartridge 0x8000 0x80 = Some (m', c')
         \<and> m1_shift_reg m' = 0x10 \<and> m1_prg_mode m' = 3)"
proof -
  have a: "(0x8000 :: u16) \<ge> 0x8000" by simp
  have b: "(0x80 :: u8) AND 0x80 = 0x80" by simp
  have c: "\<not> (prg_size blank_cartridge div 2 ^ 14 = 0 \<or> chr_size blank_cartridge div 2 ^ 12 = 0)"
    by (simp add: blank_cartridge_def)
  from Mapper1_reset_write [OF a b, of Mapper1_new blank_cartridge] c
  show ?thesis using a b by (cases "Mapper1_write Mapper1_new blank_cartridge 0x8000 0x80") auto
qed

subsection \<open>The power-on state and the register window of the bus\<close>

lemma NES_new_blank: "NES_new blank_cartridge = Some NES_blank"
  by (simp add: NES_new_def NES_blank_def blank_cartridge_def read16_def readByte_def
      mapper_read_def Mapper2_read_def Let_def CPU_new_def PPU_new_def writePPUCtrl_def
      writePPUMask_def PPUnmiShift_def)

lemma writeByte_PPU_register:
  "writeByte nes 0x2000 value = writeRegisterPPU nes 0x2000 value"
  "writeByte nes 0x2005 value = writeRegisterPPU nes 0x2005 value"
  "writeByte nes 0x2006 value = writeRegisterPPU nes 0x2006 value"
  "writeByte nes 0x2007 value = writeRegisterPPU nes 0x2007 value"
  "writeByte nes 0x4014 value = writeRegisterPPU nes 0x4014 value"
  by (simp_all add: writeByte_def)

subsection \<open>Two writes to PPUADDR\<close>

lemma v_after_2006:
  "(((t AND 0x80FF) OR push_bit 8 (ucast (hi::u8) AND 0x3F)) AND 0xFF00) OR ucast (lo :: u8)
     = (t AND 0x8000) OR push_bit 8 (ucast hi AND 0x3F) OR (ucast lo :: u16)"
  by (simp add: word16_eq_iff bit_simps)

lemma t_bit15_clear: "\<not> bit (t :: u16) 15 \<Longrightarrow> t AND 0x8000 = 0"
  by (simp add: word16_eq_iff bit_simps)

lemma writeBytes_2006_twice:
  assumes "ppu_w (ppu nes) = 0"
  shows "writeBytes nes [(0x2006, hi), (0x2006, lo)]
           = Some (nes\<lparr>ppu := (ppu nes)\<lparr>reg := lo,
                ppu_t := (ppu_t (ppu nes) AND 0x8000) OR push_bit 8 (ucast hi AND 0x3F)
                           OR ucast lo,
                ppu_v := (ppu_t (ppu nes) AND 0x8000) OR push_bit 8 (ucast hi AND 0x3F)
                           OR ucast lo,
                ppu_w := 0\<rparr>\<rparr>)"
proof -
  have w: "writeRegisterPPU nes 0x2006 hi
             = Some (nes\<lparr>ppu := (ppu nes)\<lparr>reg := hi,
                  ppu_t := (ppu_t (ppu nes) AND 0x80FF) OR push_bit 8 (ucast hi AND 0x3F),
                  ppu_w := 1\<rparr>\<rparr>)" (is "_ = Some ?n1")
    using assms by (simp add: writeRegisterPPU_def Let_def)
  have w2: "writeRegisterPPU ?n1 0x2006 lo
             = Some (?n1\<lparr>ppu := (ppu ?n1)\<lparr>reg := lo,
                  ppu_t := (ppu_t (ppu ?n1) AND 0xFF00) OR ucast lo,
                  ppu_v := (ppu_t (ppu ?n1) AND 0xFF00) OR ucast lo,
                  ppu_w := 0\<rparr>\<rparr>)"
    by (simp add: writeRegisterPPU_def Let_def)
  show ?thesis
    by (simp only: writeBytes.simps writeByte_PPU_register w w2 option.case)
       (simp add: v_after_2006 [simplified])
qed

subsection \<open>OAM DMA\<close>

lemma readByte_RAM:
  "address < 0x2000 \<Longrightarrow> readByte nes address = (RAM nes (uint (address AND 2047)), nes)"
  by (simp add: readByte_def)

lemma dma_loop_RAM:
  "unat address + n \<le> 0x2000 \<Longrightarrow>
   dma_loop n nes address
     = nes\<lparr>ppu := (ppu nes)\<lparr>
         oam_tbl := dma_copy n (RAM nes) (oam_tbl (ppu nes)) (oam_addr (ppu nes)) address,
         oam_addr := oam_addr (ppu nes) + of_nat n\<rparr>\<rparr>"
proof (induction n arbitrary: nes address)
  case 0
  then show ?case by simp
next
  case (Suc n)
  have lt: "unat address < 0x2000" using Suc.prems by simp
  then have a: "address < 0x2000" by (simp add: word_less_nat_alt)
  have "unat address + unat (1 :: u16) < 2 ^ LENGTH(16)" using lt by simp
  then have u: "unat (address + 1) = unat address + 1"
    using unat_add_lem [of address 1] by simp
  have pre: "unat (address + 1) + n \<le> 0x2000" using Suc.prems u by simp
  let ?nes1 = "nes\<lparr>ppu := (ppu nes)\<lparr>
      oam_tbl := (oam_tbl (ppu nes))(uint (oam_addr (ppu nes))
                   := RAM nes (uint (address AND 2047))),
      oam_addr := oam_addr (ppu nes) + 1\<rparr>\<rparr>"
  have step: "dma_loop (Suc n) nes address = dma_loop n ?nes1 (address + 1)"
    by (simp add: readByte_RAM [OF a] Let_def)
  show ?case
    unfolding step Suc.IH [OF pre, of ?nes1] by (simp add: algebra_simps)
qed

lemma dma_copy_other:
  "(\<forall>i<n. j \<noteq> uint (a + of_nat i)) \<Longrightarrow> dma_copy n ram oam a addr j = oam j"
proof (induction n arbitrary: oam a addr)
  case 0
  then show ?case by simp
next
  case (Suc n)
  have "\<forall>i<n. j \<noteq> uint (a + 1 + of_nat i)"
  proof (intro allI impI)
    fix i assume "i < n"
    then have "j \<noteq> uint (a + of_nat (Suc i))" using Suc.prems by blast
    then show "j \<noteq> uint (a + 1 + of_nat i)" by (simp add: ac_simps)
  qed
  from Suc.IH [OF this] have
    "dma_copy n ram (oam(uint a := ram (uint (addr AND 2047)))) (a + 1) (addr + 1) j
       = (oam(uint a := ram (uint (addr AND 2047)))) j" .
  moreover have "j \<noteq> uint a" using Suc.prems [rule_format, of 0] by simp
  ultimately show ?case by simp
qed

lemma u8_Suc_neq_0: "k < 255 \<Longrightarrow> (1 + of_nat k :: u8) \<noteq> 0"
proof
  assume k: "k < 255" and z: "(1 + of_nat k :: u8) = 0"
  have "(of_nat (Suc k) :: u8) = 0" using z by simp
  then have "2 ^ LENGTH(8) dvd Suc k" by (simp only: word_of_nat_eq_0_iff)
  then have "256 dvd Suc k" by simp
  then have "256 \<le> Suc k" by (rule dvd_imp_le) simp
  then show False using k by simp
qed

lemma dma_copy_nth:
  "n \<le> 256 \<Longrightarrow> i < n \<Longrightarrow>
   dma_copy n ram oam a addr (uint (a + of_nat i)) = ram (uint ((addr + of_nat i) AND 2047))"
proof (induction n arbitrary: oam a addr i)
  case 0
  then show ?case by simp
next
  case (Suc n)
  show ?case
  proof (cases i)
    case 0
    have "\<forall>k<n. uint a \<noteq> uint (a + 1 + of_nat k)"
    proof (intro allI impI)
      fix k assume "k < n"
      then have "k < 255" using Suc.prems by simp
      from u8_Suc_neq_0 [OF this] have "a + (1 + of_nat k) \<noteq> a" by simp
      then have "a \<noteq> a + 1 + of_nat k" by (simp add: add.assoc)
      then show "uint a \<noteq> uint (a + 1 + of_nat k)" using word_uint_eq_iff by blast
    qed
    from dma_copy_other [OF this] show ?thesis using 0 by simp
  next
    case (Suc k)
    have nk: "n \<le> 256" "k < n" using Suc.prems Suc by simp_all
    have e1: "a + of_nat i = (a + 1) + of_nat k" using Suc by simp
    have e2: "addr + of_nat i = (addr + 1) + of_nat k" using Suc by simp
    show ?thesis
      unfolding dma_copy.simps e1 e2 by (rule Suc.IH [OF nk])
  qed
qed

lemma page2_index: "i < 256 \<Longrightarrow> uint ((0x200 + of_nat i :: u16) AND 2047) = 0x200 + int i"
proof -
  assume i: "i < 256"
  have u: "unat (0x200 + of_nat i :: u16) = 0x200 + i"
    using i by (simp add: unat_word_ariths unat_of_nat)
  then have "(0x200 + of_nat i :: u16) < 2 ^ 11" using i by (simp add: word_less_nat_alt)
  then have "(0x200 + of_nat i :: u16) AND mask 11 = 0x200 + of_nat i" by (rule less_mask_eq)
  then have "(0x200 + of_nat i :: u16) AND 2047 = 0x200 + of_nat i" by (simp add: mask_eq_exp_minus_1)
  then show ?thesis using u by (simp add: uint_nat)
qed

text \<open>
  Claim C5: in every state, the write of \<^verbatim>\<open>0x02\<close> to \<^verbatim>\<open>$4014\<close> succeeds, copies the 256
  bytes of RAM at \<^verbatim>\<open>0x0200..0x02FF\<close> to OAM at the indices \<^verbatim>\<open>OAMADDR\<close>, \<^verbatim>\<open>OAMADDR + 1\<close>,
  ... modulo 256 (so \<^verbatim>\<open>OAMADDR\<close> itself ends where it began), and adds 513 to the stall
  counter when the CPU cycle count is even and 514 when it is odd.
\<close>

theorem OAMDMA_page2:
  "\<exists>nes'. writeByte nes 0x4014 0x02 = Some nes'
     \<and> (\<forall>i<256. oam_tbl (ppu nes') (uint (oam_addr (ppu nes) + of_nat i))
                    = RAM nes (0x200 + int i))
     \<and> stall (cpu nes') = stall (cpu nes) + (if even (cycles (cpu nes)) then 513 else 514)
     \<and> oam_addr (ppu nes') = oam_addr (ppu nes)
     \<and> RAM nes' = RAM nes"
proof -
  let ?nes = "nes\<lparr>ppu := (ppu nes)\<lparr>reg := 0x02\<rparr>\<rparr>"
  have "unat (0x200 :: u16) + 256 \<le> 0x2000" by simp
  from dma_loop_RAM [OF this, of ?nes]
  have d: "dma_loop 256 ?nes 0x200
     = ?nes\<lparr>ppu := (ppu ?nes)\<lparr>
         oam_tbl := dma_copy 256 (RAM nes) (oam_tbl (ppu nes)) (oam_addr (ppu nes)) 0x200,
         oam_addr := oam_addr (ppu nes)\<rparr>\<rparr>" by simp
  have odd: "(cycles (cpu nes) AND 1 \<noteq> 0) = (\<not> even (cycles (cpu nes)))"
    by (simp add: and_one_eq odd_iff_mod_2_eq_one)
  have w: "writeByte nes 0x4014 0x02
     = Some (let nes1 = dma_loop 256 ?nes 0x200;
                 c = cpu nes1;
                 c1 = c\<lparr>stall := stall c + 513\<rparr>;
                 c2 = (if cycles c1 AND 1 \<noteq> 0 then c1\<lparr>stall := stall c1 + 1\<rparr> else c1)
             in nes1\<lparr>cpu := c2\<rparr>)"
    by (simp add: writeByte_def writeRegisterPPU_def Let_def)
  have nth: "\<forall>i<256. dma_copy 256 (RAM nes) (oam_tbl (ppu nes)) (oam_addr (ppu nes)) 0x200
                (uint (oam_addr (ppu nes) + of_nat i)) = RAM nes (0x200 + int i)"
    using dma_copy_nth [of 256 _ "RAM nes" "oam_tbl (ppu nes)" "oam_addr (ppu nes)" "0x200"]
    by (simp add: page2_index)
  show ?thesis
    unfolding w d using nth by (simp add: Let_def odd)
qed

theorem OAMDMA_page2_witness:
  "(3 :: nat) < 256
   \<and> even (cycles (cpu (NES_blank\<lparr>RAM := (\<lambda>_. 0)(0x203 := 0xAB),
                                     ppu := (ppu NES_blank)\<lparr>oam_addr := 0xFE\<rparr>\<rparr>)))
   \<and> (\<exists>nes'. writeByte (NES_blank\<lparr>RAM := (\<lambda>_. 0)(0x203 := 0xAB),
                                ppu := (ppu NES_blank)\<lparr>oam_addr := 0xFE\<rparr>\<rparr>) 0x4014 0x02
                  = Some nes'
          \<and> oam_tbl (ppu nes') 1 = 0xAB
          \<and> stall (cpu nes') = 513)"
proof -
  let ?nes = "NES_blank\<lparr>RAM := (\<lambda>_. 0)(0x203 := 0xAB),
                ppu := (ppu NES_blank)\<lparr>oam_addr := 0xFE\<rparr>\<rparr>"
  have ev: "even (cycles (cpu ?nes))" by (simp add: NES_blank_def CPU_new_def)
  have st: "stall (cpu ?nes) = 0" by (simp add: NES_blank_def CPU_new_def)
  have ix: "uint (oam_addr (ppu ?nes) + of_nat 3) = 1" by simp
  have rm: "RAM ?nes (0x200 + int 3) = 0xAB" by simp
  from OAMDMA_page2 [of ?nes] obtain nes' where
    w: "writeByte ?nes 0x4014 0x02 = Some nes'"
    and o: "\<forall>i<256. oam_tbl (ppu nes') (uint (oam_addr (ppu ?nes) + of_nat i))
                    = RAM ?nes (0x200 + int i)"
    and s: "stall (cpu nes') = stall (cpu ?nes) + (if even (cycles (cpu ?nes)) then 513 else 514)"
    by blast
  have three: "(3 :: nat) < 256" by simp
  have "oam_tbl (ppu nes') (uint (oam_addr (ppu ?nes) + of_nat 3))
                 = RAM ?nes (0x200 + int 3)"
    using o [rule_format, OF three] .
  then have o1: "oam_tbl (ppu nes') 1 = 0xAB" unfolding ix rm .
  have s1: "stall (cpu nes') = 513" using s ev st by simp
  show ?thesis using w o1 s1 ev three by blast
qed

subsection \<open>Interrupt entry\<close>

lemma stack_address_plus: "(0x100 OR ucast (sp :: u8) :: u16) = 0x100 + ucast sp"
proof -
  have "(0x100 :: u16) AND ucast sp = 0"
    by (auto simp add: word16_eq_iff bit_simps dest: bit_imp_le_length)
  then show ?thesis by (simp add: disjunctive_add_eq_or)
qed

lemma u8_unat_less: "unat (sp :: u8) < 256"
  using unsigned_less [of sp, where 'a = nat] by simp

lemma stack_address_unat: "unat (0x100 OR ucast (sp :: u8) :: u16) = 0x100 + unat sp"
proof -
  have b: "unat sp < 256" by (rule u8_unat_less)
  have "unat (ucast sp :: u16) = take_bit 16 (unat sp)" by (simp add: unsigned_ucast_eq)
  also have "\<dots> = unat sp" using b by (simp add: take_bit_nat_eq_self)
  finally have u: "unat (ucast sp :: u16) = unat sp" .
  have "unat (0x100 + ucast sp :: u16) = (unat (0x100 :: u16) + unat (ucast sp :: u16)) mod 2 ^ 16"
    by (simp add: unat_word_ariths)
  also have "\<dots> = 0x100 + unat sp" using b u by simp
  finally show ?thesis by (simp only: stack_address_plus)
qed

lemma stack_address_less: "(0x100 OR ucast (sp :: u8) :: u16) < 0x2000"
proof -
  have "unat (0x100 OR ucast sp :: u16) < unat (0x2000 :: u16)"
    using u8_unat_less [of sp] by (simp add: stack_address_unat)
  then show ?thesis by (simp only: word_less_nat_alt)
qed

lemma stack_address_index:
  "uint ((0x100 OR ucast (sp :: u8) :: u16) AND 2047) = 0x100 + uint sp"
proof -
  have "unat (0x100 OR ucast sp :: u16) < unat (2 ^ 11 :: u16)"
    using u8_unat_less [of sp] by (simp add: stack_address_unat)
  then have "(0x100 OR ucast sp :: u16) < 2 ^ 11" by (simp only: word_less_nat_alt)
  then have "(0x100 OR ucast sp :: u16) AND mask 11 = 0x100 OR ucast sp" by (rule less_mask_eq)
  then have "(0x100 OR ucast sp :: u16) AND 2047 = 0x100 OR ucast sp"
    by (simp add: mask_eq_exp_minus_1)
  then have "uint ((0x100 OR ucast sp :: u16) AND 2047) = int (unat (0x100 OR ucast sp :: u16))"
    by simp
  also have "\<dots> = 0x100 + uint sp" by (simp only: stack_address_unat) simp
  finally show ?thesis .
qed

lemma push_RAM:
  "push nes value
     = Some (nes\<lparr>RAM := (RAM nes)(0x100 + uint (SP (cpu nes)) := value),
                 cpu := (cpu nes)\<lparr>SP := SP (cpu nes) - 1\<rparr>\<rparr>)"
  by (simp add: push_def writeByte_def stack_address_less stack_address_index)


lemma readByte_vectors:
  "readByte nes 0xFFFA = (mapper_read nes 0xFFFA, nes)"
  "readByte nes 0xFFFB = (mapper_read nes 0xFFFB, nes)"
  "readByte nes 0xFFFE = (mapper_read nes 0xFFFE, nes)"
  "readByte nes 0xFFFF = (mapper_read nes 0xFFFF, nes)"
  by (simp_all add: readByte_def)

lemma mapper_read_frame [simp]:
  "mapper_read (nes\<lparr>RAM := r\<rparr>) a = mapper_read nes a"
  "mapper_read (nes\<lparr>cpu := c\<rparr>) a = mapper_read nes a"
  by (simp_all add: mapper_read_def split: Mapper.split)

lemma setI_True: "(fl AND - 5) OR 4 = (fl OR 4 :: u8)"
  by (simp add: word8_eq_iff bit_simps)

lemma emulate_interrupt_result:
  assumes "vector = 0xFFFA \<or> vector = 0xFFFE"
  shows "emulate_interrupt nes vector
     = Some (nes\<lparr>RAM := (RAM nes)
                (0x100 + uint (SP (cpu nes)) := ucast (drop_bit 8 (PC (cpu nes))),
                 0x100 + uint (SP (cpu nes) - 1) := ucast (PC (cpu nes)),
                 0x100 + uint (SP (cpu nes) - 2) := flags (cpu nes) OR 0x10),
               cpu := (cpu nes)\<lparr>SP := SP (cpu nes) - 3,
                 PC := push_bit 8 (ucast (mapper_read nes (vector + 1)))
                         OR ucast (mapper_read nes vector),
                 flags := flags (cpu nes) OR 4,
                 cycles := cycles (cpu nes) + 7\<rparr>\<rparr>)"
  using assms
  by (auto simp add: emulate_interrupt_def push16_def php_def push_RAM read16_def
      readByte_vectors Let_def setI_def setI_True)


lemma emulate_head_interrupt:
  assumes "stall (cpu nes) = 0"
    and "interrupt (cpu nes) = interruptNMI \<or> interrupt (cpu nes) = interruptIRQ"
  shows "emulate_head nes
     = Some (nes\<lparr>RAM := (RAM nes)
                (0x100 + uint (SP (cpu nes)) := ucast (drop_bit 8 (PC (cpu nes))),
                 0x100 + uint (SP (cpu nes) - 1) := ucast (PC (cpu nes)),
                 0x100 + uint (SP (cpu nes) - 2) := flags (cpu nes) OR 0x10),
               cpu := (cpu nes)\<lparr>SP := SP (cpu nes) - 3,
                 PC := (if interrupt (cpu nes) = interruptNMI
                        then push_bit 8 (ucast (mapper_read nes 0xFFFB))
                               OR ucast (mapper_read nes 0xFFFA)
                        else push_bit 8 (ucast (mapper_read nes 0xFFFF))
                               OR ucast (mapper_read nes 0xFFFE)),
                 flags := flags (cpu nes) OR 4,
                 cycles := cycles (cpu nes) + 7,
                 interrupt := interruptNone\<rparr>\<rparr>)"
  using assms
  by (auto simp add: emulate_head_def emulate_interrupt_result interruptNMI_def
      interruptIRQ_def)

lemma stack_slots_distinct:
  "uint (sp :: u8) \<noteq> uint (sp - 1)"
  "uint sp \<noteq> uint (sp - 2)"
  "uint (sp - 1) \<noteq> uint (sp - 2)"
proof -
  have "sp \<noteq> sp - 1" "sp \<noteq> sp - 2" "sp - 1 \<noteq> sp - 2" by simp_all
  then show "uint sp \<noteq> uint (sp - 1)" "uint sp \<noteq> uint (sp - 2)"
    "uint (sp - 1) \<noteq> uint (sp - 2)"
    using word_uint_eq_iff by blast+
qed

text \<open>
  Claim C2 says that, with \<^verbatim>\<open>stall == 0\<close> and a pending NMI (or IRQ), the interrupt entry
  pushes the two PC bytes, pushes the flags byte with the B bit (bit 4) equal to 0, sets
  I, loads PC from the vector and adds 7 cycles. The byte pushed has bit 4 set: the entry
  pushes the flags through \<^verbatim>\<open>php\<close>, which pushes \<^verbatim>\<open>flags | 0x10\<close>, and nothing in the
  source pushes the flags in another way. In the power-on state of the blank cartridge
  with a pending NMI (\<^verbatim>\<open>SP = 0xFD\<close>, \<^verbatim>\<open>flags = 0x24\<close>) the byte stored at \<^verbatim>\<open>$01FB\<close> is
  \<^verbatim>\<open>0x34\<close>.
\<close>

theorem interrupt_entry_B_set_counterexample:
  "stall (cpu (NES_blank\<lparr>cpu := (cpu NES_blank)\<lparr>interrupt := interruptNMI\<rparr>\<rparr>)) = 0
   \<and> interrupt (cpu (NES_blank\<lparr>cpu := (cpu NES_blank)\<lparr>interrupt := interruptNMI\<rparr>\<rparr>))
       = interruptNMI
   \<and> SP (cpu (NES_blank\<lparr>cpu := (cpu NES_blank)\<lparr>interrupt := interruptNMI\<rparr>\<rparr>)) = 0xFD
   \<and> map_option (\<lambda>nes. (RAM nes 0x1FD, RAM nes 0x1FC, RAM nes 0x1FB))
        (emulate_head (NES_blank\<lparr>cpu := (cpu NES_blank)\<lparr>interrupt := interruptNMI\<rparr>\<rparr>))
       = Some (0x00, 0x00, 0x34)
   \<and> bit (0x34 :: u8) 4"
proof -
  let ?nes = "NES_blank\<lparr>cpu := (cpu NES_blank)\<lparr>interrupt := interruptNMI\<rparr>\<rparr>"
  have a: "stall (cpu ?nes) = 0" by (simp add: NES_blank_def CPU_new_def)
  have b: "interrupt (cpu ?nes) = interruptNMI \<or> interrupt (cpu ?nes) = interruptIRQ" by simp
  have c: "SP (cpu ?nes) = 0xFD" "flags (cpu ?nes) = 0x24" "PC (cpu ?nes) = 0"
    by (simp_all add: NES_blank_def CPU_new_def)
  show ?thesis
    unfolding emulate_head_interrupt [OF a b] using a c by simp
qed

text \<open>
  Claim C2 as amended: with \<^verbatim>\<open>stall == 0\<close> and a pending NMI or IRQ, the head of the step
  succeeds and stores the high byte of PC at \<^verbatim>\<open>$0100 + SP\<close>, the low byte at
  \<^verbatim>\<open>$0100 + (SP - 1)\<close>, and \<^verbatim>\<open>flags | 0x10\<close> (B bit set) at \<^verbatim>\<open>$0100 + (SP - 2)\<close>, the
  stack pointer wrapping at 8 bits; it leaves \<^verbatim>\<open>SP\<close> lowered by 3, the I flag set, PC
  loaded from the 16-bit vector at \<^verbatim>\<open>$FFFA\<close> for NMI and \<^verbatim>\<open>$FFFE\<close> for IRQ, the cycle
  counter raised by 7, and no interrupt pending.
\<close>

theorem interrupt_entry:
  assumes "stall (cpu nes) = 0"
    and "interrupt (cpu nes) = interruptNMI \<or> interrupt (cpu nes) = interruptIRQ"
  shows "\<exists>nes'. emulate_head nes = Some nes'
     \<and> RAM nes' (0x100 + uint (SP (cpu nes))) = ucast (drop_bit 8 (PC (cpu nes)))
     \<and> RAM nes' (0x100 + uint (SP (cpu nes) - 1)) = ucast (PC (cpu nes))
     \<and> RAM nes' (0x100 + uint (SP (cpu nes) - 2)) = flags (cpu nes) OR 0x10
     \<and> bit (RAM nes' (0x100 + uint (SP (cpu nes) - 2))) 4
     \<and> SP (cpu nes') = SP (cpu nes) - 3
     \<and> flags (cpu nes') = flags (cpu nes) OR 4
     \<and> PC (cpu nes') =
           (if interrupt (cpu nes) = interruptNMI
            then push_bit 8 (ucast (mapper_read nes 0xFFFB)) OR ucast (mapper_read nes 0xFFFA)
            else push_bit 8 (ucast (mapper_read nes 0xFFFF)) OR ucast (mapper_read nes 0xFFFE))
     \<and> cycles (cpu nes') = cycles (cpu nes) + 7
     \<and> interrupt (cpu nes') = interruptNone"
  unfolding emulate_head_interrupt [OF assms]
  by (simp add: stack_slots_distinct bit_simps)


theorem interrupt_entry_witness:
  "stall (cpu (NES_blank\<lparr>cpu := (cpu NES_blank)\<lparr>interrupt := interruptNMI\<rparr>\<rparr>)) = 0
   \<and> interrupt (cpu (NES_blank\<lparr>cpu := (cpu NES_blank)\<lparr>interrupt := interruptNMI\<rparr>\<rparr>))
       = interruptNMI
   \<and> (\<exists>nes'. emulate_head (NES_blank\<lparr>cpu := (cpu NES_blank)\<lparr>interrupt := interruptNMI\<rparr>\<rparr>)
                 = Some nes'
         \<and> RAM nes' 0x1FD = 0 \<and> RAM nes' 0x1FC = 0 \<and> RAM nes' 0x1FB = 0x34
         \<and> SP (cpu nes') = 0xFA \<and> flags (cpu nes') = 0x24 \<and> PC (cpu nes') = 0
         \<and> cycles (cpu nes') = 7 \<and> interrupt (cpu nes') = interruptNone)"
proof -
  let ?nes = "NES_blank\<lparr>cpu := (cpu NES_blank)\<lparr>interrupt := interruptNMI\<rparr>\<rparr>"
  have a: "stall (cpu ?nes) = 0" by (simp add: NES_blank_def CPU_new_def)
  have b: "interrupt (cpu ?nes) = interruptNMI \<or> interrupt (cpu ?nes) = interruptIRQ" by simp
  have c: "SP (cpu ?nes) = 0xFD" "flags (cpu ?nes) = 0x24" "PC (cpu ?nes) = 0"
    "cycles (cpu ?nes) = 0" "interrupt (cpu ?nes) = interruptNMI"
    by (simp_all add: NES_blank_def CPU_new_def)
  have d: "mapper_read ?nes 0xFFFB = 0" "mapper_read ?nes 0xFFFA = 0"
    by (simp_all add: mapper_read_def NES_blank_def Mapper2_read_def blank_cartridge_def)
  from interrupt_entry [OF a b] show ?thesis
    unfolding c d using a by simp blast
qed

subsection \<open>Noise shift register\<close>

lemma lfsr_run_add: "lfsr_run (m + k) x = Option.bind (lfsr_run m x) (lfsr_run k)"
proof (induction m arbitrary: x)
  case 0
  then show ?case by simp
next
  case (Suc m)
  then show ?case by (cases "lfsr_run1 x") simp_all
qed

lemma lfsr_run_Suc0: "lfsr_run (Suc 0) = lfsr_run1"
proof (rule ext)
  fix x
  show "lfsr_run (Suc 0) x = lfsr_run1 x" by (cases "lfsr_run1 x") simp_all
qed

lemma lfsr_run_4: "lfsr_run 4 = lfsr_run4"
proof (rule ext)
  fix x
  have e: "(4::nat) = Suc 0 + Suc 0 + Suc 0 + Suc 0" by simp
  show "lfsr_run 4 x = lfsr_run4 x"
    unfolding e lfsr_run_add lfsr_run_Suc0 lfsr_run4_def ..
qed

lemma lfsr_run_16: "lfsr_run 16 = lfsr_run16"
proof (rule ext)
  fix x
  have e: "(16::nat) = 4 + 4 + 4 + 4" by simp
  show "lfsr_run 16 x = lfsr_run16 x"
    unfolding e lfsr_run_add lfsr_run_4 lfsr_run16_def ..
qed

lemma lfsr_run_64: "lfsr_run 64 = lfsr_run64"
proof (rule ext)
  fix x
  have e: "(64::nat) = 16 + 16 + 16 + 16" by simp
  show "lfsr_run 64 x = lfsr_run64 x"
    unfolding e lfsr_run_add lfsr_run_16 lfsr_run64_def ..
qed

lemma lfsr_run_256: "lfsr_run 256 = lfsr_run256"
proof (rule ext)
  fix x
  have e: "(256::nat) = 64 + 64 + 64 + 64" by simp
  show "lfsr_run 256 x = lfsr_run256 x"
    unfolding e lfsr_run_add lfsr_run_64 lfsr_run256_def ..
qed

lemma lfsr_run_1024: "lfsr_run 1024 = lfsr_run1024"
proof (rule ext)
  fix x
  have e: "(1024::nat) = 256 + 256 + 256 + 256" by simp
  show "lfsr_run 1024 x = lfsr_run1024 x"
    unfolding e lfsr_run_add lfsr_run_256 lfsr_run1024_def ..
qed

lemma lfsr_run_4096: "lfsr_run 4096 = lfsr_run4096"
proof (rule ext)
  fix x
  have e: "(4096::nat) = 1024 + 1024 + 1024 + 1024" by simp
  show "lfsr_run 4096 x = lfsr_run4096 x"
    unfolding e lfsr_run_add lfsr_run_1024 lfsr_run4096_def ..
qed

lemmas lfsr_run_unfold = lfsr_run4096_def lfsr_run1024_def lfsr_run256_def lfsr_run64_def
  lfsr_run16_def lfsr_run4_def lfsr_run1_def lfsr_one_def

lemma lfsr_chunk_1:
  "lfsr_run 4096 lfsr_one
     = Some [False, False, False, False, False, False, False, True, False, False,
             False, True, False, True, True]"
  unfolding lfsr_run_4096 by (simp add: lfsr_run_unfold)

lemma lfsr_chunk_2:
  "lfsr_run 4096 [False, False, False, False, False, False, False, True, False, False,
                  False, True, False, True, True]
     = Some [False, False, False, False, False, False, False, True, False, False,
             False, True, False, False, True]"
  unfolding lfsr_run_4096 by (simp add: lfsr_run_unfold)

lemma lfsr_chunk_3:
  "lfsr_run 4096 [False, False, False, False, False, False, False, True, False, False,
                  False, True, False, False, True]
     = Some [False, False, False, False, False, True, False, True, False, True,
             False, False, True, False, True]"
  unfolding lfsr_run_4096 by (simp add: lfsr_run_unfold)

lemma lfsr_chunk_4:
  "lfsr_run 4096 [False, False, False, False, False, True, False, True, False, True,
                  False, False, True, False, True]
     = Some [False, False, False, False, False, False, False, True, False, False,
             False, False, False, False, True]"
  unfolding lfsr_run_4096 by (simp add: lfsr_run_unfold)

lemma lfsr_chunk_5:
  "lfsr_run 4096 [False, False, False, False, False, False, False, True, False, False,
                  False, False, False, False, True]
     = Some [False, False, False, True, False, True, False, False, False, False,
             True, False, True, False, True]"
  unfolding lfsr_run_4096 by (simp add: lfsr_run_unfold)

lemma lfsr_chunk_6:
  "lfsr_run 4096 [False, False, False, True, False, True, False, False, False, False,
                  True, False, True, False, True]
     = Some [False, False, False, True, False, False, False, False, False, False,
             True, False, False, False, True]"
  unfolding lfsr_run_4096 by (simp add: lfsr_run_unfold)

lemma lfsr_chunk_7:
  "lfsr_run 4096 [False, False, False, True, False, False, False, False, False, False,
                  True, False, False, False, True]
     = Some [False, True, False, False, False, False, False, False, True, False,
             False, False, True, False, True]"
  unfolding lfsr_run_4096 by (simp add: lfsr_run_unfold)

lemma lfsr_chunk_8:
  "lfsr_run 4094 [False, True, False, False, False, False, False, False, True, False,
                  False, False, True, False, True]
     = Some [True, True, False, False, False, False, False, False, False, False,
             False, False, False, False, False]"
proof -
  have e: "(4094::nat) = 1024 + 1024 + 1024 + 256 + 256 + 256 + 64 + 64 + 64
             + 16 + 16 + 16 + 4 + 4 + 4 + Suc 0 + Suc 0" by simp
  show ?thesis
    unfolding e lfsr_run_add lfsr_run_1024 lfsr_run_256 lfsr_run_64 lfsr_run_16 lfsr_run_4
      lfsr_run_Suc0
    by (simp add: lfsr_run_unfold)
qed

lemma lfsr_run_trans:
  "lfsr_run m x = Some y \<Longrightarrow> lfsr_run k y = Some z \<Longrightarrow> lfsr_run (m + k) x = Some z"
  by (simp add: lfsr_run_add)

lemma lfsr_run_32766:
  "lfsr_run 32766 lfsr_one
     = Some [True, True, False, False, False, False, False, False, False, False,
             False, False, False, False, False]"
  using lfsr_run_trans [OF lfsr_run_trans [OF lfsr_run_trans [OF lfsr_run_trans
    [OF lfsr_run_trans [OF lfsr_run_trans [OF lfsr_run_trans [OF lfsr_chunk_1 lfsr_chunk_2]
    lfsr_chunk_3] lfsr_chunk_4] lfsr_chunk_5] lfsr_chunk_6] lfsr_chunk_7] lfsr_chunk_8]
  by simp

lemma lfsr_run_sound:
  "lfsr_run n x = Some y \<Longrightarrow>
     (lfsr_shift ^^ n) x = y \<and> (\<forall>k. 0 < k \<and> k \<le> n \<longrightarrow> (lfsr_shift ^^ k) x \<noteq> lfsr_one)"
proof (induction n arbitrary: x)
  case 0
  then show ?case by simp
next
  case (Suc n)
  from Suc.prems have ne: "lfsr_shift x \<noteq> lfsr_one"
    and r: "lfsr_run n (lfsr_shift x) = Some y"
    by (auto simp add: lfsr_run1_def Let_def split: if_splits)
  from Suc.IH [OF r] have ih1: "(lfsr_shift ^^ n) (lfsr_shift x) = y"
    and ih2: "\<And>k. 0 < k \<Longrightarrow> k \<le> n \<Longrightarrow> (lfsr_shift ^^ k) (lfsr_shift x) \<noteq> lfsr_one"
    by auto
  have "(lfsr_shift ^^ Suc n) x = y" using ih1 by (simp add: funpow_swap1)
  moreover have "(lfsr_shift ^^ k) x \<noteq> lfsr_one" if "0 < k" "k \<le> Suc n" for k
  proof (cases k)
    case 0
    then show ?thesis using that by simp
  next
    case (Suc j)
    show ?thesis
    proof (cases "j = 0")
      case True
      then show ?thesis using Suc ne by simp
    next
      case False
      then have "(lfsr_shift ^^ j) (lfsr_shift x) \<noteq> lfsr_one" using ih2 [of j] that Suc by simp
      then show ?thesis using Suc by (simp add: funpow_swap1)
    qed
  qed
  ultimately show ?case by blast
qed

lemma noiseClock_bits:
  assumes "\<not> noi_mode n" and "\<not> bit (noi_shift_reg n) 15"
  shows "lfsr_bits (noi_shift_reg (noiseClock n)) = lfsr_shift (lfsr_bits (noi_shift_reg n))"
    and "\<not> bit (noi_shift_reg (noiseClock n)) 15"
    and "\<not> noi_mode (noiseClock n)"
  using assms
  by (auto simp add: noiseClock_def Let_def lfsr_bits_def bit_simps
      numeral_2_eq_2 [symmetric] dest: bit_imp_le_length)

lemma noiseClock_funpow:
  assumes "\<not> noi_mode n" and "\<not> bit (noi_shift_reg n) 15"
  shows "lfsr_bits (noi_shift_reg ((noiseClock ^^ k) n))
           = (lfsr_shift ^^ k) (lfsr_bits (noi_shift_reg n))
         \<and> \<not> bit (noi_shift_reg ((noiseClock ^^ k) n)) 15
         \<and> \<not> noi_mode ((noiseClock ^^ k) n)"
proof (induction k)
  case 0
  then show ?case using assms by simp
next
  case (Suc k)
  then show ?case using noiseClock_bits [of "(noiseClock ^^ k) n"] by simp
qed

lemma lfsr_bits_inject:
  "lfsr_bits a = lfsr_bits b \<Longrightarrow> \<not> bit a 15 \<Longrightarrow> \<not> bit b 15 \<Longrightarrow> a = b"
  by (simp add: lfsr_bits_def word16_eq_iff)

lemma lfsr_bits_1: "lfsr_bits 1 = lfsr_one" "\<not> bit (1 :: u16) 15"
  by (simp_all add: lfsr_bits_def lfsr_one_def)

text \<open>
  Claim C8: with noise mode 0 and the shift register at 1, clocking the register 32767
  times returns it to 1, and no smaller positive number of clocks does. (The orbit is
  checked on the bit list: 32766 clocks from 1 never produce 1 and end in the register
  value 3, whose successor is 1.)
\<close>

theorem noise_lfsr_period:
  assumes "\<not> noi_mode n" and "noi_shift_reg n = 1"
  shows "noi_shift_reg ((noiseClock ^^ 32767) n) = 1
       \<and> (\<forall>k. 0 < k \<and> k < 32767 \<longrightarrow> noi_shift_reg ((noiseClock ^^ k) n) \<noteq> 1)"
proof -
  have b15: "\<not> bit (noi_shift_reg n) 15" using assms(2) lfsr_bits_1(2) by simp
  note fp = noiseClock_funpow [OF assms(1) b15]
  have start: "lfsr_bits (noi_shift_reg n) = lfsr_one" using assms(2) lfsr_bits_1(1) by simp
  from lfsr_run_sound [OF lfsr_run_32766]
  have last: "(lfsr_shift ^^ 32766) lfsr_one
        = [True, True, False, False, False, False, False, False, False, False,
           False, False, False, False, False]"
    and never: "\<And>k. 0 < k \<Longrightarrow> k \<le> 32766 \<Longrightarrow> (lfsr_shift ^^ k) lfsr_one \<noteq> lfsr_one"
    by auto
  have "(lfsr_shift ^^ Suc 32766) lfsr_one = lfsr_one"
    unfolding funpow.simps comp_def last by (simp add: lfsr_one_def)
  then have "(lfsr_shift ^^ 32767) lfsr_one = lfsr_one" by simp
  then have "lfsr_bits (noi_shift_reg ((noiseClock ^^ 32767) n)) = lfsr_bits 1"
    using fp [of 32767] start lfsr_bits_1(1) by simp
  then have p1: "noi_shift_reg ((noiseClock ^^ 32767) n) = 1"
    using fp [of 32767] lfsr_bits_1(2) by (auto intro: lfsr_bits_inject)
  have p2: "noi_shift_reg ((noiseClock ^^ k) n) \<noteq> 1" if "0 < k" "k < 32767" for k
  proof
    assume "noi_shift_reg ((noiseClock ^^ k) n) = 1"
    then have "(lfsr_shift ^^ k) lfsr_one = lfsr_one"
      using fp [of k] start lfsr_bits_1(1) by simp
    moreover have "k \<le> 32766" using that by simp
    ultimately show False using never [of k] that by simp
  qed
  show ?thesis using p1 p2 by blast
qed


theorem noise_lfsr_period_witness:
  "\<not> noi_mode (Noise_new\<lparr>noi_shift_reg := 1\<rparr>)
   \<and> noi_shift_reg (Noise_new\<lparr>noi_shift_reg := 1\<rparr>) = 1
   \<and> noi_shift_reg ((noiseClock ^^ 32767) (Noise_new\<lparr>noi_shift_reg := 1\<rparr>)) = 1
   \<and> (0 :: nat) < 1 \<and> (1 :: nat) < 32767
   \<and> noi_shift_reg ((noiseClock ^^ 1) (Noise_new\<lparr>noi_shift_reg := 1\<rparr>)) = 0x4000
   \<and> noi_shift_reg ((noiseClock ^^ 1) (Noise_new\<lparr>noi_shift_reg := 1\<rparr>)) \<noteq> 1"
proof -
  let ?n = "Noise_new\<lparr>noi_shift_reg := 1\<rparr>"
  have a: "\<not> noi_mode ?n" by (simp add: Noise_new_def)
  have b: "noi_shift_reg ?n = 1" by simp
  have c: "noi_shift_reg ((noiseClock ^^ 1) ?n) = 0x4000"
    by (simp add: noiseClock_def Noise_new_def Let_def)
  from noise_lfsr_period [OF a b] have
    d: "noi_shift_reg ((noiseClock ^^ 32767) ?n) = 1"
    and e: "\<forall>k. 0 < k \<and> k < 32767 \<longrightarrow> noi_shift_reg ((noiseClock ^^ k) ?n) \<noteq> 1"
    by blast+
  have f: "(0 :: nat) < 1 \<and> (1 :: nat) < 32767" by simp
  from e f have g: "noi_shift_reg ((noiseClock ^^ 1) ?n) \<noteq> 1" by blast
  show ?thesis using a b c d f g by blast
qed

subsection \<open>What the rendering phases of one PPU dot leave alone\<close>

lemma tick_core_ppu: "tick_core (nes\<lparr>ppu := q\<rparr>) = (cpu nes, ppu_core q)"
  by (simp add: tick_core_def)

lemma pixel_color_cases:
  "P p \<Longrightarrow> P (p\<lparr>flag_sprite_zero_hit := 1\<rparr>) \<Longrightarrow> P (snd (pixel_color p x i bg sp))"
  by (simp add: pixel_color_def Let_def)

lemma pixel_update_core:
  "ppu_core (p\<lparr>ppu_back := bb\<rparr>) = ppu_core p
   \<and> sprite_cnt (p\<lparr>ppu_back := bb\<rparr>) = sprite_cnt p"
  "ppu_core (p\<lparr>flag_sprite_zero_hit := 1, ppu_back := bb\<rparr>) = ppu_core p
   \<and> sprite_cnt (p\<lparr>flag_sprite_zero_hit := 1, ppu_back := bb\<rparr>) = sprite_cnt p"
  by (simp_all add: ppu_core_def)

lemma tickPPU_pixel_core:
  assumes "tickPPU_pixel nes = Some nes'"
  shows "tick_core nes' = tick_core nes \<and> sprite_cnt (ppu nes') = sprite_cnt (ppu nes)"
proof (cases "spritePixel (ppu nes)")
  case None
  then show ?thesis using assms by (simp add: tickPPU_pixel_def Let_def)
next
  case (Some r)
  obtain i s0 where r: "r = (i, s0)" by (cases r)
  define bg where "bg = (if cycle (ppu nes) - 1 < 8 \<and> flag_show_left_background (ppu nes) = 0
      then 0
      else if flag_show_background (ppu nes) \<noteq> 0 then
        (ucast ((drop_bit (nat ((7 - uint (ppu_x (ppu nes))) * 4))
                   (ucast (drop_bit 32 (tile_data (ppu nes))) :: u32)) AND 0x0F) :: u8)
      else 0)"
  define sp where "sp = (if cycle (ppu nes) - 1 < 8 \<and> flag_show_left_sprites (ppu nes) = 0
      then 0 else s0)"
  define pc where "pc = pixel_color (ppu nes) (cycle (ppu nes) - 1) i bg sp"
  define bb where "bb = (ppu_back (snd pc))
               (scanline (ppu nes) * 256 + (cycle (ppu nes) - 1)
                  := palette ! unat (readPalette (snd pc) (ucast (fst pc)) AND 63))"
  have "tickPPU_pixel nes = Some (nes\<lparr>ppu := (snd pc)\<lparr>ppu_back := bb\<rparr>\<rparr>)"
    unfolding tickPPU_pixel_def Let_def Some r pc_def bg_def sp_def bb_def
    by (simp add: split_beta)
  with assms have n: "nes' = nes\<lparr>ppu := (snd pc)\<lparr>ppu_back := bb\<rparr>\<rparr>" by simp
  have "ppu_core ((snd pc)\<lparr>ppu_back := bb\<rparr>) = ppu_core (ppu nes)
      \<and> sprite_cnt ((snd pc)\<lparr>ppu_back := bb\<rparr>) = sprite_cnt (ppu nes)"
    unfolding pc_def
    by (rule pixel_color_cases) (rule pixel_update_core)+
  then show ?thesis unfolding n by (simp add: tick_core_def)
qed

lemma spritePixel_loop_returns:
  "max 0 (sprite_cnt p - uint i) < int fuel \<Longrightarrow> sprite_cnt p \<le> 255
     \<Longrightarrow> spritePixel_loop fuel p i \<noteq> None"
proof (induction fuel arbitrary: i)
  case 0
  then show ?case by simp
next
  case (Suc fuel)
  show ?case
  proof (cases "uint i < sprite_cnt p")
    case False
    then show ?thesis by simp
  next
    case True
    then have "uint i < 255" using Suc.prems by simp
    then have "uint i + uint (1 :: u8) < 2 ^ LENGTH(8)" by simp
    then have u: "uint (i + 1) = uint i + 1" using uint_add_lem [of i 1] by simp
    have "max 0 (sprite_cnt p - uint (i + 1)) < int fuel" using Suc.prems True u by simp
    from Suc.IH [OF this Suc.prems(2)] show ?thesis using True by (simp add: Let_def)
  qed
qed

lemma tickPPU_pixel_returns:
  "sprite_cnt (ppu nes) \<le> 255 \<Longrightarrow> tickPPU_pixel nes \<noteq> None"
proof -
  assume a: "sprite_cnt (ppu nes) \<le> 255"
  have "spritePixel (ppu nes) \<noteq> None"
    using spritePixel_loop_returns [of "ppu nes" 0 256] a by (simp add: spritePixel_def)
  then obtain r where "spritePixel (ppu nes) = Some r" by blast
  then show ?thesis by (simp add: tickPPU_pixel_def Let_def split_beta)
qed

lemma tickPPU_fetch_core:
  "tick_core (tickPPU_fetch nes) = tick_core nes
   \<and> sprite_cnt (ppu (tickPPU_fetch nes)) = sprite_cnt (ppu nes)"
  by (simp add: tickPPU_fetch_def tick_core_def ppu_core_def Let_def split_beta)

lemma sprite_fetch_core:
  "tick_core (sprite_fetch nes i row count) = tick_core nes"
  by (simp add: sprite_fetch_def tick_core_def ppu_core_def Let_def split_beta)

lemma sprite_eval_loop_core:
  "tick_core (fst (sprite_eval_loop n nes i count)) = tick_core nes"
proof (induction n arbitrary: nes i count)
  case 0
  then show ?case by simp
next
  case (Suc n)
  then show ?case by (simp add: Let_def sprite_fetch_core)
qed

lemma sprite_eval_loop_count:
  "snd (sprite_eval_loop n nes i count) \<le> count + int n"
proof (induction n arbitrary: nes i count)
  case 0
  then show ?case by simp
next
  case (Suc n)
  show ?case
    using Suc.IH [of nes "i + 1" count]
      Suc.IH [of nes "i + 1" "count + 1"]
      Suc.IH [of "sprite_fetch nes i (scanline (ppu nes) - uint (oam_tbl (ppu nes) (4 * i + 0)))
                    count" "i + 1" "count + 1"]
    by (auto simp add: Let_def)
qed

lemma tickPPU_sprites_core:
  "tick_core (tickPPU_sprites lv nes) = tick_core nes
   \<and> (sprite_cnt (ppu nes) \<le> 255 \<longrightarrow> sprite_cnt (ppu (tickPPU_sprites lv nes)) \<le> 255)"
proof (cases lv)
  case False
  then show ?thesis by (simp add: tickPPU_sprites_def tick_core_def ppu_core_def)
next
  case True
  obtain n1 c where e: "sprite_eval_loop 64 nes 0 0 = (n1, c)" by (cases "sprite_eval_loop 64 nes 0 0")
  have "tick_core n1 = tick_core nes" using sprite_eval_loop_core [of 64 nes 0 0] e by simp
  moreover have "c \<le> 64" using sprite_eval_loop_count [of 64 nes 0 0] e by simp
  ultimately show ?thesis using True e
    by (auto simp add: tickPPU_sprites_def tick_core_def ppu_core_def Let_def)
qed



subsection \<open>Increments of \<^verbatim>\<open>v\<close> that stay inside a field\<close>

lemma add_into_clear_bits:
  fixes w :: u16
  assumes "v = w OR c" and "w AND c = 0" and "w AND d = 0" and "c + e = d"
    and "bit w 15 = bit v 15" and "\<not> bit d 15"
  shows "bit (v + e) 15 = bit v 15"
proof -
  have "v + e = w + c + e" using assms(1,2) by (simp add: disjunctive_add_eq_or)
  also have "\<dots> = w + d" using assms(4) by (simp add: add.assoc)
  also have "\<dots> = w OR d" using assms(3) by (simp add: disjunctive_add_eq_or)
  finally show ?thesis using assms(5,6) by (simp add: bit_simps)
qed

lemma coarse_x_all_ones:
  "((v :: u16) AND 0x001F = 31) = (bit v 0 \<and> bit v 1 \<and> bit v 2 \<and> bit v 3 \<and> bit v 4)"
  by (auto simp add: word16_eq_iff bit_simps)

lemma fine_y_all_ones:
  "((v :: u16) AND 0x7000 = 0x7000) = (bit v 12 \<and> bit v 13 \<and> bit v 14)"
  by (auto simp add: word16_eq_iff bit_simps)

lemma increment_coarse_x_bit15:
  assumes "(v :: u16) AND 0x001F \<noteq> 31"
  shows "bit (v + 1) 15 = bit v 15"
proof -
  consider "\<not> bit v 0" | "bit v 0" "\<not> bit v 1" | "bit v 0" "bit v 1" "\<not> bit v 2"
    | "bit v 0" "bit v 1" "bit v 2" "\<not> bit v 3"
    | "bit v 0" "bit v 1" "bit v 2" "bit v 3" "\<not> bit v 4"
    using assms coarse_x_all_ones [of v] by blast
  then show ?thesis
  proof cases
    case 1
    show ?thesis
      by (rule add_into_clear_bits [where w = v and c = "0" and d = "1"])
         (use 1 in \<open>simp_all add: word16_eq_iff bit_simps\<close>)
  next
    case 2
    show ?thesis
      by (rule add_into_clear_bits [where w = "v AND 0xFFFC" and c = "1" and d = "2"])
         (use 2 in \<open>simp_all add: word16_eq_iff bit_simps\<close>)
  next
    case 3
    show ?thesis
      by (rule add_into_clear_bits [where w = "v AND 0xFFF8" and c = "3" and d = "4"])
         (use 3 in \<open>simp_all add: word16_eq_iff bit_simps\<close>)
  next
    case 4
    show ?thesis
      by (rule add_into_clear_bits [where w = "v AND 0xFFF0" and c = "7" and d = "8"])
         (use 4 in \<open>simp_all add: word16_eq_iff bit_simps\<close>)
  next
    case 5
    show ?thesis
      by (rule add_into_clear_bits [where w = "v AND 0xFFE0" and c = "15" and d = "16"])
         (use 5 in \<open>simp_all add: word16_eq_iff bit_simps\<close>)
  qed
qed

lemma increment_fine_y_bit15:
  assumes "(v :: u16) AND 0x7000 \<noteq> 0x7000"
  shows "bit (v + 0x1000) 15 = bit v 15"
proof -
  consider "\<not> bit v 12" | "bit v 12" "\<not> bit v 13" | "bit v 12" "bit v 13" "\<not> bit v 14"
    using assms fine_y_all_ones [of v] by blast
  then show ?thesis
  proof cases
    case 1
    show ?thesis
      by (rule add_into_clear_bits [where w = v and c = "0" and d = "0x1000"])
         (use 1 in \<open>simp_all add: word16_eq_iff bit_simps\<close>)
  next
    case 2
    show ?thesis
      by (rule add_into_clear_bits [where w = "v AND 0xCFFF" and c = "0x1000" and d = "0x2000"])
         (use 2 in \<open>simp_all add: word16_eq_iff bit_simps\<close>)
  next
    case 3
    show ?thesis
      by (rule add_into_clear_bits [where w = "v AND 0x8FFF" and c = "0x3000" and d = "0x4000"])
         (use 3 in \<open>simp_all add: word16_eq_iff bit_simps\<close>)
  qed
qed


subsection \<open>Scroll updates and the dot as a whole\<close>

lemma tickPPU_incrementX_core:
  "ppu_core (tickPPU_incrementX p) = ppu_core p
   \<and> sprite_cnt (tickPPU_incrementX p) = sprite_cnt p"
  by (simp add: tickPPU_incrementX_def ppu_core_def Let_def increment_coarse_x_bit15 bit_simps)

lemma small_word_bit10: "unat (z :: u16) < 1024 \<Longrightarrow> \<not> bit z 10"
proof -
  assume "unat z < 1024"
  then have "unat z < unat (2 ^ 10 :: u16)" by simp
  then have "z < 2 ^ 10" by (simp only: word_less_nat_alt)
  then have "z AND mask 10 = z" by (rule less_mask_eq)
  then have "bit z 10 = bit (z AND mask 10) 10" by simp
  then show ?thesis by (simp add: bit_simps)
qed

lemma coarse_y_next_bit10: "\<not> bit (((x :: u16) AND 31) + 1) 10"
proof -
  define y where "y = x AND 31"
  have "y \<le> 31" unfolding y_def by (rule word_and_le1)
  then have b: "unat y \<le> 31" by (simp add: word_le_nat_alt)
  then have "unat y + unat (1 :: u16) < 2 ^ LENGTH(16)" by simp
  then have "unat (y + 1) = unat y + 1" using unat_add_lem [of y 1] by simp
  then have "unat (y + 1) < 1024" using b by simp
  then show ?thesis unfolding y_def by (rule small_word_bit10)
qed

lemma tickPPU_incrementY_core:
  "ppu_core (tickPPU_incrementY p) = ppu_core p
   \<and> sprite_cnt (tickPPU_incrementY p) = sprite_cnt p"
  by (simp add: tickPPU_incrementY_def ppu_core_def Let_def split_beta
      increment_fine_y_bit15 coarse_y_next_bit10 bit_simps)

lemma tickPPU_scroll_core:
  "ppu_core (tickPPU_scroll fc p) = ppu_core p \<and> sprite_cnt (tickPPU_scroll fc p) = sprite_cnt p"
proof -
  define p1 where "p1 = (if fc \<and> cycle p mod 8 = 0 then tickPPU_incrementX p else p)"
  define p2 where "p2 = (if cycle p1 = 256 then tickPPU_incrementY p1 else p1)"
  define p3 where "p3 = (if cycle p2 = 257
        then p2\<lparr>ppu_v := (ppu_v p2 AND 0xFBE0) OR (ppu_t p2 AND 0x041F)\<rparr> else p2)"
  have c1: "ppu_core p1 = ppu_core p \<and> sprite_cnt p1 = sprite_cnt p"
    unfolding p1_def using tickPPU_incrementX_core [of p] by simp
  have c2: "ppu_core p2 = ppu_core p1 \<and> sprite_cnt p2 = sprite_cnt p1"
    unfolding p2_def using tickPPU_incrementY_core [of p1] by simp
  have c3: "ppu_core p3 = ppu_core p2 \<and> sprite_cnt p3 = sprite_cnt p2"
    unfolding p3_def by (simp add: ppu_core_def bit_simps)
  have "tickPPU_scroll fc p = p3"
    unfolding tickPPU_scroll_def Let_def p3_def p2_def p1_def ..
  then show ?thesis using c1 c2 c3 by simp
qed

lemma copy_vertical_core:
  "ppu_core (p\<lparr>ppu_v := (ppu_v p AND 0x841F) OR (ppu_t p AND 0x7BE0)\<rparr>) = ppu_core p"
  by (simp add: ppu_core_def bit_simps)

lemma tickPPU_render_core:
  assumes "tickPPU_render pl lv cv fc nes = Some nes'"
  shows "tick_core nes' = tick_core nes \<and> sprite_cnt (ppu nes') = sprite_cnt (ppu nes)"
proof -
  from assms obtain n1 where
    n1: "(if lv \<and> cv then tickPPU_pixel nes else Some nes) = Some n1"
    by (auto simp add: tickPPU_render_def Let_def split: Option.bind_splits)
  define n2 where "n2 = (if (pl \<or> lv) \<and> fc then tickPPU_fetch n1 else n1)"
  define n3 where "n3 = (if pl \<and> cycle (ppu n2) \<ge> 280 \<and> cycle (ppu n2) \<le> 304
                    then n2\<lparr>ppu := (ppu n2)\<lparr>ppu_v :=
                           (ppu_v (ppu n2) AND 0x841F) OR (ppu_t (ppu n2) AND 0x7BE0)\<rparr>\<rparr>
                    else n2)"
  define n4 where "n4 = (if pl \<or> lv then n3\<lparr>ppu := tickPPU_scroll fc (ppu n3)\<rparr> else n3)"
  have r: "nes' = n4"
    using assms n1 unfolding tickPPU_render_def Let_def n4_def n3_def n2_def by simp
  have c1: "tick_core n1 = tick_core nes \<and> sprite_cnt (ppu n1) = sprite_cnt (ppu nes)"
  proof (cases "lv \<and> cv")
    case True
    then have "tickPPU_pixel nes = Some n1" using n1 by simp
    then show ?thesis by (rule tickPPU_pixel_core)
  next
    case False
    then have "n1 = nes" using n1 by auto
    then show ?thesis by simp
  qed
  have c2: "tick_core n2 = tick_core n1 \<and> sprite_cnt (ppu n2) = sprite_cnt (ppu n1)"
    unfolding n2_def using tickPPU_fetch_core [of n1] by simp
  have c3: "tick_core n3 = tick_core n2 \<and> sprite_cnt (ppu n3) = sprite_cnt (ppu n2)"
    unfolding n3_def using copy_vertical_core [of "ppu n2"] by (simp add: tick_core_def)
  have c4: "tick_core n4 = tick_core n3 \<and> sprite_cnt (ppu n4) = sprite_cnt (ppu n3)"
    unfolding n4_def using tickPPU_scroll_core [of fc "ppu n3"] by (simp add: tick_core_def)
  show ?thesis using r c1 c2 c3 c4 by simp
qed

lemma tickPPU_render_returns:
  "sprite_cnt (ppu nes) \<le> 255 \<Longrightarrow> tickPPU_render pl lv cv fc nes \<noteq> None"
  using tickPPU_pixel_returns [of nes]
  by (auto simp add: tickPPU_render_def Let_def split: Option.bind_splits)


lemma tickPPU_decompose:
  assumes "tickPPU nes = Some nes'"
  shows "\<exists>mid.
      tick_core mid = tick_core ((tickPPU_nmi nes)\<lparr>ppu := tickPPU_advance (ppu (tickPPU_nmi nes))\<rparr>)
    \<and> nes' = mid\<lparr>ppu := tickPPU_vblank
                 (scanline (tickPPU_advance (ppu (tickPPU_nmi nes))) = 261) (ppu mid)\<rparr>
    \<and> (sprite_cnt (ppu nes) \<le> 255 \<longrightarrow> sprite_cnt (ppu mid) \<le> 255)"
proof -
  define nes2 where "nes2 = (tickPPU_nmi nes)\<lparr>ppu := tickPPU_advance (ppu (tickPPU_nmi nes))\<rparr>"
  define dr where "dr = (flag_show_background (ppu nes2) \<noteq> 0 \<or> flag_show_sprites (ppu nes2) \<noteq> 0)"
  have s2: "sprite_cnt (ppu nes2) = sprite_cnt (ppu nes)"
    by (simp add: nes2_def tickPPU_nmi_def tickPPU_advance_def Let_def)
  from assms obtain nes3 where
    n3: "(if dr then tickPPU_render (scanline (ppu nes2) = 261) (scanline (ppu nes2) < 240)
                       (cycle (ppu nes2) \<ge> 1 \<and> cycle (ppu nes2) \<le> 256)
                       (cycle (ppu nes2) \<ge> 321 \<and> cycle (ppu nes2) \<le> 336
                          \<or> cycle (ppu nes2) \<ge> 1 \<and> cycle (ppu nes2) \<le> 256) nes2
          else Some nes2) = Some nes3"
    unfolding tickPPU_def Let_def nes2_def [symmetric] dr_def [symmetric]
    by (auto split: Option.bind_splits)
  define nes4 where "nes4 = (if dr \<and> cycle (ppu nes3) = 257
                      then tickPPU_sprites (scanline (ppu nes2) < 240) nes3 else nes3)"
  have r: "nes' = nes4\<lparr>ppu := tickPPU_vblank (scanline (ppu nes2) = 261) (ppu nes4)\<rparr>"
    using assms n3
    unfolding tickPPU_def Let_def nes2_def [symmetric] dr_def [symmetric] nes4_def
    by simp
  have c3: "tick_core nes3 = tick_core nes2 \<and> sprite_cnt (ppu nes3) = sprite_cnt (ppu nes2)"
  proof (cases dr)
    case True
    then show ?thesis using n3 tickPPU_render_core by simp
  next
    case False
    then have "nes3 = nes2" using n3 by simp
    then show ?thesis by simp
  qed
  have c4: "tick_core nes4 = tick_core nes3
      \<and> (sprite_cnt (ppu nes3) \<le> 255 \<longrightarrow> sprite_cnt (ppu nes4) \<le> 255)"
    unfolding nes4_def using tickPPU_sprites_core [of "scanline (ppu nes2) < 240" nes3] by simp
  have sc: "scanline (ppu nes2) = scanline (tickPPU_advance (ppu (tickPPU_nmi nes)))"
    by (simp add: nes2_def)
  show ?thesis
    using r c3 c4 s2 unfolding sc nes2_def [symmetric] by auto
qed

lemma tickPPU_returns:
  assumes "sprite_cnt (ppu nes) \<le> 255"
  shows "tickPPU nes \<noteq> None"
proof -
  define nes2 where "nes2 = (tickPPU_nmi nes)\<lparr>ppu := tickPPU_advance (ppu (tickPPU_nmi nes))\<rparr>"
  have s2: "sprite_cnt (ppu nes2) \<le> 255"
    using assms by (simp add: nes2_def tickPPU_nmi_def tickPPU_advance_def Let_def)
  obtain y where y: "tickPPU_render (scanline (ppu nes2) = 261) (scanline (ppu nes2) < 240)
       (1 \<le> cycle (ppu nes2) \<and> cycle (ppu nes2) \<le> 256)
       (321 \<le> cycle (ppu nes2) \<and> cycle (ppu nes2) \<le> 336 \<or>
        1 \<le> cycle (ppu nes2) \<and> cycle (ppu nes2) \<le> 256) nes2 = Some y"
    using tickPPU_render_returns [OF s2] by blast
  show ?thesis
    unfolding tickPPU_def Let_def nes2_def [symmetric]
    using y by (simp split: Option.bind_splits)
qed

lemma tickPPU_sprite_cnt:
  assumes "tickPPU nes = Some nes'" and "sprite_cnt (ppu nes) \<le> 255"
  shows "sprite_cnt (ppu nes') \<le> 255"
proof -
  from tickPPU_decompose [OF assms(1)] assms(2) obtain mid where
    "nes' = mid\<lparr>ppu := tickPPU_vblank
                 (scanline (tickPPU_advance (ppu (tickPPU_nmi nes))) = 261) (ppu mid)\<rparr>"
    and "sprite_cnt (ppu mid) \<le> 255" by blast
  then show ?thesis by (simp add: tickPPU_vblank_def PPUnmiShift_def Let_def)
qed

subsection \<open>The interrupt delay after a write to PPUCTRL\<close>

lemma tickPPU_nmi_quiet:
  assumes "nmi_delay (ppu nes) \<noteq> 0" and "nmi_delay (ppu nes) \<noteq> 1"
  shows "tickPPU_nmi nes = nes\<lparr>ppu := (ppu nes)\<lparr>nmi_delay := nmi_delay (ppu nes) - 1\<rparr>\<rparr>"
  using assms by (simp add: tickPPU_nmi_def Let_def word_greater_zero_iff)

lemma tickPPU_nmi_fires:
  assumes "nmi_delay (ppu nes) = 1" and "nmi_out (ppu nes)" and "nmi_occurred (ppu nes)"
  shows "interrupt (cpu (tickPPU_nmi nes)) = interruptNMI"
  using assms by (simp add: tickPPU_nmi_def Let_def)

lemma tickPPU_cpu:
  assumes "tickPPU nes = Some nes'"
  shows "cpu nes' = cpu (tickPPU_nmi nes)"
proof -
  from tickPPU_decompose [OF assms] obtain mid where
    c: "tick_core mid = tick_core ((tickPPU_nmi nes)\<lparr>ppu := tickPPU_advance (ppu (tickPPU_nmi nes))\<rparr>)"
    and r: "nes' = mid\<lparr>ppu := tickPPU_vblank
                 (scanline (tickPPU_advance (ppu (tickPPU_nmi nes))) = 261) (ppu mid)\<rparr>"
    by blast
  from c have "cpu mid = cpu (tickPPU_nmi nes)" by (simp add: tick_core_def)
  with r show ?thesis by simp
qed

lemma u8_unat_pred: "unat (d::u8) = k \<Longrightarrow> 1 \<le> k \<Longrightarrow> unat (d - 1) = k - 1"
  by (metis One_nat_def unat_minus_one unat_eq_zero not_one_le_zero)

lemma nmi_pending_step:
  assumes t: "tickPPU nes = Some nes'"
    and p: "nmi_pending k (ppu nes)" and k: "2 \<le> k" "k \<le> 15"
  shows "nmi_pending (k - 1) (ppu nes')"
proof -
  have d0: "nmi_delay (ppu nes) \<noteq> 0" and d1: "nmi_delay (ppu nes) \<noteq> 1"
    using p k by (auto simp add: nmi_pending_def)
  have dk: "unat (nmi_delay (ppu nes) - 1) = k - 1"
    using p k by (simp add: nmi_pending_def u8_unat_pred)
  define a where "a = tickPPU_advance (ppu (tickPPU_nmi nes))"
  from tickPPU_decompose [OF t] obtain mid where
    c: "tick_core mid = tick_core ((tickPPU_nmi nes)\<lparr>ppu := a\<rparr>)"
    and r: "nes' = mid\<lparr>ppu := tickPPU_vblank (scanline a = 261) (ppu mid)\<rparr>"
    unfolding a_def by blast
  have n: "tickPPU_nmi nes = nes\<lparr>ppu := (ppu nes)\<lparr>nmi_delay := nmi_delay (ppu nes) - 1\<rparr>\<rparr>"
    using d0 d1 by (rule tickPPU_nmi_quiet)
  have m: "nmi_occurred (ppu mid) = nmi_occurred (ppu nes)"
          "nmi_out (ppu mid) = nmi_out (ppu nes)"
          "nmi_last (ppu mid) = nmi_last (ppu nes)"
          "nmi_delay (ppu mid) = nmi_delay (ppu nes) - 1"
          "cycle (ppu mid) = cycle a" "scanline (ppu mid) = scanline a"
    using c unfolding a_def n
    by (simp_all add: tick_core_def ppu_core_def tickPPU_advance_def Let_def)
  have adv: "\<not> nmi_last (ppu nes) \<Longrightarrow> scanline a = 261 \<and> cycle a = cycle (ppu nes) + 1"
    using p k unfolding a_def n
    by (auto simp add: nmi_pending_def tickPPU_advance_def Let_def)
  show ?thesis
  proof (cases "nmi_last (ppu nes)")
    case True
    then show ?thesis
      using p k dk m unfolding r
      by (auto simp add: nmi_pending_def tickPPU_vblank_def PPUnmiShift_def Let_def)
  next
    case False
    then show ?thesis
      using p k dk m adv [OF False] unfolding r
      by (auto simp add: nmi_pending_def tickPPU_vblank_def PPUnmiShift_def Let_def)
  qed
qed


lemma ticksPPU_pending:
  "ticksPPU n nes = Some nes' \<Longrightarrow> nmi_pending k (ppu nes) \<Longrightarrow> n < k \<Longrightarrow> k \<le> 15
     \<Longrightarrow> nmi_pending (k - n) (ppu nes')"
proof (induction n arbitrary: nes k)
  case 0
  then show ?case by simp
next
  case (Suc n)
  from Suc.prems(1) obtain nes1 where
    t: "tickPPU nes = Some nes1" and r: "ticksPPU n nes1 = Some nes'"
    by (auto split: option.splits)
  have "nmi_pending (k - 1) (ppu nes1)"
    using t Suc.prems(2) by (rule nmi_pending_step) (use Suc.prems in simp_all)
  from Suc.IH [OF r this] Suc.prems show ?case by simp
qed

lemma ticksPPU_returns:
  "sprite_cnt (ppu nes) \<le> 255
     \<Longrightarrow> \<exists>nes'. ticksPPU n nes = Some nes' \<and> sprite_cnt (ppu nes') \<le> 255"
proof (induction n arbitrary: nes)
  case 0
  then show ?case by simp
next
  case (Suc n)
  from tickPPU_returns [OF Suc.prems] obtain nes1 where t: "tickPPU nes = Some nes1" by blast
  from tickPPU_sprite_cnt [OF t Suc.prems] Suc.IH [of nes1] t show ?case by simp
qed

lemma nmi_fires_on_last_dot:
  assumes "tickPPU nes = Some nes'" and "nmi_pending 1 (ppu nes)" and "nmi_occurred (ppu nes)"
  shows "interrupt (cpu nes') = interruptNMI"
proof -
  have "unat (nmi_delay (ppu nes)) = 1" and o: "nmi_out (ppu nes)"
    using assms(2) by (simp_all add: nmi_pending_def)
  then have "nmi_delay (ppu nes) = 1" using word_unat_eq_iff [of "nmi_delay (ppu nes)" 1] by simp
  from tickPPU_nmi_fires [OF this o assms(3)] tickPPU_cpu [OF assms(1)] show ?thesis by simp
qed

lemma writePPUCtrl_0x80_pending:
  assumes "nmi_occurred (ppu nes)" and "\<not> nmi_last (ppu nes)"
  shows "\<exists>nes1. writeByte nes 0x2000 0x80 = Some nes1 \<and> nmi_pending 15 (ppu nes1)
           \<and> sprite_cnt (ppu nes1) = sprite_cnt (ppu nes)
           \<and> scanline (ppu nes1) = scanline (ppu nes)
           \<and> nmi_occurred (ppu nes1)"
  using assms
  by (simp add: writeByte_PPU_register writeRegisterPPU_def writePPUCtrl_def PPUnmiShift_def
      nmi_pending_def Let_def)

lemma tickPPU_keeps_nmi_occurred:
  assumes t: "tickPPU nes = Some nes'" and o: "nmi_occurred (ppu nes)"
    and s: "240 \<le> scanline (ppu nes)" "scanline (ppu nes) < 260"
  shows "nmi_occurred (ppu nes') \<and> scanline (ppu nes) \<le> scanline (ppu nes')
           \<and> scanline (ppu nes') \<le> scanline (ppu nes) + 1"
proof -
  define a where "a = tickPPU_advance (ppu (tickPPU_nmi nes))"
  from tickPPU_decompose [OF t] obtain mid where
    c: "tick_core mid = tick_core ((tickPPU_nmi nes)\<lparr>ppu := a\<rparr>)"
    and r: "nes' = mid\<lparr>ppu := tickPPU_vblank (scanline a = 261) (ppu mid)\<rparr>"
    unfolding a_def by blast
  have a: "nmi_occurred a" "scanline (ppu nes) \<le> scanline a" "scanline a \<le> scanline (ppu nes) + 1"
    using o s unfolding a_def by (simp_all add: tickPPU_nmi_def tickPPU_advance_def Let_def)
  have m: "nmi_occurred (ppu mid) = nmi_occurred a" "scanline (ppu mid) = scanline a"
    using c by (simp_all add: tick_core_def ppu_core_def)
  show ?thesis
    using a m s unfolding r by (simp add: tickPPU_vblank_def PPUnmiShift_def Let_def)
qed

lemma ticksPPU_keeps_nmi_occurred:
  "ticksPPU n nes = Some nes' \<Longrightarrow> nmi_occurred (ppu nes) \<Longrightarrow> 240 \<le> scanline (ppu nes)
     \<Longrightarrow> scanline (ppu nes) + int n \<le> 260 \<Longrightarrow> nmi_occurred (ppu nes')"
proof (induction n arbitrary: nes)
  case 0
  then show ?case by simp
next
  case (Suc n)
  from Suc.prems(1) obtain nes1 where
    t: "tickPPU nes = Some nes1" and r: "ticksPPU n nes1 = Some nes'"
    by (auto split: option.splits)
  from tickPPU_keeps_nmi_occurred [OF t Suc.prems(2,3)] Suc.prems(4)
  have "nmi_occurred (ppu nes1)" "240 \<le> scanline (ppu nes1)" "scanline (ppu nes1) + int n \<le> 260"
    using Suc.prems(3) by simp_all
  from Suc.IH [OF r this] show ?case .
qed

text \<open>Claim C9. Take any state in which \<^verbatim>\<open>nmi_occurred\<close> is set and \<^verbatim>\<open>nmi_last\<close> is clear. The
  write of \<^verbatim>\<open>0x80\<close> to \<^verbatim>\<open>$2000\<close> returns. Whenever the next fourteen calls of \<^verbatim>\<open>tickPPU\<close> and the
  fifteenth return, \<^verbatim>\<open>nmi_out\<close> still holds before the fifteenth call, and if \<^verbatim>\<open>nmi_occurred\<close>
  holds there as well, the fifteenth call leaves \<^verbatim>\<open>cpu->interrupt\<close> at \<^verbatim>\<open>interruptNMI\<close>: the
  interrupt is raised on the fifteenth dot after the write. The fifteen calls do return when
  \<^verbatim>\<open>sprite_cnt\<close> is at most 255, which is what lets the sprite loop of a visible dot leave.\<close>

theorem NMI_after_PPUCTRL_write:
  assumes "nmi_occurred (ppu nes)" and "\<not> nmi_last (ppu nes)"
  shows "\<exists>nes1. writeByte nes 0x2000 0x80 = Some nes1
      \<and> (\<forall>nes14 nes15. ticksPPU 14 nes1 = Some nes14 \<and> tickPPU nes14 = Some nes15
            \<longrightarrow> nmi_out (ppu nes14)
                \<and> (nmi_occurred (ppu nes14) \<longrightarrow> interrupt (cpu nes15) = interruptNMI))
      \<and> (sprite_cnt (ppu nes) \<le> 255
            \<longrightarrow> (\<exists>nes14 nes15. ticksPPU 14 nes1 = Some nes14 \<and> tickPPU nes14 = Some nes15))"
proof -
  from writePPUCtrl_0x80_pending [OF assms] obtain nes1 where
    w: "writeByte nes 0x2000 0x80 = Some nes1" and p: "nmi_pending 15 (ppu nes1)"
    and s: "sprite_cnt (ppu nes1) = sprite_cnt (ppu nes)" by blast
  have a: "nmi_out (ppu nes14)
      \<and> (nmi_occurred (ppu nes14) \<longrightarrow> interrupt (cpu nes15) = interruptNMI)"
    if t: "ticksPPU 14 nes1 = Some nes14" "tickPPU nes14 = Some nes15" for nes14 nes15
  proof -
    from ticksPPU_pending [OF t(1) p] have q: "nmi_pending 1 (ppu nes14)" by simp
    then have "nmi_out (ppu nes14)" by (simp add: nmi_pending_def)
    with nmi_fires_on_last_dot [OF t(2) q] show ?thesis by simp
  qed
  have b: "\<exists>nes14 nes15. ticksPPU 14 nes1 = Some nes14 \<and> tickPPU nes14 = Some nes15"
    if c: "sprite_cnt (ppu nes) \<le> 255"
  proof -
    from c s have "sprite_cnt (ppu nes1) \<le> 255" by simp
    from ticksPPU_returns [OF this, of 14] obtain nes14 where
      t: "ticksPPU 14 nes1 = Some nes14" and c14: "sprite_cnt (ppu nes14) \<le> 255" by blast
    from tickPPU_returns [OF c14] t show ?thesis by auto
  qed
  from w a b show ?thesis by blast
qed

theorem NMI_after_PPUCTRL_write_witness:
  "\<exists>nes1 nes14 nes15.
      writeByte (NES_blank\<lparr>ppu := (ppu NES_blank)\<lparr>scanline := 240, nmi_occurred := True\<rparr>\<rparr>) 0x2000 0x80 = Some nes1
    \<and> ticksPPU 14 nes1 = Some nes14 \<and> tickPPU nes14 = Some nes15
    \<and> nmi_out (ppu nes14) \<and> nmi_occurred (ppu nes14)
    \<and> interrupt (cpu nes15) = interruptNMI"
proof -
  define nes where "nes = NES_blank\<lparr>ppu := (ppu NES_blank)\<lparr>scanline := 240, nmi_occurred := True\<rparr>\<rparr>"
  have h: "nmi_occurred (ppu nes)" "\<not> nmi_last (ppu nes)" "sprite_cnt (ppu nes) \<le> 255"
    "scanline (ppu nes) = 240"
    by (simp_all add: nes_def NES_blank_def PPU_new_def)
  from NMI_after_PPUCTRL_write [OF h(1,2)] h(3) obtain nes1 nes14 nes15 where
    w: "writeByte nes 0x2000 0x80 = Some nes1"
    and t: "ticksPPU 14 nes1 = Some nes14" "tickPPU nes14 = Some nes15"
    and a: "\<forall>nes14 nes15. ticksPPU 14 nes1 = Some nes14 \<and> tickPPU nes14 = Some nes15
            \<longrightarrow> nmi_out (ppu nes14)
                \<and> (nmi_occurred (ppu nes14) \<longrightarrow> interrupt (cpu nes15) = interruptNMI)"
    by blast
  from writePPUCtrl_0x80_pending [OF h(1,2)] w h(4)
  have o: "nmi_occurred (ppu nes1)" and l: "scanline (ppu nes1) = 240" by auto
  have "nmi_occurred (ppu nes14)"
    by (rule ticksPPU_keeps_nmi_occurred [OF t(1) o]) (simp_all add: l)
  with a t w show ?thesis unfolding nes_def by blast
qed

subsection \<open>Bit 15 of \<^verbatim>\<open>v\<close> and \<^verbatim>\<open>t\<close>\<close>

lemma NES_new_v_t:
  assumes "NES_new c = Some nes"
  shows "ppu_t (ppu nes) = 0 \<and> ppu_v (ppu nes) = 0"
  using assms
  by (auto simp add: NES_new_def Let_def writePPUCtrl_def writePPUMask_def PPUnmiShift_def
      PPU_new_def split: Option.bind_splits prod.splits)

lemma tickPPU_v_t:
  assumes "tickPPU nes = Some nes'"
  shows "ppu_t (ppu nes') = ppu_t (ppu nes)
       \<and> bit (ppu_v (ppu nes')) 15 = bit (ppu_v (ppu nes)) 15"
proof -
  define a where "a = tickPPU_advance (ppu (tickPPU_nmi nes))"
  from tickPPU_decompose [OF assms] obtain mid where
    c: "tick_core mid = tick_core ((tickPPU_nmi nes)\<lparr>ppu := a\<rparr>)"
    and r: "nes' = mid\<lparr>ppu := tickPPU_vblank (scanline a = 261) (ppu mid)\<rparr>"
    unfolding a_def by blast
  have a: "ppu_t a = ppu_t (ppu nes)" "bit (ppu_v a) 15 = bit (ppu_v (ppu nes)) 15"
    unfolding a_def by (simp_all add: tickPPU_nmi_def tickPPU_advance_def Let_def)
  have m: "ppu_t (ppu mid) = ppu_t a" "bit (ppu_v (ppu mid)) 15 = bit (ppu_v a) 15"
    using c by (simp_all add: tick_core_def ppu_core_def)
  show ?thesis
    using a m unfolding r by (simp add: tickPPU_vblank_def PPUnmiShift_def Let_def)
qed

lemma readPPURegister_t: "ppu_t (ppu (snd (readPPURegister nes a))) = ppu_t (ppu nes)"
  by (simp add: readPPURegister_def Let_def PPUnmiShift_def split: prod.splits)

lemma readPPURegister_v:
  "a \<noteq> 0x2007 \<Longrightarrow> ppu_v (ppu (snd (readPPURegister nes a))) = ppu_v (ppu nes)"
  by (simp add: readPPURegister_def Let_def PPUnmiShift_def)

lemma readPPURegister_2007:
  "ppu_v (ppu (snd (readPPURegister nes 0x2007)))
     = ppu_v (ppu nes) + (if flag_increment (ppu nes) = 0 then 1 else 32)"
  by (simp add: readPPURegister_def Let_def split: prod.splits)

lemma readByte_t: "ppu_t (ppu (snd (readByte nes a))) = ppu_t (ppu nes)"
  by (simp add: readByte_def readPPURegister_t Let_def split: prod.splits)

lemma dma_loop_t: "ppu_t (ppu (dma_loop n nes a)) = ppu_t (ppu nes)"
proof (induction n arbitrary: nes a)
  case 0
  then show ?case by simp
next
  case (Suc n)
  obtain b nes1 where r: "readByte nes a = (b, nes1)" by (cases "readByte nes a")
  then have "ppu_t (ppu nes1) = ppu_t (ppu nes)" using readByte_t [of nes a] by simp
  then show ?case using r by (simp add: Suc.IH Let_def)
qed

lemma mapper_write_ppu: "mapper_write nes a x = Some nes' \<Longrightarrow> ppu nes' = ppu nes"
  by (auto simp add: mapper_write_def split: Mapper.splits)

lemma writePPU_ppu:
  assumes "writePPU nes a x = Some nes'"
  shows "ppu_t (ppu nes') = ppu_t (ppu nes) \<and> ppu_v (ppu nes') = ppu_v (ppu nes)
       \<and> flag_increment (ppu nes') = flag_increment (ppu nes)"
  using assms mapper_write_ppu [of nes "a AND 16383" x nes']
  by (auto simp add: writePPU_def Let_def split: if_splits)

lemma u8_bit15: "\<not> bit (x::u8) 15"
  using bit_imp_le_length [of x 15] by auto

lemma writeRegisterPPU_t:
  assumes "writeRegisterPPU nes a x = Some nes'"
  shows "bit (ppu_t (ppu nes')) 15 = bit (ppu_t (ppu nes)) 15"
proof -
  consider "a = 0x2007" | "a = 0x4014" | "a \<noteq> 0x2007 \<and> a \<noteq> 0x4014" by blast
  then show ?thesis
  proof cases
    case 1
    then obtain nes1 where
      w: "writePPU (nes\<lparr>ppu := (ppu nes)\<lparr>reg := x\<rparr>\<rparr>) (ppu_v (ppu nes)) x = Some nes1"
      and r: "nes' = nes1\<lparr>ppu := (ppu nes1)\<lparr>ppu_v :=
                ppu_v (ppu nes1) + (if flag_increment (ppu nes1) = 0 then 1 else 32)\<rparr>\<rparr>"
      using assms by (auto simp add: writeRegisterPPU_def Let_def split: Option.bind_splits)
    from writePPU_ppu [OF w] r show ?thesis by simp
  next
    case 2
    then show ?thesis
      using assms by (auto simp add: writeRegisterPPU_def Let_def dma_loop_t)
  next
    case 3
    then show ?thesis
      using assms
      by (auto simp add: writeRegisterPPU_def Let_def writePPUCtrl_def writePPUMask_def
          PPUnmiShift_def bit_simps u8_bit15 split: if_splits)
  qed
qed

lemma writeRegisterPPU_v:
  assumes "writeRegisterPPU nes a x = Some nes'" and "a \<noteq> 0x2007" and "a \<noteq> 0x4014"
    and "bit (ppu_v (ppu nes')) 15"
  shows "bit (ppu_v (ppu nes)) 15 \<or> bit (ppu_t (ppu nes)) 15"
  using assms
  by (auto simp add: writeRegisterPPU_def Let_def writePPUCtrl_def writePPUMask_def
      PPUnmiShift_def bit_simps u8_bit15 split: if_splits)

lemma writeRegisterPPU_2007:
  assumes "writeRegisterPPU nes 0x2007 x = Some nes'"
  shows "ppu_v (ppu nes')
       = ppu_v (ppu nes) + (if flag_increment (ppu nes) = 0 then 1 else 32)"
proof -
  obtain nes1 where
    w: "writePPU (nes\<lparr>ppu := (ppu nes)\<lparr>reg := x\<rparr>\<rparr>) (ppu_v (ppu nes)) x = Some nes1"
    and r: "nes' = nes1\<lparr>ppu := (ppu nes1)\<lparr>ppu_v :=
              ppu_v (ppu nes1) + (if flag_increment (ppu nes1) = 0 then 1 else 32)\<rparr>\<rparr>"
    using assms by (auto simp add: writeRegisterPPU_def Let_def split: Option.bind_splits)
  from writePPU_ppu [OF w] r show ?thesis by simp
qed

lemma tickPPU_NES_blank:
  "tickPPU NES_blank = Some (NES_blank\<lparr>ppu := (ppu NES_blank)\<lparr>cycle := 0, scanline := 251\<rparr>\<rparr>)"
  by (simp add: tickPPU_def tickPPU_nmi_def tickPPU_advance_def tickPPU_vblank_def
      NES_blank_def PPU_new_def Let_def)

text \<open>
  Claim C4 says that in every reachable state bit 15 of \<^verbatim>\<open>v\<close> and of \<^verbatim>\<open>t\<close> is 0, also after
  \<^verbatim>\<open>$2007\<close> data accesses. \<^verbatim>\<open>v\<close> is a \<^verbatim>\<open>uint16_t\<close> and the \<^verbatim>\<open>$2007\<close> accesses add 1 or 32 to
  it with no mask. From the power-on state, the bus writes \<^verbatim>\<open>$2005 = FF\<close>, \<^verbatim>\<open>$2005 = FF\<close>,
  \<^verbatim>\<open>$2000 = 03\<close> bring \<^verbatim>\<open>t\<close> to \<^verbatim>\<open>0x7FFF\<close>; \<^verbatim>\<open>$2005 = FF\<close> sets the write toggle, so that
  \<^verbatim>\<open>$2006 = FF\<close> takes the second-write branch and copies \<^verbatim>\<open>t\<close> to \<^verbatim>\<open>v\<close>; the write
  \<^verbatim>\<open>$2007 = 00\<close> then leaves \<^verbatim>\<open>v = 0x8000\<close>, which has bit 15 set.
\<close>

theorem v_bit15_counterexample:
  "NES_new blank_cartridge = Some NES_blank
   \<and> map_option (\<lambda>nes. ppu_v (ppu nes))
        (writeBytes NES_blank
           [(0x2005, 0xFF), (0x2005, 0xFF), (0x2000, 0x03), (0x2005, 0xFF), (0x2006, 0xFF),
            (0x2007, 0x00)])
       = Some 0x8000
   \<and> bit (0x8000 :: u16) 15"
  by (simp add: NES_new_blank writeByte_PPU_register writeRegisterPPU_def writePPUCtrl_def
      PPUnmiShift_def writePPU_def NES_blank_def PPU_new_def Let_def bit_simps)

subsection \<open>PPU memory addresses\<close>

lemma readPPU_mask: "readPPU nes address = readPPU nes (address AND 0x3FFF)"
  by (simp add: readPPU_def Let_def)

lemma writePPU_mask: "writePPU nes address value = writePPU nes (address AND 0x3FFF) value"
  by (simp add: writePPU_def Let_def)

subsection \<open>The reads of OAM DMA\<close>

lemma readPPURegister_increment:
  "flag_increment (ppu (snd (readPPURegister nes a))) = flag_increment (ppu nes)"
  by (simp add: readPPURegister_def Let_def PPUnmiShift_def split: prod.splits)

lemma low3_unat: "((a::u16) AND 7 = 7) = (unat a mod 8 = 7)"
proof -
  have e: "a AND 7 = take_bit 3 a" by (simp add: take_bit_eq_mask mask_eq_exp_minus_1)
  have "unat (take_bit 3 a) = take_bit 3 (unat a)" by (rule unsigned_take_bit_eq)
  also have "\<dots> = unat a mod 8" by (simp add: take_bit_eq_mod)
  finally have "unat (a AND 7) = unat a mod 8" unfolding e .
  then show ?thesis using word_unat_eq_iff [of "a AND 7" 7] by simp
qed

lemma register_2007: "(0x2000 + ((a::u16) AND 7) = 0x2007) = (a AND 7 = 7)"
  by auto

lemma readByte_v:
  "ppu_v (ppu (snd (readByte nes a)))
     = ppu_v (ppu nes)
       + (if 8192 \<le> unat a \<and> unat a < 16384 \<and> unat a mod 8 = 7
          then (if flag_increment (ppu nes) = 0 then 1 else 32) else 0)"
proof -
  have r: "(a < 0x2000) = (unat a < 8192)" "(a < 0x4000) = (unat a < 16384)"
    by (simp_all add: word_less_nat_alt)
  consider (ram) "a < 0x2000"
    | (hit) "\<not> a < 0x2000" "a < 0x4000" "a AND 7 = 7"
    | (other) "\<not> a < 0x2000" "a < 0x4000" "a AND 7 \<noteq> 7"
    | (high) "\<not> a < 0x4000"
    by blast
  then show ?thesis
  proof cases
    case ram
    then have "readByte nes a = (RAM nes (uint (a AND 2047)), nes)" by (simp add: readByte_def)
    then show ?thesis using ram r by simp
  next
    case hit
    then have "readByte nes a = readPPURegister nes 0x2007" by (simp add: readByte_def)
    then show ?thesis using hit r low3_unat [of a] readPPURegister_2007 [of nes] by simp
  next
    case other
    then have e: "readByte nes a = readPPURegister nes (0x2000 + (a AND 7))"
      by (simp add: readByte_def)
    have "0x2000 + (a AND 7) \<noteq> 0x2007" using other(3) register_2007 [of a] by simp
    from readPPURegister_v [OF this, of nes] show ?thesis
      using other low3_unat [of a] unfolding e by simp
  next
    case high
    then have u: "\<not> unat a < 16384" using r by simp
    then have l: "\<not> a < 0x2000" using r by simp
    have "ppu_v (ppu (snd (readByte nes a))) = ppu_v (ppu nes)"
      using high l readPPURegister_v [of "0x4014" nes]
      by (simp add: readByte_def Let_def split: prod.splits)
    then show ?thesis using u by simp
  qed
qed

lemma readByte_increment:
  "flag_increment (ppu (snd (readByte nes a))) = flag_increment (ppu nes)"
  by (simp add: readByte_def Let_def readPPURegister_increment split: prod.splits)

lemma dma_loop_v:
  "unat a + n \<le> 65536 \<Longrightarrow>
   ppu_v (ppu (dma_loop n nes a))
     = ppu_v (ppu nes)
       + of_nat (ppudata_reads n (unat a)) * (if flag_increment (ppu nes) = 0 then 1 else 32)
   \<and> flag_increment (ppu (dma_loop n nes a)) = flag_increment (ppu nes)"
proof (induction n arbitrary: nes a)
  case 0
  then show ?case by simp
next
  case (Suc n)
  obtain b nes1 where r: "readByte nes a = (b, nes1)" by (cases "readByte nes a")
  define nes2 where "nes2 = nes1\<lparr>ppu := (ppu nes1)\<lparr>
      oam_tbl := (oam_tbl (ppu nes1))(uint (oam_addr (ppu nes1)) := b),
      oam_addr := oam_addr (ppu nes1) + 1\<rparr>\<rparr>"
  have v1: "ppu_v (ppu nes2)
     = ppu_v (ppu nes)
       + (if 8192 \<le> unat a \<and> unat a < 16384 \<and> unat a mod 8 = 7
          then (if flag_increment (ppu nes) = 0 then 1 else 32) else 0)"
    and f1: "flag_increment (ppu nes2) = flag_increment (ppu nes)"
    using readByte_v [of nes a] readByte_increment [of nes a] r by (simp_all add: nes2_def)
  have d: "dma_loop (Suc n) nes a = dma_loop n nes2 (a + 1)"
    using r by (simp add: nes2_def Let_def)
  show ?case
  proof (cases "n = 0")
    case True
    then show ?thesis unfolding d using v1 f1 by simp
  next
    case False
    with Suc.prems have "unat a + 1 < 65536" by simp
    then have u: "unat (a + 1) = Suc (unat a)" by (simp add: unat_add_lem [THEN iffD1])
    with Suc.prems have "unat (a + 1) + n \<le> 65536" by simp
    from Suc.IH [OF this, of nes2] show ?thesis
      unfolding d u using v1 f1 by (simp add: algebra_simps)
  qed
qed

lemma ppudata_reads_add:
  "ppudata_reads (m + n) s = ppudata_reads m s + ppudata_reads n (s + m)"
  by (induction m arbitrary: s) simp_all

lemma ppudata_reads_miss:
  "n \<le> 7 \<Longrightarrow> s mod 8 + n \<le> 7 \<Longrightarrow> ppudata_reads n s = 0"
proof (induction n arbitrary: s)
  case 0
  then show ?case by simp
next
  case (Suc n)
  have a: "s mod 8 \<noteq> 7" using Suc.prems by simp
  have "Suc s mod 8 = Suc (s mod 8)" using a by (simp add: mod_Suc)
  then have "ppudata_reads n (Suc s) = 0" using Suc.prems by (intro Suc.IH) simp_all
  then show ?case using a by simp
qed

lemma ppudata_reads_8:
  assumes "s mod 8 = 0"
  shows "ppudata_reads 8 s = (if 8192 \<le> s \<and> s < 16384 then 1 else 0)"
proof -
  have e: "(8::nat) = 7 + Suc 0" by simp
  have m: "ppudata_reads 7 s = 0" using assms by (intro ppudata_reads_miss) simp_all
  have l: "(s + 7) mod 8 = 7" using assms by presburger
  have r: "(8192 \<le> s + 7 \<and> s + 7 < 16384) = (8192 \<le> s \<and> s < 16384)"
    using assms by presburger
  show ?thesis unfolding e ppudata_reads_add m using l r by simp
qed

lemma ppudata_reads_page:
  "k \<le> 32 \<Longrightarrow> ppudata_reads (8 * k) (256 * q) = (if 32 \<le> q \<and> q < 64 then k else 0)"
proof (induction k)
  case 0
  then show ?case by simp
next
  case (Suc k)
  have m: "(256 * q + 8 * k) mod 8 = 0" by presburger
  have e: "8 * Suc k = 8 * k + 8" by simp
  have i: "(8192 \<le> 256 * q + 8 * k \<and> 256 * q + 8 * k < 16384) = (32 \<le> q \<and> q < 64)"
    using Suc.prems by arith
  show ?case
    unfolding e ppudata_reads_add ppudata_reads_8 [OF m] i
    using Suc by simp
qed

lemma page_start: "unat (push_bit 8 (ucast (x::u8)) :: u16) = 256 * unat x"
proof -
  have l: "unat x < 256" using unsigned_less [of x, where 'a = nat] by simp
  have u: "unat (ucast x :: u16) = unat x"
    using l by (simp add: unsigned_ucast_eq take_bit_nat_eq_self)
  have "unat (ucast x * 256 :: u16) = unat (ucast x :: u16) * unat (256 :: u16)"
    using l u by (simp add: unat_mult_lem [THEN iffD1])
  then show ?thesis using u by (simp add: push_bit_eq_mult)
qed

lemma writeRegisterPPU_4014_v:
  assumes "writeRegisterPPU nes 0x4014 x = Some nes'"
  shows "ppu_v (ppu nes')
       = ppu_v (ppu nes)
         + (if 0x20 \<le> x \<and> x < 0x40
            then 32 * (if flag_increment (ppu nes) = 0 then 1 else 32) else 0)"
proof -
  define n0 where "n0 = nes\<lparr>ppu := (ppu nes)\<lparr>reg := x\<rparr>\<rparr>"
  have r: "ppu_v (ppu nes') = ppu_v (ppu (dma_loop 256 n0 (push_bit 8 (ucast x))))"
    using assms by (auto simp add: writeRegisterPPU_def Let_def n0_def)
  have b: "unat (push_bit 8 (ucast x) :: u16) + 256 \<le> 65536"
    using unsigned_less [of x, where 'a = nat] by (simp add: page_start)
  have c: "ppudata_reads 256 (256 * unat x) = (if 32 \<le> unat x \<and> unat x < 64 then 32 else 0)"
    using ppudata_reads_page [of 32 "unat x"] by simp
  have w: "(0x20 \<le> x \<and> x < 0x40) = (32 \<le> unat x \<and> unat x < 64)"
    by (simp add: word_le_nat_alt word_less_nat_alt)
  from dma_loop_v [OF b, of n0] show ?thesis
    unfolding r page_start c w by (simp add: n0_def)
qed

subsection \<open>Reachable states\<close>

lemma writeByte_t:
  assumes "writeByte nes a x = Some nes'"
  shows "bit (ppu_t (ppu nes')) 15 = bit (ppu_t (ppu nes)) 15"
  using assms writeRegisterPPU_t [of nes "0x2000 + (a AND 7)" x nes']
    writeRegisterPPU_t [of nes "0x4014" x nes'] mapper_write_ppu [of nes a x nes']
  by (auto simp add: writeByte_def split: if_splits)

lemma reach_t_bit15: "reach nes \<Longrightarrow> \<not> bit (ppu_t (ppu nes)) 15"
proof (induction rule: reach.induct)
  case (reach_new c nes)
  then show ?case using NES_new_v_t [of c nes] by simp
next
  case (reach_tick nes nes')
  then show ?case using tickPPU_v_t [of nes nes'] by simp
next
  case (reach_read nes address)
  then show ?case by (simp add: readByte_t)
next
  case (reach_write nes address "value" nes')
  then show ?case using writeByte_t [of nes address "value" nes'] by simp
qed simp_all

lemma reach_writeBytes: "reach nes \<Longrightarrow> writeBytes nes ws = Some nes' \<Longrightarrow> reach nes'"
proof (induction ws arbitrary: nes)
  case Nil
  then show ?case by simp
next
  case (Cons w ws)
  obtain a x where w: "w = (a, x)" by (cases w)
  from Cons.prems(2) obtain nes1 where
    s: "writeByte nes a x = Some nes1" and r: "writeBytes nes1 ws = Some nes'"
    unfolding w by (auto split: option.splits)
  from Cons.IH [OF reach_write [OF Cons.prems(1) s] r] show ?case .
qed


subsection \<open>Two writes to PPUADDR in a reachable state\<close>

text \<open>
  Claim C6. In every state the emulator can reach in which the write toggle \<^verbatim>\<open>w\<close> is 0, the
  writes of \<open>hi\<close> and then \<open>lo\<close> to \<^verbatim>\<open>$2006\<close> return and leave
  \<^verbatim>\<open>v == ((hi & 0x3F) << 8) | lo\<close> and \<^verbatim>\<open>w == 0\<close>. The first write masks \<^verbatim>\<open>t\<close> with \<^verbatim>\<open>0x80FF\<close>,
  which keeps bit 15 of \<^verbatim>\<open>t\<close>; that bit is 0 in every reachable state.
\<close>

theorem PPUADDR_two_writes:
  assumes "reach nes" and "ppu_w (ppu nes) = 0"
  shows "\<exists>nes2.
           writeBytes nes [(0x2006, hi), (0x2006, lo)] = Some nes2
         \<and> ppu_v (ppu nes2) = push_bit 8 (ucast hi AND 0x3F) OR ucast lo
         \<and> ppu_w (ppu nes2) = 0"
  using writeBytes_2006_twice [OF assms(2), of hi lo]
    t_bit15_clear [OF reach_t_bit15 [OF assms(1)]]
  by simp

theorem PPUADDR_two_writes_witness:
  "\<exists>nes nes2.
      writeBytes NES_blank [(0x2005, 0xFF), (0x2005, 0xFF), (0x2000, 0x03)] = Some nes
    \<and> reach nes \<and> ppu_w (ppu nes) = 0 \<and> ppu_t (ppu nes) = 0x7FFF
    \<and> writeBytes nes [(0x2006, 0xFF), (0x2006, 0x34)] = Some nes2
    \<and> ppu_v (ppu nes2) = 0x3F34 \<and> ppu_w (ppu nes2) = 0"
proof -
  obtain nes where
    w: "writeBytes NES_blank [(0x2005, 0xFF), (0x2005, 0xFF), (0x2000, 0x03)] = Some nes"
    and t: "ppu_w (ppu nes) = 0" "ppu_t (ppu nes) = 0x7FFF"
    by (simp add: writeByte_PPU_register writeRegisterPPU_def writePPUCtrl_def PPUnmiShift_def
        NES_blank_def PPU_new_def Let_def)
  have r: "reach nes"
    using reach_writeBytes [OF reach_new [OF NES_new_blank] w] .
  have c: "(push_bit 8 (ucast (0xFF :: u8) AND 0x3F) OR ucast (0x34 :: u8) :: u16) = 0x3F34"
    by simp
  from PPUADDR_two_writes [OF r t(1), of "0xFF" "0x34"] c w r t show ?thesis by auto
qed

subsection \<open>Bit 15 of \<^verbatim>\<open>v\<close> and \<^verbatim>\<open>t\<close> under every access\<close>

text \<open>
  Claim C4 as amended. At power-on \<^verbatim>\<open>t\<close> and \<^verbatim>\<open>v\<close> are 0. A PPU tick leaves \<^verbatim>\<open>t\<close> unchanged and
  keeps bit 15 of \<^verbatim>\<open>v\<close>. A register read leaves \<^verbatim>\<open>t\<close> unchanged, and leaves \<^verbatim>\<open>v\<close> unchanged
  unless it is the read of \<^verbatim>\<open>$2007\<close>. A register write keeps bit 15 of \<^verbatim>\<open>t\<close>, and, unless it
  is the write of \<^verbatim>\<open>$2007\<close> or the OAM DMA write of \<^verbatim>\<open>$4014\<close>, it leaves bit 15 of \<^verbatim>\<open>v\<close> clear
  when bit 15 of \<^verbatim>\<open>v\<close> and of \<^verbatim>\<open>t\<close> were clear. So bit 15 of \<^verbatim>\<open>t\<close> is 0 in every reachable
  state. A read or write of \<^verbatim>\<open>$2007\<close> adds 1 or 32 to the 16-bit \<^verbatim>\<open>v\<close> modulo \<open>2 ^ 16\<close>, with no
  mask, so it can carry into bit 15. The OAM DMA write of \<^verbatim>\<open>$4014\<close> with a page in
  \<^verbatim>\<open>0x20\<close>..\<^verbatim>\<open>0x3F\<close> makes 32 reads of \<^verbatim>\<open>$2007\<close> among its 256 bus reads and so adds 32 times
  that increment to \<^verbatim>\<open>v\<close>; with any other page it leaves \<^verbatim>\<open>v\<close> unchanged. The PPU memory
  accesses \<^verbatim>\<open>readPPU\<close> and \<^verbatim>\<open>writePPU\<close> mask their address with \<^verbatim>\<open>0x3FFF\<close>: an address and
  its 14 low bits give the same access.
\<close>

theorem v_t_bit15:
  "(NES_new cart = Some nes0 \<longrightarrow> ppu_t (ppu nes0) = 0 \<and> ppu_v (ppu nes0) = 0)
   \<and> (tickPPU nes = Some nes1 \<longrightarrow>
         ppu_t (ppu nes1) = ppu_t (ppu nes)
       \<and> bit (ppu_v (ppu nes1)) 15 = bit (ppu_v (ppu nes)) 15)
   \<and> ppu_t (ppu (snd (readPPURegister nes a))) = ppu_t (ppu nes)
   \<and> (a \<noteq> 0x2007 \<longrightarrow> ppu_v (ppu (snd (readPPURegister nes a))) = ppu_v (ppu nes))
   \<and> ppu_v (ppu (snd (readPPURegister nes 0x2007)))
       = ppu_v (ppu nes) + (if flag_increment (ppu nes) = 0 then 1 else 32)
   \<and> (writeRegisterPPU nes b x = Some nes2 \<longrightarrow>
         bit (ppu_t (ppu nes2)) 15 = bit (ppu_t (ppu nes)) 15
       \<and> (b \<noteq> 0x2007 \<and> b \<noteq> 0x4014
            \<and> \<not> bit (ppu_v (ppu nes)) 15 \<and> \<not> bit (ppu_t (ppu nes)) 15
           \<longrightarrow> \<not> bit (ppu_v (ppu nes2)) 15))
   \<and> (writeRegisterPPU nes 0x2007 y = Some nes3 \<longrightarrow>
         ppu_v (ppu nes3)
           = ppu_v (ppu nes) + (if flag_increment (ppu nes) = 0 then 1 else 32))
   \<and> (writeRegisterPPU nes 0x4014 z = Some nes4 \<longrightarrow>
         ppu_v (ppu nes4)
           = ppu_v (ppu nes)
             + (if 0x20 \<le> z \<and> z < 0x40
                then 32 * (if flag_increment (ppu nes) = 0 then 1 else 32) else 0))
   \<and> (reach nes \<longrightarrow> \<not> bit (ppu_t (ppu nes)) 15)
   \<and> readPPU nes pa = readPPU nes (pa AND 0x3FFF)
   \<and> writePPU nes pa pv = writePPU nes (pa AND 0x3FFF) pv"
  using NES_new_v_t [of cart nes0] tickPPU_v_t [of nes nes1] readPPURegister_t [of nes a]
    readPPURegister_v [of a nes] readPPURegister_2007 [of nes]
    writeRegisterPPU_t [of nes b x nes2] writeRegisterPPU_v [of nes b x nes2]
    writeRegisterPPU_2007 [of nes y nes3] writeRegisterPPU_4014_v [of nes z nes4]
    reach_t_bit15 [of nes] readPPU_mask [of nes pa] writePPU_mask [of nes pa pv]
  by blast

theorem v_t_bit15_witness:
  "\<exists>nes1 nes2 nes3 nes4.
      NES_new blank_cartridge = Some NES_blank
    \<and> reach NES_blank
    \<and> tickPPU NES_blank = Some nes1
    \<and> writeRegisterPPU NES_blank 0x2006 0x12 = Some nes2
    \<and> writeRegisterPPU NES_blank 0x2007 0 = Some nes3
    \<and> writeRegisterPPU NES_blank 0x4014 0x20 = Some nes4
    \<and> (0x2002 :: u16) \<noteq> 0x2007 \<and> (0x2006 :: u16) \<noteq> 0x2007 \<and> (0x2006 :: u16) \<noteq> 0x4014
    \<and> ppu_t (ppu NES_blank) = 0 \<and> ppu_v (ppu NES_blank) = 0
    \<and> ppu_t (ppu nes1) = 0 \<and> \<not> bit (ppu_v (ppu nes1)) 15
    \<and> ppu_t (ppu (snd (readPPURegister NES_blank 0x2002))) = 0
    \<and> ppu_v (ppu (snd (readPPURegister NES_blank 0x2002))) = 0
    \<and> ppu_v (ppu (snd (readPPURegister NES_blank 0x2007))) = 1
    \<and> \<not> bit (ppu_t (ppu nes2)) 15 \<and> \<not> bit (ppu_v (ppu nes2)) 15
    \<and> ppu_v (ppu nes3) = 1
    \<and> ppu_v (ppu nes4) = 32
    \<and> readPPU NES_blank 0xBF00 = readPPU NES_blank 0x3F00
    \<and> writePPU NES_blank 0xBF00 1 = writePPU NES_blank 0x3F00 1"
proof -
  obtain nes1 where t: "tickPPU NES_blank = Some nes1" using tickPPU_NES_blank by blast
  obtain nes2 where w: "writeRegisterPPU NES_blank 0x2006 0x12 = Some nes2"
    by (simp add: writeRegisterPPU_def NES_blank_def PPU_new_def Let_def)
  obtain nes3 where d: "writeRegisterPPU NES_blank 0x2007 0 = Some nes3"
    by (simp add: writeRegisterPPU_def writePPU_def mapper_write_def Mapper2_write_def
        NES_blank_def PPU_new_def Let_def)
  obtain nes4 where o: "writeRegisterPPU NES_blank 0x4014 0x20 = Some nes4"
    by (simp add: writeRegisterPPU_def Let_def)
  have r: "reach NES_blank" using reach_new [OF NES_new_blank] .
  have i: "flag_increment (ppu NES_blank) = 0" by (simp add: NES_blank_def PPU_new_def)
  have n: "(0x2002 :: u16) \<noteq> 0x2007" "(0x2006 :: u16) \<noteq> 0x2007" "(0x2006 :: u16) \<noteq> 0x4014"
    by simp_all
  have m: "(0xBF00 :: u16) AND 0x3FFF = 0x3F00" by simp
  from v_t_bit15 [where cart = blank_cartridge and ?nes0.0 = NES_blank and nes = NES_blank
      and ?nes1.0 = nes1 and a = "0x2002" and b = "0x2006" and x = "0x12" and ?nes2.0 = nes2
      and y = 0 and ?nes3.0 = nes3 and z = "0x20" and ?nes4.0 = nes4 and pa = "0xBF00"
      and pv = 1]
    NES_new_blank t w d o r i n m
  show ?thesis by simp
qed

end
